theory Spec2Isabelle
  imports Main "HOL-Library.Sublist"
begin

section \<open>Python strings\<close>

text \<open>
  A Python \<open>str\<close> is modelled as a \<open>string\<close> holding its UTF-8 bytes. The methods
  \<open>str.lower\<close>, \<open>str.upper\<close>, \<open>str.strip\<close> and \<open>str.split\<close> work on Unicode
  text; the program takes them from the standard library, and so does the model (record
  \<open>pylib\<close> below). The four functions that follow are their restrictions to ASCII text,
  where case mapping touches the 26 letters and white space is one of ten characters; they
  serve the example library at the end, whose inputs are ASCII, and the literal
  \<open>'pdf'\<close> in the Reports adapter.
\<close>

definition lower_char :: "char \<Rightarrow> char" where
  "lower_char c =
     (case map_of (zip ''ABCDEFGHIJKLMNOPQRSTUVWXYZ'' ''abcdefghijklmnopqrstuvwxyz'') c of
        Some d \<Rightarrow> d
      | None \<Rightarrow> c)"

definition upper_char :: "char \<Rightarrow> char" where
  "upper_char c =
     (case map_of (zip ''abcdefghijklmnopqrstuvwxyz'' ''ABCDEFGHIJKLMNOPQRSTUVWXYZ'') c of
        Some d \<Rightarrow> d
      | None \<Rightarrow> c)"

definition ascii_lower :: "string \<Rightarrow> string" where
  "ascii_lower s = map lower_char s"

definition ascii_upper :: "string \<Rightarrow> string" where
  "ascii_upper s = map upper_char s"

definition is_space :: "char \<Rightarrow> bool" where
  "is_space c =
     (c \<in> set [CHR 0x09, CHR 0x0A, CHR 0x0B, CHR 0x0C, CHR 0x0D,
                CHR 0x1C, CHR 0x1D, CHR 0x1E, CHR 0x1F, CHR 0x20])"

definition ascii_strip :: "string \<Rightarrow> string" where
  "ascii_strip s = rev (dropWhile is_space (rev (dropWhile is_space s)))"

text \<open>\<open>py_in w s\<close> is Python's \<open>w in s\<close> on strings: \<open>w\<close> occurs as a contiguous piece.\<close>

fun py_in :: "string \<Rightarrow> string \<Rightarrow> bool" where
  "py_in w [] = (w = [])"
| "py_in w (c # cs) = (prefix w (c # cs) \<or> py_in w cs)"

text \<open>\<open>any(k in s for k in ks)\<close>.\<close>

definition any_in :: "string list \<Rightarrow> string \<Rightarrow> bool" where
  "any_in ks s = list_ex (\<lambda>k. py_in k s) ks"

text \<open>\<open>s.count(w)\<close>: the number of non-overlapping occurrences, scanning from the left.\<close>

function py_count :: "string \<Rightarrow> string \<Rightarrow> nat" where
  "py_count s w =
     (if w = [] then Suc (length s)
      else if length s < length w then 0
      else if prefix w s then Suc (py_count (drop (length w) s) w)
      else py_count (tl s) w)"
  by pat_completeness auto
termination
proof (relation "measure (\<lambda>(s, w). length s)")
  fix s w :: string
  assume "w \<noteq> []" and "\<not> length s < length w"
  then have "length s - length w < length s" and "length s - 1 < length s"
    by (cases w; cases s; simp)+
  then show "((drop (length w) s, w), (s, w)) \<in> measure (\<lambda>(s, w). length s)"
    and "((tl s, w), (s, w)) \<in> measure (\<lambda>(s, w). length s)"
    by simp_all
qed simp

declare py_count.simps [simp del]

text \<open>\<open>sum(s.count(w) for w in ws)\<close>.\<close>

definition count_all :: "string \<Rightarrow> string list \<Rightarrow> nat" where
  "count_all s ws = sum_list (map (py_count s) ws)"

text \<open>The first position at which \<open>w\<close> occurs in \<open>s\<close> (\<open>s.find(w)\<close>), if any.\<close>

fun find_sub :: "string \<Rightarrow> string \<Rightarrow> nat option" where
  "find_sub w [] = (if w = [] then Some 0 else None)"
| "find_sub w (c # cs) =
     (if prefix w (c # cs) then Some 0 else map_option Suc (find_sub w cs))"

text \<open>
  \<open>split_n sep k s\<close> is \<open>s.split(sep, k)\<close> for a non-empty separator: at most \<open>k\<close> cuts,
  from the left. \<open>split_all sep s\<close> is \<open>s.split(sep)\<close>; a string of length \<open>n\<close> has
  fewer than \<open>n + 1\<close> occurrences of the separator.
\<close>

fun split_n :: "string \<Rightarrow> nat \<Rightarrow> string \<Rightarrow> string list" where
  "split_n sep 0 s = [s]"
| "split_n sep (Suc k) s =
     (case find_sub sep s of
        None \<Rightarrow> [s]
      | Some i \<Rightarrow> take i s # split_n sep k (drop (i + length sep) s))"

definition split_all :: "string \<Rightarrow> string \<Rightarrow> string list" where
  "split_all sep s = split_n sep (Suc (length s)) s"

text \<open>\<open>sep.join(xs)\<close>.\<close>

fun join :: "string \<Rightarrow> string list \<Rightarrow> string" where
  "join sep [] = []"
| "join sep [x] = x"
| "join sep (x # y # ys) = x @ sep @ join sep (y # ys)"

text \<open>\<open>s.replace('Z', '+00:00')\<close>.\<close>

definition replace_Z :: "string \<Rightarrow> string" where
  "replace_Z s = concat (map (\<lambda>c. if c = CHR ''Z'' then ''+00:00'' else [c]) s)"

text \<open>\<open>s.split()\<close> on ASCII text: the maximal pieces without white space.\<close>

function ascii_split :: "string \<Rightarrow> string list" where
  "ascii_split s =
     (let t = dropWhile is_space s
      in if t = [] then []
         else takeWhile (\<lambda>c. \<not> is_space c) t # ascii_split (dropWhile (\<lambda>c. \<not> is_space c) t))"
  by pat_completeness auto
termination
proof (relation "measure length")
  fix s t :: string
  assume t: "t = dropWhile is_space s" and ne: "t \<noteq> []"
  have "length (dropWhile (\<lambda>c. \<not> is_space c) t) < length t"
  proof (cases t)
    case Nil
    with ne show ?thesis by simp
  next
    case (Cons c cs)
    have "\<not> is_space c" using t Cons by (metis hd_dropWhile list.sel(1) ne)
    then have "dropWhile (\<lambda>c. \<not> is_space c) t = dropWhile (\<lambda>c. \<not> is_space c) cs"
      using Cons by simp
    moreover have "length (dropWhile (\<lambda>c. \<not> is_space c) cs) \<le> length cs"
      by (rule length_dropWhile_le)
    ultimately show ?thesis using Cons by simp
  qed
  moreover have "length t \<le> length s" unfolding t by (rule length_dropWhile_le)
  ultimately show "(dropWhile (\<lambda>c. \<not> is_space c) t, s) \<in> measure length" by simp
qed simp

declare ascii_split.simps [simp del]

text \<open>Decimal rendering of a natural number, as \<open>str(n)\<close> and \<open>f"{n}"\<close> give it.\<close>

function str_nat :: "nat \<Rightarrow> string" where
  "str_nat n =
     (if n < 10 then [''0123456789'' ! n] else str_nat (n div 10) @ [''0123456789'' ! (n mod 10)])"
  by pat_completeness auto
termination
  by (relation "measure id") auto

declare str_nat.simps [simp del]

definition nl :: string where
  "nl = [CHR 0x0A]"

text \<open>
  The decorations of the user-facing texts are not ASCII; each is kept as the bytes the
  source file holds for it.
\<close>

definition glyph_target :: string where
  "glyph_target = [CHR 0xC3, CHR 0xB0, CHR 0xC5, CHR 0xB8, CHR 0xC5, CHR 0xBD, CHR 0xC2, CHR 0xAF]"

definition glyph_bulb :: string where
  "glyph_bulb = [CHR 0xC3, CHR 0xB0, CHR 0xC5, CHR 0xB8, CHR 0xE2, CHR 0x80, CHR 0x99, CHR 0xC2, CHR 0xA1]"

definition glyph_rule :: string where
  "glyph_rule = [CHR 0xC3, CHR 0xA2, CHR 0xE2, CHR 0x80, CHR 0x9D, CHR 0xE2, CHR 0x82, CHR 0xAC]"

definition glyph_clock :: string where
  "glyph_clock = [CHR 0xC3, CHR 0xA2, CHR 0xC2, CHR 0xB0]"

definition glyph_bullet :: string where
  "glyph_bullet = [CHR 0xC3, CHR 0xA2, CHR 0xE2, CHR 0x82, CHR 0xAC, CHR 0xC2, CHR 0xA2]"

definition glyph_robot :: string where
  "glyph_robot = [CHR 0xC3, CHR 0xB0, CHR 0xC5, CHR 0xB8, CHR 0xC2, CHR 0xA4, CHR 0xE2, CHR 0x80, CHR 0x93]"

definition glyph_money :: string where
  "glyph_money = [CHR 0xC3, CHR 0xB0, CHR 0xC5, CHR 0xB8, CHR 0xE2, CHR 0x80, CHR 0x99, CHR 0xC2, CHR 0xB0]"

definition glyph_people :: string where
  "glyph_people = [CHR 0xC3, CHR 0xB0, CHR 0xC5, CHR 0xB8, CHR 0xE2, CHR 0x80, CHR 0x98, CHR 0xC2, CHR 0xA5]"

definition glyph_box :: string where
  "glyph_box = [CHR 0xC3, CHR 0xB0, CHR 0xC5, CHR 0xB8, CHR 0xE2, CHR 0x80, CHR 0x9C, CHR 0xC2, CHR 0xA6]"

definition glyph_chart :: string where
  "glyph_chart = [CHR 0xC3, CHR 0xB0, CHR 0xC5, CHR 0xB8, CHR 0xE2, CHR 0x80, CHR 0x9C, CHR 0xC5, CHR 0xA0]"

definition glyph_warn :: string where
  "glyph_warn = [CHR 0xC3, CHR 0xA2, CHR 0xC5, CHR 0xA1, CHR 0xC2, CHR 0xA0, CHR 0xC3, CHR 0xAF, CHR 0xC2, CHR 0xB8]"

section \<open>Base64 (Python's \<open>base64\<close> module)\<close>

definition b64_alphabet :: string where
  "b64_alphabet = ''ABCDEFGHIJKLMNOPQRSTUVWXYZabcdefghijklmnopqrstuvwxyz0123456789+/''"

definition b64_char :: "nat \<Rightarrow> char" where
  "b64_char n = b64_alphabet ! (n mod 64)"

text \<open>\<open>base64.b64encode\<close> on a byte string.\<close>

fun b64encode :: "string \<Rightarrow> string" where
  "b64encode [] = []"
| "b64encode [a] =
     (let x = (of_char a :: nat)
      in [b64_char (x div 4), b64_char ((x mod 4) * 16), CHR ''='', CHR ''=''])"
| "b64encode [a, b] =
     (let x = (of_char a :: nat); y = (of_char b :: nat)
      in [b64_char (x div 4), b64_char ((x mod 4) * 16 + y div 16),
          b64_char ((y mod 16) * 4), CHR ''=''])"
| "b64encode (a # b # c # rest) =
     (let x = (of_char a :: nat); y = (of_char b :: nat); z = (of_char c :: nat)
      in [b64_char (x div 4), b64_char ((x mod 4) * 16 + y div 16),
          b64_char ((y mod 16) * 4 + z div 64), b64_char (z mod 64)] @ b64encode rest)"

text \<open>
  \<open>base64.b64decode(s)\<close> with its default \<open>validate=False\<close>, following CPython's
  \<open>binascii.a2b_base64\<close>: a character outside the alphabet is skipped, a pad
  sequence that completes a quad ends the input, and data that stops inside a quad raises
  \<open>binascii.Error\<close> (\<open>None\<close>). A non-ASCII character in a \<open>str\<close> argument raises
  \<open>ValueError\<close> (\<open>None\<close> as well). The state is the position in the quad, the
  bits left over from the previous characters, and the number of pads seen.
\<close>

definition b64_value :: "char \<Rightarrow> nat option" where
  "b64_value c = map_of (zip b64_alphabet [0 ..< 64]) c"

fun a2b_base64 :: "string \<Rightarrow> nat \<Rightarrow> nat \<Rightarrow> nat \<Rightarrow> string option" where
  "a2b_base64 [] quad_pos leftchar pads = (if quad_pos = 0 then Some [] else None)"
| "a2b_base64 (c # cs) quad_pos leftchar pads =
     (if c = CHR ''='' then
        (if 2 \<le> quad_pos then
           (if 4 \<le> quad_pos + (pads + 1) then Some []
            else a2b_base64 cs quad_pos leftchar (pads + 1))
         else a2b_base64 cs quad_pos leftchar pads)
      else
        (case b64_value c of
           None \<Rightarrow> a2b_base64 cs quad_pos leftchar pads
         | Some v \<Rightarrow>
             (if quad_pos = 0 then a2b_base64 cs 1 v 0
              else if quad_pos = 1 then
                map_option ((#) (char_of (leftchar * 4 + v div 16))) (a2b_base64 cs 2 (v mod 16) 0)
              else if quad_pos = 2 then
                map_option ((#) (char_of (leftchar * 16 + v div 4))) (a2b_base64 cs 3 (v mod 4) 0)
              else
                map_option ((#) (char_of (leftchar * 64 + v))) (a2b_base64 cs 0 0 0))))"

definition b64decode :: "string \<Rightarrow> string option" where
  "b64decode s =
     (if list_ex (\<lambda>c. 128 \<le> (of_char c :: nat)) s then None else a2b_base64 s 0 0 0)"

section \<open>The chat application (AskMeChatBot.py)\<close>

subsection \<open>Configuration, the outside world and effects\<close>

text \<open>
  The module-level settings read from \<open>config.properties\<close>: \<open>CONFIG\<close> is the parsed
  file, \<open>CONFIG.get(k)\<close> is \<open>CONFIG cfg k\<close>.
\<close>

record config =
  USE_MOCK_RESPONSES :: bool
  GENAI_INTENT_MODE :: string
  CONFIG :: "string \<rightharpoonup> string"

text \<open>Python truthiness of an optional string: \<open>None\<close> and \<open>''\<close> are falsy.\<close>

definition truthy :: "string option \<Rightarrow> bool" where
  "truthy x = (case x of None \<Rightarrow> False | Some v \<Rightarrow> v \<noteq> [])"

text \<open>
  The exceptions the handlers tell apart, each with its message \<open>str(e)\<close>. The order of
  the \<open>except\<close> clauses is written out in the \<open>*_exn_text\<close> functions.
\<close>

datatype exn =
    Timeout string
  | RequestException string
  | JSONDecodeError string
  | OtherException string

text \<open>An HTTP exchange either raises or answers with a status code and a body.\<close>

type_synonym 'a http = "exn + nat \<times> 'a"

text \<open>The outcome of \<open>genai_client.chat\<close>: it raises, answers without a chat response, or answers with a text.\<close>

datatype chat_outcome = ChatRaises string | ChatEmpty | ChatText string

text \<open>
  A \<open>datetime\<close> as far as ordering goes: a naive one is its distance from
  \<open>datetime.min\<close> in microseconds, an aware one is its UTC instant. Python orders two naive or
  two aware values and raises \<open>TypeError\<close> on a mixed pair.
\<close>

datatype pydt = Naive nat | Aware int

definition datetime_min :: pydt where
  "datetime_min = Naive 0"

definition naive_aware_msg :: string where
  "naive_aware_msg = ''can'' @ [CHR 0x27] @ ''t compare offset-naive and offset-aware datetimes''"

fun dt_lt :: "pydt \<Rightarrow> pydt \<Rightarrow> exn + bool" where
  "dt_lt (Naive a) (Naive b) = Inr (a < b)"
| "dt_lt (Aware a) (Aware b) = Inr (a < b)"
| "dt_lt (Naive a) (Aware b) = Inl (OtherException naive_aware_msg)"
| "dt_lt (Aware a) (Naive b) = Inl (OtherException naive_aware_msg)"

text \<open>
  Functions of Python's standard library that the program calls and that are taken as
  given: \<open>str.lower\<close>, \<open>str.upper\<close>, \<open>str.strip\<close> and \<open>str.split\<close> (without
  argument), the three regular-expression searches (each returns the matched text) and
  \<open>datetime.fromisoformat\<close> (\<open>None\<close> when it raises).
\<close>

record pylib =
  str_lower :: "string \<Rightarrow> string"
  str_upper :: "string \<Rightarrow> string"
  str_strip :: "string \<Rightarrow> string"
  str_split :: "string \<Rightarrow> string list"
  re_report_bytes :: "string \<Rightarrow> string option"
  re_order_key :: "string \<Rightarrow> string option"
  re_long_id :: "string \<Rightarrow> string option"
  fromisoformat :: "string \<Rightarrow> pydt option"

text \<open>The JSON bodies, reduced to the fields the program reads, values rendered as text.\<close>

record order_detail =
  d_OrderKey :: "string option"
  d_StatusCode :: "string option"
  d_SubmittedBy :: "string option"
  d_SubmittedDate :: "string option"
  d_lines :: "(string \<times> string \<times> string) list"

datatype ts_field = TsAbsent | TsOther string | TsStr string

record order_item =
  OrderKey :: "string option"
  StatusCode :: "string option"
  CreatedBy :: "string option"
  LastUpdateDate :: ts_field

datatype export_json = NotJson | NotDict | ExportDict "string option" "string option"

text \<open>
  What the outside world answers during one request. A body of the Orders service is
  \<open>Inl e\<close> when reading it as JSON raises \<open>e\<close>. \<open>agent_api_live\<close> is the value
  \<open>call_agent_api\<close> computes from its HTTP exchange (\<open>None\<close> on every failure);
  \<open>reports_download\<close> answers the download attempt of the given index.
\<close>

record world =
  genai_client :: bool
  intent_chat :: "string \<Rightarrow> chat_outcome"
  general_chat :: "string \<Rightarrow> chat_outcome"
  agent_api_live :: "string \<Rightarrow> string \<Rightarrow> string option"
  finance_post :: "string http"
  orders_detail :: "string \<Rightarrow> (exn + order_detail) http"
  orders_list :: "(exn + order_item list) http"
  reports_export :: "export_json http"
  reports_download :: "nat \<Rightarrow> string http"

text \<open>
  The observable effects of a request, in order: an adapter is entered, an outbound call
  is made, the request sleeps for some seconds.
\<close>

datatype effect = Invoke string | NetCall string | Sleep nat

definition net_calls :: "effect list \<Rightarrow> string list" where
  "net_calls es = concat (map (\<lambda>e. case e of NetCall c \<Rightarrow> [c] | _ \<Rightarrow> []) es)"

definition invoked :: "effect list \<Rightarrow> string list" where
  "invoked es = concat (map (\<lambda>e. case e of Invoke a \<Rightarrow> [a] | _ \<Rightarrow> []) es)"

definition sleeps :: "effect list \<Rightarrow> nat list" where
  "sleeps es = concat (map (\<lambda>e. case e of Sleep n \<Rightarrow> [n] | _ \<Rightarrow> []) es)"

subsection \<open>Mock responses\<close>

definition MOCK_general :: "(string \<times> string) list" where
  "MOCK_general =
     [(''help'', ''I am a General Agent that can assist you with Finance, HR, or Orders queries. I can route your questions to specialized advisors or provide general information.''),
      (''capabilities'', ''I can help you with:'' @ nl @ glyph_bullet @ '' Financial queries (revenue, budgets, expenses)'' @ nl
         @ glyph_bullet @ '' HR policies (benefits, leave, work policies)'' @ nl
         @ glyph_bullet @ '' Order management (status, inventory, returns)'' @ nl
         @ glyph_bullet @ '' General information and routing''),
      (''services'', ''Our advisory system provides specialized assistance through dedicated agents for Finance, HR, and Orders. Ask me anything and I'' @ [CHR 0x27] @ ''ll connect you with the right expert.'')]"

definition MOCK_finance :: "(string \<times> string) list" where
  "MOCK_finance =
     [(''revenue'', ''Based on our financial analysis, the Q3 revenue shows a 15% increase YoY with strong performance in APAC region.''),
      (''expenses'', ''Current expense trends indicate a 10% reduction in operational costs due to automation initiatives.''),
      (''budget'', ''The annual budget allocation shows 40% for R&D, 30% for Operations, and 30% for Marketing.'')]"

definition MOCK_hr :: "(string \<times> string) list" where
  "MOCK_hr =
     [(''policy'', ''Our work-from-home policy allows 3 days remote work per week with core hours from 10 AM to 4 PM.''),
      (''benefits'', ''Employee benefits include comprehensive health insurance, 401k matching up to 6%, and annual learning allowance.''),
      (''leave'', ''Annual leave policy includes 20 days PTO, 10 sick days, and additional floating holidays.'')]"

definition MOCK_orders :: "(string \<times> string) list" where
  "MOCK_orders =
     [(''status'', ''Current order fulfillment rate is at 95% with average delivery time of 2.3 days.''),
      (''inventory'', ''Warehouse inventory levels are optimal with 98% stock availability.''),
      (''returns'', ''Return rate is below industry average at 2.3% with high customer satisfaction.'')]"

definition MOCK_reports :: "(string \<times> string) list" where
  "MOCK_reports =
     [(''workbook'', ''Your OAC workbook export is being prepared. This typically takes a few moments.''),
      (''analytics'', ''Analytics workbook export service is ready. Request a report and I'' @ [CHR 0x27] @ ''ll generate it for you.''),
      (''export'', ''Workbook export completed successfully. Download is ready.'')]"

text \<open>
  \<open>for keyword, response in table.items(): if keyword in q: return response\<close>, then the
  default entry \<open>table[dflt]\<close>.
\<close>

fun first_match :: "(string \<times> string) list \<Rightarrow> string \<Rightarrow> string option" where
  "first_match [] q = None"
| "first_match ((keyword, response) # rest) q =
     (if py_in keyword q then Some response else first_match rest q)"

definition mock_reply :: "(string \<times> string) list \<Rightarrow> string \<Rightarrow> string \<Rightarrow> string" where
  "mock_reply table dflt q =
     (case first_match table q of
        Some response \<Rightarrow> response
      | None \<Rightarrow> (case map_of table dflt of Some response \<Rightarrow> response | None \<Rightarrow> []))"

subsection \<open>The five adapters\<close>

text \<open>
  Every adapter returns the effects it caused together with its reply; its first effect is
  its own entry. \<open>call_agent_api\<close> returns \<open>None\<close> at once in mock mode or without
  a configured URL, before any outbound call.
\<close>

definition call_agent_api :: "config \<Rightarrow> world \<Rightarrow> string \<Rightarrow> string \<Rightarrow> effect list \<times> string option" where
  "call_agent_api cfg w agent_type query =
     (let agent_url = CONFIG cfg (agent_type @ ''_agent_url'')
      in if USE_MOCK_RESPONSES cfg \<or> \<not> truthy agent_url then ([], None)
         else ([NetCall (agent_type @ '' agent api'')], agent_api_live w agent_type query))"

definition finance_exn_text :: "exn \<Rightarrow> string" where
  "finance_exn_text e =
     (case e of
        Timeout m \<Rightarrow> ''Finance report API timeout. Please try again.''
      | RequestException m \<Rightarrow> ''Finance report API error: '' @ m
      | JSONDecodeError m \<Rightarrow> ''Finance report error: '' @ m
      | OtherException m \<Rightarrow> ''Finance report error: '' @ m)"

definition get_finance_advice :: "config \<Rightarrow> pylib \<Rightarrow> world \<Rightarrow> string \<Rightarrow> effect list \<times> string" where
  "get_finance_advice cfg lib w query =
     (if USE_MOCK_RESPONSES cfg then
        ([Invoke ''finance''], mock_reply MOCK_finance ''budget'' (str_lower lib query))
      else if \<not> truthy (CONFIG cfg ''finance_agent_url'') then
        ([Invoke ''finance''], the (map_of MOCK_finance ''budget''))
      else if \<not> truthy (CONFIG cfg ''finance_agent_username'')
           \<or> \<not> truthy (CONFIG cfg ''finance_agent_password'') then
        ([Invoke ''finance''],
         ''Finance report API credentials not configured. Please check config.properties.'')
      else
        ([Invoke ''finance'', NetCall ''finance soap''],
         (case finance_post w of
            Inl e \<Rightarrow> finance_exn_text e
          | Inr (status_code, response_text) \<Rightarrow>
              if status_code = 200 then
                (case re_report_bytes lib response_text of
                   Some g \<Rightarrow> ''PDF_DOWNLOAD:Finance:'' @ str_strip lib g
                 | None \<Rightarrow> ''Report generated but PDF data not found in SOAP response.'')
              else if status_code = 401 then
                ''Finance report API authentication failed. Please verify username and password in config.properties.''
              else ''Finance report API error: HTTP '' @ str_nat status_code)))"

definition get_hr_advice :: "config \<Rightarrow> pylib \<Rightarrow> world \<Rightarrow> string \<Rightarrow> effect list \<times> string" where
  "get_hr_advice cfg lib w query =
     (case call_agent_api cfg w ''hr'' query of
        (es, api_response) \<Rightarrow>
          if truthy api_response then (Invoke ''hr'' # es, the api_response)
          else (Invoke ''hr'' # es, mock_reply MOCK_hr ''policy'' (str_lower lib query)))"

definition database_keywords :: "string list" where
  "database_keywords =
     [''list'', ''show'', ''get'', ''find'', ''search'', ''query'', ''select'', ''count'', ''sum'',
      ''average'', ''table'', ''database'', ''record'', ''data'', ''customer'', ''employee'',
      ''product'', ''item'', ''all'', ''total'', ''how many'', ''sql'', ''translate'']"

definition get_general_advice :: "config \<Rightarrow> pylib \<Rightarrow> world \<Rightarrow> string \<Rightarrow> effect list \<times> string" where
  "get_general_advice cfg lib w query =
     (let query_lower = str_lower lib query;
          is_database_query = any_in database_keywords query_lower;
          (es, api_response) =
             (if is_database_query then call_agent_api cfg w ''general'' query else ([], None))
      in if is_database_query \<and> truthy api_response then (Invoke ''general'' # es, the api_response)
         else if genai_client w then
           (Invoke ''general'' # es @ [NetCall ''genai chat''],
            (case general_chat w query of
               ChatText t \<Rightarrow> str_strip lib t
             | ChatEmpty \<Rightarrow>
                 ''I apologize, but I couldn'' @ [CHR 0x27] @ ''t generate a response at this time. Please try again.''
             | ChatRaises m \<Rightarrow> ''I encountered an error while processing your question: '' @ m))
         else (Invoke ''general'' # es, mock_reply MOCK_general ''help'' query_lower))"

subsubsection \<open>Orders\<close>

definition getd :: "string option \<Rightarrow> string \<Rightarrow> string" where
  "getd v dflt = (case v of None \<Rightarrow> dflt | Some x \<Rightarrow> x)"

definition orders_exn_text :: "exn \<Rightarrow> string" where
  "orders_exn_text e =
     (case e of
        Timeout m \<Rightarrow> ''Orders API timeout. Please try again.''
      | RequestException m \<Rightarrow> ''Orders API error: '' @ m
      | JSONDecodeError m \<Rightarrow> ''Orders API returned invalid response.''
      | OtherException m \<Rightarrow> ''Orders API error: '' @ m)"

text \<open>
  \<open>_parse_dt\<close>: a string is parsed after replacing \<open>Z\<close> by \<open>+00:00\<close>; anything that is
  not a string, and any string that does not parse, becomes \<open>datetime.min\<close>.
\<close>

definition parse_dt :: "pylib \<Rightarrow> ts_field \<Rightarrow> pydt" where
  "parse_dt lib s =
     (case s of
        TsStr t \<Rightarrow> (case fromisoformat lib (replace_Z t) of Some d \<Rightarrow> d | None \<Rightarrow> datetime_min)
      | TsOther r \<Rightarrow> datetime_min
      | TsAbsent \<Rightarrow> datetime_min)"

text \<open>
  \<open>sorted(xs, key=k, reverse=True)\<close>: the keys are computed once, the result is in
  descending key order, entries with equal keys keep their order, and the first comparison
  that raises ends the sort with that exception. Each entry is inserted into the sorted
  rest of the list, behind the entries with a greater key.
\<close>

fun insert_desc :: "pydt \<times> 'a \<Rightarrow> (pydt \<times> 'a) list \<Rightarrow> exn + (pydt \<times> 'a) list" where
  "insert_desc x [] = Inr [x]"
| "insert_desc x (y # ys) =
     (case dt_lt (fst x) (fst y) of
        Inl e \<Rightarrow> Inl e
      | Inr True \<Rightarrow> (case insert_desc x ys of Inl e \<Rightarrow> Inl e | Inr zs \<Rightarrow> Inr (y # zs))
      | Inr False \<Rightarrow> Inr (x # y # ys))"

fun sort_desc :: "(pydt \<times> 'a) list \<Rightarrow> exn + (pydt \<times> 'a) list" where
  "sort_desc [] = Inr []"
| "sort_desc (x # xs) = (case sort_desc xs of Inl e \<Rightarrow> Inl e | Inr ys \<Rightarrow> insert_desc x ys)"

definition sorted_reverse :: "('a \<Rightarrow> pydt) \<Rightarrow> 'a list \<Rightarrow> exn + 'a list" where
  "sorted_reverse key xs =
     (case sort_desc (map (\<lambda>x. (key x, x)) xs) of Inl e \<Rightarrow> Inl e | Inr ys \<Rightarrow> Inr (map snd ys))"

definition items_sorted :: "pylib \<Rightarrow> order_item list \<Rightarrow> exn + order_item list" where
  "items_sorted lib items = sorted_reverse (\<lambda>it. parse_dt lib (LastUpdateDate it)) items"

definition render_ts :: "ts_field \<Rightarrow> string" where
  "render_ts f = (case f of TsAbsent \<Rightarrow> ''N/A'' | TsOther r \<Rightarrow> r | TsStr t \<Rightarrow> t)"

definition order_line :: "order_item \<Rightarrow> string" where
  "order_line it =
     glyph_bullet @ '' '' @ getd (OrderKey it) ''N/A'' @ '' | Status: '' @ getd (StatusCode it) ''N/A''
       @ '' | By: '' @ getd (CreatedBy it) ''N/A'' @ '' | Updated: '' @ render_ts (LastUpdateDate it)"

definition orders_list_text :: "pylib \<Rightarrow> order_item list \<Rightarrow> exn + string" where
  "orders_list_text lib items =
     (if items = [] then Inr ''No recent sales orders were returned by the API.''
      else
        (case items_sorted lib items of
           Inl e \<Rightarrow> Inl e
         | Inr sorted_items \<Rightarrow>
             (let display_items = take 10 sorted_items;
                  total_count = length sorted_items;
                  has_more = (10 < total_count);
                  result_text = ''Recent Sales Orders (showing 10 of '' @ str_nat total_count @ ''):'' @ nl
                                 @ join nl (map order_line display_items)
              in Inr (if has_more then
                        result_text @ nl @ nl @ glyph_bulb @ '' Showing first 10 of '' @ str_nat total_count
                          @ '' orders. Use specific Order ID for details.''
                      else result_text))))"

definition order_detail_text :: "string \<Rightarrow> order_detail \<Rightarrow> string" where
  "order_detail_text order_key data =
     (let line_summaries =
            map (\<lambda>(ln_num, item, qty). ''Line '' @ ln_num @ '': '' @ item @ '' x'' @ qty) (take 5 (d_lines data));
          lines_text = (if line_summaries = [] then ''(No line details returned)'' else join nl line_summaries)
      in ''Order '' @ getd (d_OrderKey data) order_key @ nl
         @ ''Status: '' @ getd (d_StatusCode data) ''N/A'' @ nl
         @ ''Submitted By: '' @ getd (d_SubmittedBy data) ''N/A'' @ '' on '' @ getd (d_SubmittedDate data) ''N/A'' @ nl @ nl
         @ ''Top Lines:'' @ nl @ lines_text)"

definition orders_live :: "pylib \<Rightarrow> world \<Rightarrow> string \<Rightarrow> effect list \<times> string" where
  "orders_live lib w query =
     (let order_key = (case re_order_key lib query of Some k \<Rightarrow> Some k | None \<Rightarrow> re_long_id lib query)
      in if truthy order_key then
           ([NetCall ''orders detail''],
            (case orders_detail w (the order_key) of
               Inl e \<Rightarrow> orders_exn_text e
             | Inr (status_code, body) \<Rightarrow>
                 if status_code = 200 then
                   (case body of Inl e \<Rightarrow> orders_exn_text e | Inr data \<Rightarrow> order_detail_text (the order_key) data)
                 else if status_code = 404 then
                   ''No sales order found for key/id '' @ [CHR 0x27] @ the order_key @ [CHR 0x27] @ ''.''
                 else if status_code = 401 then
                   ''Orders API authentication failed. Please verify username/password in config.properties.''
                 else ''Orders API error: HTTP '' @ str_nat status_code))
         else
           ([NetCall ''orders list''],
            (case orders_list w of
               Inl e \<Rightarrow> orders_exn_text e
             | Inr (status_code, body) \<Rightarrow>
                 if status_code = 200 then
                   (case body of
                      Inl e \<Rightarrow> orders_exn_text e
                    | Inr items \<Rightarrow>
                        (case orders_list_text lib items of Inl e \<Rightarrow> orders_exn_text e | Inr t \<Rightarrow> t))
                 else if status_code = 401 then
                   ''Orders API authentication failed. Please verify username/password in config.properties.''
                 else ''Orders API error: HTTP '' @ str_nat status_code)))"

definition get_orders_advice :: "config \<Rightarrow> pylib \<Rightarrow> world \<Rightarrow> string \<Rightarrow> effect list \<times> string" where
  "get_orders_advice cfg lib w query =
     (if USE_MOCK_RESPONSES cfg then
        ([Invoke ''orders''], mock_reply MOCK_orders ''status'' (str_lower lib query))
      else if \<not> truthy (CONFIG cfg ''orders_agent_url'') then
        ([Invoke ''orders''], mock_reply MOCK_orders ''status'' (str_lower lib query))
      else if \<not> truthy (CONFIG cfg ''orders_agent_username'')
           \<or> \<not> truthy (CONFIG cfg ''orders_agent_password'') then
        ([Invoke ''orders''], ''Orders API credentials not configured. Please check config.properties.'')
      else (case orders_live lib w query of (es, t) \<Rightarrow> (Invoke ''orders'' # es, t)))"

subsubsection \<open>Reports\<close>

definition reports_exn_text :: "exn \<Rightarrow> string" where
  "reports_exn_text e =
     (case e of
        Timeout m \<Rightarrow> ''Reports API timeout. Please try again.''
      | RequestException m \<Rightarrow> ''Reports API error: '' @ m
      | JSONDecodeError m \<Rightarrow> ''Reports API returned invalid response.''
      | OtherException m \<Rightarrow> ''Reports API error: '' @ m)"

text \<open>
  The loop \<open>for attempt in range(max_attempts)\<close> over the attempts still to run;
  \<open>download_resp\<close> is the last response received. A response with status 200 leaves the
  loop; any other response, and a timeout, sleeps 10 seconds unless the attempt was the last;
  any other exception leaves the loop and the adapter's \<open>try\<close> block.
\<close>

fun download_attempts ::
  "(nat \<Rightarrow> string http) \<Rightarrow> nat \<Rightarrow> nat list \<Rightarrow> (nat \<times> string) option
     \<Rightarrow> effect list \<times> (exn + (nat \<times> string) option)" where
  "download_attempts dl max_attempts [] download_resp = ([], Inr download_resp)"
| "download_attempts dl max_attempts (attempt # rest) download_resp =
     (case dl attempt of
        Inr (status_code, content) \<Rightarrow>
          if status_code = 200 then ([NetCall ''reports download''], Inr (Some (status_code, content)))
          else
            (case download_attempts dl max_attempts rest (Some (status_code, content)) of
               (es, r) \<Rightarrow>
                 (NetCall ''reports download''
                    # (if attempt < max_attempts - 1 then [Sleep 10] else []) @ es, r))
      | Inl (Timeout m) \<Rightarrow>
          (case download_attempts dl max_attempts rest download_resp of
             (es, r) \<Rightarrow>
               (NetCall ''reports download''
                  # (if attempt < max_attempts - 1 then [Sleep 10] else []) @ es, r))
      | Inl e \<Rightarrow> ([NetCall ''reports download''], Inl e))"

definition max_attempts :: nat where
  "max_attempts = 3"

definition export_format :: string where
  "export_format = ''pdf''"

text \<open>
  After the loop: \<open>not download_resp or download_resp.status_code != 200\<close>; a
  response object is falsy when its status is an error status (400 to 599).
\<close>

definition download_failed :: "(nat \<times> string) option \<Rightarrow> bool" where
  "download_failed download_resp =
     (case download_resp of
        None \<Rightarrow> True
      | Some (status_code, content) \<Rightarrow> (400 \<le> status_code \<and> status_code < 600) \<or> status_code \<noteq> 200)"


definition download_phase :: "(nat \<Rightarrow> string http) \<Rightarrow> effect list \<times> string" where
  "download_phase dl =
     (case download_attempts dl max_attempts [0 ..< max_attempts] None of
        (es, Inl e) \<Rightarrow> (Sleep 30 # es, reports_exn_text e)
      | (es, Inr download_resp) \<Rightarrow>
          if download_failed download_resp then
            (Sleep 30 # es, ''Reports download failed after retries. Please try again later.'')
          else
            (Sleep 30 # es,
             ''REPORT_DOWNLOAD:Reports:'' @ ascii_upper export_format @ '':'' @ b64encode (snd (the download_resp))))"

definition reports_live :: "world \<Rightarrow> effect list \<times> string" where
  "reports_live w =
     (case reports_export w of
        Inl e \<Rightarrow> ([NetCall ''reports export''], reports_exn_text e)
      | Inr (status_code, export_data) \<Rightarrow>
          if status_code \<noteq> 200 \<and> status_code \<noteq> 201 \<and> status_code \<noteq> 202 then
            ([NetCall ''reports export''],
             if status_code = 401 then
               ''Reports API authentication failed. Please verify username/password in config.properties.''
             else ''Reports export API error: HTTP '' @ str_nat status_code)
          else
            (let resource_uri = (case export_data of ExportDict u i \<Rightarrow> u | _ \<Rightarrow> None);
                 export_id =
                   (if truthy resource_uri \<and> py_in ''/exports/'' (the resource_uri) then
                      Some (last (split_all ''/exports/'' (the resource_uri)))
                    else (case export_data of ExportDict u i \<Rightarrow> i | _ \<Rightarrow> None))
             in if \<not> truthy export_id then
                  ([NetCall ''reports export''], ''Reports API did not return an export ID.'')
                else
                  (case download_phase (reports_download w) of
                     (es, t) \<Rightarrow> (NetCall ''reports export'' # es, t))))"

definition get_reports_advice :: "config \<Rightarrow> pylib \<Rightarrow> world \<Rightarrow> string \<Rightarrow> effect list \<times> string" where
  "get_reports_advice cfg lib w query =
     (if USE_MOCK_RESPONSES cfg then
        ([Invoke ''reports''], mock_reply MOCK_reports ''analytics'' (str_lower lib query))
      else if \<not> truthy (CONFIG cfg ''reports_agent_url'') then
        ([Invoke ''reports''], mock_reply MOCK_reports ''analytics'' (str_lower lib query))
      else if \<not> truthy (CONFIG cfg ''reports_agent_username'')
           \<or> \<not> truthy (CONFIG cfg ''reports_agent_password'') then
        ([Invoke ''reports''], ''Reports API credentials not configured. Please check config.properties.'')
      else (case reports_live w of (es, t) \<Rightarrow> (Invoke ''reports'' # es, t)))"

subsection \<open>Intent detection and routing\<close>

definition valid_intents :: "string list" where
  "valid_intents = [''general'', ''finance'', ''hr'', ''orders'', ''reports'']"

text \<open>
  \<open>detect_intent_with_genai\<close>: no client, an exception, an empty answer and a text that
  is not one of the five labels after \<open>strip().lower()\<close> all give \<open>None\<close>. The flag
  says whether the classifier was called.
\<close>

definition detect_intent_with_genai :: "pylib \<Rightarrow> world \<Rightarrow> string \<Rightarrow> effect list \<times> string option" where
  "detect_intent_with_genai lib w prompt =
     (if \<not> genai_client w then ([], None)
      else
        ([NetCall ''genai intent''],
         (case intent_chat w prompt of
            ChatRaises m \<Rightarrow> None
          | ChatEmpty \<Rightarrow> None
          | ChatText t \<Rightarrow>
              (let intent = str_lower lib (str_strip lib t)
               in if intent \<in> set valid_intents then Some intent else None))))"

definition title_general :: string where "title_general = ''General Agent '' @ glyph_robot"
definition title_finance :: string where "title_finance = ''Finance Advisor '' @ glyph_money"
definition title_hr :: string where "title_hr = ''HR Advisor '' @ glyph_people"
definition title_orders :: string where "title_orders = ''Orders Advisor '' @ glyph_box"
definition title_reports :: string where "title_reports = ''Reports Advisor '' @ glyph_chart"

definition kw_general :: "string list" where
  "kw_general =
     [''general'', ''help'', ''what can you do'', ''capabilities'', ''services'', ''assist'', ''how can'',
      ''what do you'', ''tell me about'', ''who are you'', ''what services'', ''nlp'', ''nlp2sql'']"

definition kw_finance :: "string list" where
  "kw_finance =
     [''finance'', ''revenue'', ''budget'', ''expense'', ''cost'', ''money'', ''financial'', ''profit'', ''loss'']"

definition kw_hr :: "string list" where
  "kw_hr = [''hr'', ''policy'', ''benefit'', ''leave'', ''employee'', ''work'', ''holiday'', ''vacation'', ''staff'']"

definition kw_orders :: "string list" where
  "kw_orders =
     [''order'', ''inventory'', ''delivery'', ''return'', ''shipping'', ''stock'', ''product'', ''item'', ''sales'']"

definition kw_reports :: "string list" where
  "kw_reports = [''workbook'', ''analytics'', ''export'', ''oac'', ''dashboard'', ''visualization'']"

text \<open>One adapter call appended to \<open>responses\<close> under its title.\<close>

definition respond :: "string \<Rightarrow> effect list \<times> string \<Rightarrow> effect list \<times> (string \<times> string) list" where
  "respond title r = (fst r, [(title, snd r)])"

definition advise :: "config \<Rightarrow> pylib \<Rightarrow> world \<Rightarrow> string \<Rightarrow> string \<Rightarrow> effect list \<times> (string \<times> string) list" where
  "advise cfg lib w advisor prompt =
     (if advisor = ''general'' then respond title_general (get_general_advice cfg lib w prompt)
      else if advisor = ''finance'' then respond title_finance (get_finance_advice cfg lib w prompt)
      else if advisor = ''hr'' then respond title_hr (get_hr_advice cfg lib w prompt)
      else if advisor = ''orders'' then respond title_orders (get_orders_advice cfg lib w prompt)
      else if advisor = ''reports'' then respond title_reports (get_reports_advice cfg lib w prompt)
      else ([], []))"

text \<open>\<open>if any(...): responses.append(...)\<close> for one of the four specific advisors.\<close>

definition when_matched ::
  "config \<Rightarrow> pylib \<Rightarrow> world \<Rightarrow> string list \<Rightarrow> string \<Rightarrow> string \<Rightarrow> effect list \<times> (string \<times> string) list" where
  "when_matched cfg lib w keywords advisor prompt =
     (if any_in keywords (str_lower lib prompt) then advise cfg lib w advisor prompt else ([], []))"

definition word_counts :: "string \<Rightarrow> (string \<times> nat) list" where
  "word_counts prompt_lower =
     [(''finance'', count_all prompt_lower kw_finance),
      (''hr'', count_all prompt_lower kw_hr),
      (''orders'', count_all prompt_lower kw_orders),
      (''reports'', count_all prompt_lower kw_reports)]"

text \<open>\<open>max(xs, key=lambda x: x[1])\<close>: the first entry with the greatest count.\<close>

fun max_by_count :: "string \<times> nat \<Rightarrow> (string \<times> nat) list \<Rightarrow> string \<times> nat" where
  "max_by_count best [] = best"
| "max_by_count best (x # xs) = max_by_count (if snd best < snd x then x else best) xs"

definition max_count :: "(string \<times> nat) list \<Rightarrow> nat" where
  "max_count wc = fold max (map snd wc) 0"

text \<open>Step 2 of \<open>process_user_query\<close>: keyword-based routing.\<close>

definition keyword_routing :: "config \<Rightarrow> pylib \<Rightarrow> world \<Rightarrow> string \<Rightarrow> effect list \<times> (string \<times> string) list" where
  "keyword_routing cfg lib w prompt =
     (let prompt_lower = str_lower lib prompt
      in if any_in kw_general prompt_lower then advise cfg lib w ''general'' prompt
         else
           (let f = when_matched cfg lib w kw_finance ''finance'' prompt;
                h = when_matched cfg lib w kw_hr ''hr'' prompt;
                ord = when_matched cfg lib w kw_orders ''orders'' prompt;
                r = when_matched cfg lib w kw_reports ''reports'' prompt;
                effects = fst f @ fst h @ fst ord @ fst r;
                responses = snd f @ snd h @ snd ord @ snd r
            in if responses = [] then
                 (let wc = word_counts prompt_lower
                  in if 0 < max_count wc then
                       (let advisor = fst (max_by_count (hd wc) (tl wc))
                        in case (if advisor = ''finance'' \<or> advisor = ''hr'' \<or> advisor = ''orders''
                                 then advise cfg lib w advisor prompt
                                 else advise cfg lib w ''reports'' prompt) of
                             (es, rs) \<Rightarrow> (effects @ es, rs))
                     else
                       (case advise cfg lib w ''general'' prompt of (es, rs) \<Rightarrow> (effects @ es, rs)))
               else (effects, responses)))"

text \<open>
  \<open>process_user_query\<close>: the remote classifier is tried unless there is no client or
  the mode is \<open>off\<close>; a detected intent is routed to its advisor alone; everything else, in
  mode \<open>force\<close> as in mode \<open>auto\<close>, continues with keyword routing.
\<close>

definition process_user_query :: "config \<Rightarrow> pylib \<Rightarrow> world \<Rightarrow> string \<Rightarrow> effect list \<times> (string \<times> string) list" where
  "process_user_query cfg lib w prompt =
     (if genai_client w \<and> GENAI_INTENT_MODE cfg \<noteq> ''off'' then
        (case detect_intent_with_genai lib w prompt of
           (ds, Some detected_intent) \<Rightarrow>
             (case advise cfg lib w detected_intent prompt of (es, rs) \<Rightarrow> (ds @ es, rs))
         | (ds, None) \<Rightarrow>
             (case keyword_routing cfg lib w prompt of (es, rs) \<Rightarrow> (ds @ es, rs)))
      else keyword_routing cfg lib w prompt)"

subsection \<open>Response assembly\<close>

definition glyph_page :: string where
  "glyph_page = [CHR 0xC3, CHR 0xB0, CHR 0xC5, CHR 0xB8, CHR 0xE2, CHR 0x80, CHR 0x9C, CHR 0xE2, CHR 0x80, CHR 0x9E]"

definition separator :: string where
  "separator = concat (replicate 28 glyph_rule)"

definition has_marker :: "string \<Rightarrow> bool" where
  "has_marker response = (py_in ''PDF_DOWNLOAD:'' response \<or> py_in ''REPORT_DOWNLOAD:'' response)"

definition hint :: "string \<Rightarrow> string" where
  "hint advisor_type =
     (if advisor_type = ''general'' then
        nl @ glyph_bulb @ '' I can route your questions to Finance, HR, Orders, or Reports advisors.''
      else if advisor_type = ''finance'' then
        nl @ glyph_bulb @ '' You can also ask about budgets, expenses, or revenue forecasts.''
      else if advisor_type = ''hr'' then
        nl @ glyph_bulb @ '' Feel free to ask about benefits, leaves, or company policies.''
      else if advisor_type = ''orders'' then
        nl @ glyph_bulb @ '' You can inquire about inventory levels or return rates as well.''
      else if advisor_type = ''reports'' then
        nl @ glyph_bulb @ '' You can request analytics dashboards or workbook exports.''
      else [])"

definition advisor_block :: "string \<times> string \<Rightarrow> string" where
  "advisor_block ar = fst ar @ nl @ separator @ nl @ snd ar @ nl"

text \<open>
  \<open>format_response\<close>, with the clock reading \<open>now\<close> (\<open>%H:%M:%S\<close>). The first
  response that holds a download marker is returned as it is, alone. \<open>Inl\<close> is the
  IndexError of \<open>split()[0]\<close> on a title without a word.
\<close>

definition format_response :: "pylib \<Rightarrow> string \<Rightarrow> (string \<times> string) list \<Rightarrow> exn + string" where
  "format_response lib now advisors =
     (case find (\<lambda>ar. has_marker (snd ar)) advisors of
        Some ar \<Rightarrow> Inr (snd ar)
      | None \<Rightarrow>
          (let header =
                 (if 1 < length advisors then
                    glyph_target @ '' Multiple advisors have insights to share:'' @ nl @ nl
                  else glyph_target @ '' Here'' @ [CHR 0x27] @ ''s what I found: '');
               body = concat (map advisor_block advisors);
               footer = nl @ nl @ glyph_clock @ '' '' @ now
           in if length advisors = 1 then
                (case str_split lib (fst (hd advisors)) of
                   [] \<Rightarrow> Inl (OtherException ''list index out of range'')
                 | word # words \<Rightarrow> Inr (header @ body @ hint (str_lower lib word) @ footer))
              else Inr (header @ body @ footer)))"

subsection \<open>The chat and download endpoints\<close>

record download_entry =
  e_type :: string
  e_format :: "string option"
  e_data :: string
  e_advisor :: string
  e_timestamp :: string

type_synonym download_storage = "string \<rightharpoonup> download_entry"

datatype prompt_field = PromptAbsent | PromptNotStr | PromptStr string

datatype chat_request = NoJson | Json prompt_field

record chat_reply =
  status :: nat
  reply :: string
  has_pdf :: bool
  download_url :: "string option"

definition plain_reply :: "nat \<Rightarrow> string \<Rightarrow> chat_reply" where
  "plain_reply code text = \<lparr>status = code, reply = text, has_pdf = False, download_url = None\<rparr>"

text \<open>
  What one request draws from its surroundings besides the world: the UUID for a new
  download and two readings of the clock.
\<close>

record draw =
  new_uuid :: string
  now_hms :: string
  now_stamp :: string

definition pdf_ready_text :: "string \<Rightarrow> string" where
  "pdf_ready_text advisor_name =
     glyph_target @ '' Here'' @ [CHR 0x27] @ ''s what I found: '' @ advisor_name @ '' Advisor '' @ glyph_money @ nl
       @ separator @ nl @ glyph_page @ '' Your report is ready!'' @ nl @ nl
       @ ''Click the button below to download the PDF report.''"

definition report_ready_text :: "pylib \<Rightarrow> string \<Rightarrow> string \<Rightarrow> string" where
  "report_ready_text lib advisor_name report_format =
     glyph_target @ '' Here'' @ [CHR 0x27] @ ''s what I found:'' @ nl @ nl @ advisor_name @ '' Advisor '' @ glyph_chart @ nl
       @ separator @ nl @ glyph_chart @ '' Your analytics report is ready!'' @ nl @ nl
       @ ''Click the button below to download the '' @ str_upper lib report_format @ '' report.''"

text \<open>The part of \<open>chat\<close> after \<open>format_response\<close>: detect a marker, store, answer.\<close>

definition deliver ::
  "pylib \<Rightarrow> draw \<Rightarrow> download_storage \<Rightarrow> string \<Rightarrow> chat_reply \<times> download_storage" where
  "deliver lib d storage formatted_response =
     (if py_in ''PDF_DOWNLOAD:'' formatted_response then
        (let rest = str_strip lib (split_all ''PDF_DOWNLOAD:'' formatted_response ! 1);
             parts = split_n '':'' 1 rest;
             advisor_name = (if length parts = 2 then parts ! 0 else ''Finance'');
             pdf_data = (if length parts = 2 then parts ! 1 else rest)
         in (\<lparr>status = 200, reply = pdf_ready_text advisor_name, has_pdf = True,
              download_url = Some (''/download_pdf/'' @ new_uuid d)\<rparr>,
             storage(new_uuid d \<mapsto>
               \<lparr>e_type = ''pdf'', e_format = None, e_data = pdf_data, e_advisor = advisor_name,
                e_timestamp = now_stamp d\<rparr>)))
      else if py_in ''REPORT_DOWNLOAD:'' formatted_response then
        (let download_marker = str_strip lib (split_all ''REPORT_DOWNLOAD:'' formatted_response ! 1);
             parts = split_n '':'' 2 download_marker
         in if length parts = 3 then
              (\<lparr>status = 200, reply = report_ready_text lib (parts ! 0) (str_lower lib (parts ! 1)), has_pdf = True,
                download_url = Some (''/download_report/'' @ new_uuid d)\<rparr>,
               storage(new_uuid d \<mapsto>
                 \<lparr>e_type = ''report'', e_format = Some (str_lower lib (parts ! 1)), e_data = parts ! 2,
                  e_advisor = parts ! 0, e_timestamp = now_stamp d\<rparr>))
            else (plain_reply 500 (glyph_warn @ '' Error: Invalid report format''), storage))
      else (plain_reply 200 formatted_response, storage))"

text \<open>The assembler on the results of the adapters: \<open>format_response\<close>, then \<open>deliver\<close>.\<close>

definition assemble ::
  "pylib \<Rightarrow> draw \<Rightarrow> download_storage \<Rightarrow> (string \<times> string) list \<Rightarrow> chat_reply \<times> download_storage" where
  "assemble lib d storage advisors =
     (case format_response lib (now_hms d) advisors of
        Inl e \<Rightarrow> (plain_reply 500 (glyph_warn @ '' An error occurred while processing your request.''), storage)
      | Inr formatted_response \<Rightarrow> deliver lib d storage formatted_response)"

definition chat ::
  "config \<Rightarrow> pylib \<Rightarrow> world \<Rightarrow> draw \<Rightarrow> download_storage \<Rightarrow> chat_request
     \<Rightarrow> effect list \<times> chat_reply \<times> download_storage" where
  "chat cfg lib w d storage request =
     (case request of
        NoJson \<Rightarrow> ([], plain_reply 400 (glyph_warn @ '' Error: Invalid request format''), storage)
      | Json (PromptStr prompt) \<Rightarrow>
          if prompt = [] then
            ([], plain_reply 400 (glyph_warn @ '' Error: Please provide a valid question''), storage)
          else
            (case process_user_query cfg lib w (str_strip lib prompt) of
               (es, advisors) \<Rightarrow> (es, assemble lib d storage advisors))
      | Json other \<Rightarrow>
          ([], plain_reply 400 (glyph_warn @ '' Error: Please provide a valid question''), storage))"

datatype download_reply =
    SendFile string string string
  | TextStatus string nat

text \<open>
  \<open>download_pdf\<close> and \<open>download_report\<close>: the storage is read, never written; the
  function returns it as it received it. A payload that does not decode raises inside the
  \<open>try\<close> block and is answered with status 500.
\<close>

definition download_pdf :: "download_storage \<Rightarrow> string \<Rightarrow> download_reply \<times> download_storage" where
  "download_pdf storage download_id =
     (case storage download_id of
        None \<Rightarrow> (TextStatus ''No PDF available for download'' 404, storage)
      | Some download_data \<Rightarrow>
          if e_type download_data \<noteq> ''pdf'' then (TextStatus ''No PDF available for download'' 404, storage)
          else
            (case b64decode (e_data download_data) of
               None \<Rightarrow> (TextStatus ''Error downloading PDF'' 500, storage)
             | Some pdf_bytes \<Rightarrow>
                 (SendFile pdf_bytes ''application/pdf''
                    (''Finance_Report_'' @ e_timestamp download_data @ ''.pdf''), storage)))"

definition format_mapping :: "string \<Rightarrow> string \<times> string" where
  "format_mapping report_format =
     (case map_of
             [(''pdf'', (''application/pdf'', ''pdf'')),
              (''png'', (''image/png'', ''png'')),
              (''xlsx'', (''application/vnd.openxmlformats-officedocument.spreadsheetml.sheet'', ''xlsx'')),
              (''csv'', (''text/csv'', ''csv''))] report_format of
        Some m \<Rightarrow> m
      | None \<Rightarrow> (''application/octet-stream'', ''bin''))"

definition download_report :: "download_storage \<Rightarrow> string \<Rightarrow> download_reply \<times> download_storage" where
  "download_report storage download_id =
     (case storage download_id of
        None \<Rightarrow> (TextStatus ''No report available for download'' 404, storage)
      | Some download_data \<Rightarrow>
          if e_type download_data \<noteq> ''report'' then
            (TextStatus ''No report available for download'' 404, storage)
          else
            (case b64decode (e_data download_data) of
               None \<Rightarrow> (TextStatus ''Error downloading report'' 500, storage)
             | Some report_bytes \<Rightarrow>
                 (case format_mapping (getd (e_format download_data) ''pdf'') of
                    (mimetype, extension) \<Rightarrow>
                      (SendFile report_bytes mimetype
                         (''Analytics_Report_'' @ e_timestamp download_data @ ''.'' @ extension), storage))))"

text \<open>The same endpoint in RCOEGenAIAgents.py; only the text of the 404 answer differs.\<close>

definition rcoe_download_pdf :: "download_storage \<Rightarrow> string \<Rightarrow> download_reply \<times> download_storage" where
  "rcoe_download_pdf storage download_id =
     (case storage download_id of
        None \<Rightarrow> (TextStatus ''No PDF available'' 404, storage)
      | Some download_data \<Rightarrow>
          if e_type download_data \<noteq> ''pdf'' then (TextStatus ''No PDF available'' 404, storage)
          else
            (case b64decode (e_data download_data) of
               None \<Rightarrow> (TextStatus ''Error downloading PDF'' 500, storage)
             | Some pdf_bytes \<Rightarrow>
                 (SendFile pdf_bytes ''application/pdf''
                    (''Finance_Report_'' @ e_timestamp download_data @ ''.pdf''), storage)))"

section \<open>The function with artifact persistence (func\_replica.py)\<close>

subsection \<open>Configuration, object storage and the outside world\<close>

record replica_config =
  USE_MOCK_RESPONSES_r :: bool
  GENAI_INTENT_MODE_r :: string
  GENERAL_ORDS_URL :: string
  FINANCE_URL :: string
  FINANCE_USER :: string
  FINANCE_PASS :: string
  ORDERS_URL :: string
  ORDERS_USER :: string
  ORDERS_PASS :: string
  REPORTS_URL :: string
  REPORTS_USER :: string
  REPORTS_PASS :: string
  HR_URL :: string
  HR_USER :: string
  HR_PASS :: string
  ARTIFACT_BUCKET :: string
  PRESIGN_TTL_SECONDS :: nat
  MAX_INLINE_BYTES :: int
  REQUESTS_OK :: bool
  API_SPEC_FINANCE :: bool

text \<open>
  A metadata dictionary keeps its keys in insertion order; \<open>dict_set\<close> is
  \<open>d[k] = v\<close>. A stored object is raw bytes (\<open>Bytes\<close>) or the text
  \<open>json.dumps(meta)\<close> of a dictionary the program wrote (\<open>JsonDoc\<close>).
  \<open>json.loads\<close> yields a dictionary or a value of another Python type, named by its
  type name.
\<close>

datatype jval = JS string | JN nat | JNone

type_synonym meta = "(string \<times> jval) list"

fun dict_set :: "string \<Rightarrow> jval \<Rightarrow> meta \<Rightarrow> meta" where
  "dict_set k v [] = [(k, v)]"
| "dict_set k v ((k', v') # rest) = (if k' = k then (k, v) # rest else (k', v') # dict_set k v rest)"

definition dict_get :: "meta \<Rightarrow> string \<Rightarrow> jval option" where
  "dict_get m k = map_of m k"

definition render_jval :: "jval option \<Rightarrow> string" where
  "render_jval v = (case v of None \<Rightarrow> ''None'' | Some JNone \<Rightarrow> ''None'' | Some (JS t) \<Rightarrow> t | Some (JN n) \<Rightarrow> str_nat n)"

datatype obj = Bytes string | JsonDoc meta

datatype json_value = JsonObject meta | JsonOther string

text \<open>
  The surroundings of one invocation: the clients created when the module was loaded, the
  answers of the remote services, whether a write or a read of the object store raises, the
  UUIDs drawn and the clock. \<open>nl2sql_answer\<close> and \<open>hr_answer\<close> are the texts the two
  exchanges end with (\<open>None\<close> on every failure). \<open>get_fails\<close> is the text of the
  exception \<open>get_object\<close> raises although the object may exist, \<open>not_found_text\<close> the
  text of the one it raises for a key that holds no object, and \<open>json_loads\<close> is
  \<open>json.loads\<close> on the text of stored bytes (\<open>Inl\<close> the text of its exception).
\<close>

record cloud =
  genai_client_r :: bool
  object_client :: bool
  namespace_name :: string
  put_fails :: "string \<Rightarrow> bool"
  get_fails :: "string \<Rightarrow> string option"
  not_found_text :: "string \<Rightarrow> string"
  json_loads :: "string \<Rightarrow> string + json_value"
  presigned_url :: "string \<Rightarrow> string option"
  intent_chat_r :: "string \<Rightarrow> chat_outcome"
  general_chat_r :: "string \<Rightarrow> chat_outcome"
  nl2sql_answer :: "string \<Rightarrow> string option"
  hr_answer :: "string \<Rightarrow> string option"
  finance_rest :: "(exn + string) http"
  finance_soap :: "string http"
  orders_detail_r :: "string \<Rightarrow> (exn + string) http"
  orders_list_r :: "(exn + order_item list) http"
  b64_error :: "string \<Rightarrow> string"
  uuid4 :: "nat \<Rightarrow> string"
  utcnow_stamp :: string
  utcnow_iso :: string

text \<open>The mutable state: the bucket and the number of UUIDs drawn so far.\<close>

record rstate =
  objects :: "string \<rightharpoonup> obj"
  uuid_count :: nat

definition storage_configured :: "replica_config \<Rightarrow> cloud \<Rightarrow> bool" where
  "storage_configured cfg c = (object_client c \<and> namespace_name c \<noteq> [] \<and> ARTIFACT_BUCKET cfg \<noteq> [])"

definition put_object :: "replica_config \<Rightarrow> cloud \<Rightarrow> rstate \<Rightarrow> string \<Rightarrow> obj \<Rightarrow> bool \<times> rstate" where
  "put_object cfg c st key raw =
     (if \<not> storage_configured cfg c then (False, st)
      else if put_fails c key then (False, st)
      else (True, st\<lparr>objects := (objects st)(key \<mapsto> raw)\<rparr>))"

definition get_presigned :: "replica_config \<Rightarrow> cloud \<Rightarrow> string \<Rightarrow> string option" where
  "get_presigned cfg c key = (if \<not> storage_configured cfg c then None else presigned_url c key)"

definition url_jval :: "string option \<Rightarrow> jval" where
  "url_jval u = (case u of None \<Rightarrow> JNone | Some t \<Rightarrow> JS t)"

definition draw_uuid :: "cloud \<Rightarrow> rstate \<Rightarrow> string \<times> rstate" where
  "draw_uuid c st = (uuid4 c (uuid_count st), st\<lparr>uuid_count := Suc (uuid_count st)\<rparr>)"

subsection \<open>Download: finalizing an artifact\<close>

definition dummy_pdf :: string where
  "dummy_pdf =
     ''%PDF-1.4'' @ nl @ [CHR ''%'', CHR 0xE2, CHR 0xE3, CHR 0xCF, CHR 0xD3] @ nl @ ''1 0 obj'' @ nl
       @ ''<<>>'' @ nl @ ''endobj'' @ nl @ ''trailer'' @ nl @ ''<<>>'' @ nl @ ''%%EOF''"

text \<open>
  What \<open>process_download\<close> returns: the dictionary with the key \<open>error\<close>, or the one
  with \<open>artifact\<close> and \<open>message\<close>; \<open>DownloadRaises\<close> is an exception that leaves
  the function, with its text.
\<close>

datatype download_result = DownloadError string | DownloadArtifact meta string | DownloadRaises string

definition meta_key :: "string \<Rightarrow> string" where
  "meta_key artifact_id = ''artifact/'' @ artifact_id @ ''.json''"

definition pdf_key :: "string \<Rightarrow> string" where
  "pdf_key artifact_id = ''artifact/'' @ artifact_id @ ''.pdf''"

text \<open>
  Reading the metadata, the \<open>try\<close> block of \<open>process_download\<close>: \<open>get_object\<close>
  raises for a missing object or an unreachable store and \<open>json.loads\<close> raises on text
  that is not JSON; both are caught (\<open>Caught\<close>, with the text of the exception). JSON text
  that is not an object is read without exception (\<open>NotObject\<close>, with the type name of
  the value); the first \<open>meta.get\<close> after the \<open>try\<close> block then raises
  \<open>AttributeError\<close>.
\<close>

datatype read_error = Caught string | NotObject string

definition read_meta :: "cloud \<Rightarrow> rstate \<Rightarrow> string \<Rightarrow> read_error + meta" where
  "read_meta c st key =
     (case get_fails c key of
        Some msg \<Rightarrow> Inl (Caught msg)
      | None \<Rightarrow>
          (case objects st key of
             None \<Rightarrow> Inl (Caught (not_found_text c key))
           | Some (JsonDoc m) \<Rightarrow> Inr m
           | Some (Bytes b) \<Rightarrow>
               (case json_loads c b of
                  Inl msg \<Rightarrow> Inl (Caught msg)
                | Inr (JsonObject m) \<Rightarrow> Inr m
                | Inr (JsonOther type_name) \<Rightarrow> Inl (NotObject type_name))))"

definition no_attribute_get :: "string \<Rightarrow> string" where
  "no_attribute_get type_name =
     [CHR 0x27] @ type_name @ [CHR 0x27] @ '' object has no attribute '' @ [CHR 0x27] @ ''get'' @ [CHR 0x27]"

text \<open>
  \<open>process_download\<close>: a pending artifact is completed on the spot with a placeholder
  PDF; the results of the two writes are not looked at.
\<close>

definition process_download :: "replica_config \<Rightarrow> cloud \<Rightarrow> rstate \<Rightarrow> string \<Rightarrow> download_result \<times> rstate" where
  "process_download cfg c st artifact_id =
     (if \<not> object_client c \<or> ARTIFACT_BUCKET cfg = [] \<or> namespace_name c = [] then
        (DownloadError ''artifact storage not configured'', st)
      else
        (case read_meta c st (meta_key artifact_id) of
           Inl (Caught msg) \<Rightarrow> (DownloadError (''metadata not found: '' @ msg), st)
         | Inl (NotObject type_name) \<Rightarrow> (DownloadRaises (no_attribute_get type_name), st)
         | Inr meta0 \<Rightarrow>
             (let (meta1, st1) =
                    (if dict_get meta0 ''status'' = Some (JS ''pending'') then
                       (let st' = snd (put_object cfg c st (pdf_key artifact_id) (Bytes dummy_pdf));
                            m = dict_set ''contentType'' (JS ''application/pdf'')
                                  (dict_set ''size'' (JN (length dummy_pdf))
                                     (dict_set ''status'' (JS ''ready'') meta0))
                        in (m, snd (put_object cfg c st' (meta_key artifact_id) (JsonDoc m))))
                     else (meta0, st))
              in if dict_get meta1 ''status'' = Some (JS ''ready'') then
                   (DownloadArtifact
                      (dict_set ''expiresIn'' (JN (PRESIGN_TTL_SECONDS cfg))
                         (dict_set ''presignedUrl''
                            (url_jval (get_presigned cfg c (pdf_key artifact_id))) meta1))
                      (''Artifact ready: '' @ render_jval (dict_get meta1 ''filename'')), st1)
                 else (DownloadArtifact meta1 ''Artifact not ready yet'', st1))))"

subsection \<open>The advisors of func\_replica.py\<close>

record advisor_result =
  r_name :: string
  r_type :: string
  r_source :: string
  r_text :: string
  r_artifact :: "meta option"

definition name_general :: string where
  "name_general = ''General Advisor '' @ [CHR 0xF0, CHR 0x9F, CHR 0xA4, CHR 0x96]"

definition name_finance :: string where
  "name_finance = ''Finance Advisor '' @ [CHR 0xF0, CHR 0x9F, CHR 0x92, CHR 0xB0]"

definition name_hr :: string where
  "name_hr = ''HR Advisor '' @ [CHR 0xF0, CHR 0x9F, CHR 0x91, CHR 0xA5]"

definition name_orders :: string where
  "name_orders = ''Orders Advisor '' @ [CHR 0xF0, CHR 0x9F, CHR 0x93, CHR 0xA6]"

definition name_reports :: string where
  "name_reports = ''Reports Advisor '' @ [CHR 0xF0, CHR 0x9F, CHR 0x93, CHR 0x8A]"

definition result :: "string \<Rightarrow> string \<Rightarrow> string \<Rightarrow> string \<Rightarrow> meta option \<Rightarrow> advisor_result" where
  "result n t src txt art = \<lparr>r_name = n, r_type = t, r_source = src, r_text = txt, r_artifact = art\<rparr>"

definition exn_msg :: "exn \<Rightarrow> string" where
  "exn_msg e = (case e of Timeout m \<Rightarrow> m | RequestException m \<Rightarrow> m | JSONDecodeError m \<Rightarrow> m | OtherException m \<Rightarrow> m)"

definition GENERAL_DB_KEYWORDS :: "string list" where
  "GENERAL_DB_KEYWORDS = [''table'', ''database'', ''query'', ''sql'', ''select'', ''data'', ''record'', ''nlp'', ''nl2sql'']"

text \<open>The General advisor does not look at the mock flag.\<close>

definition advisor_general ::
  "replica_config \<Rightarrow> pylib \<Rightarrow> cloud \<Rightarrow> string \<Rightarrow> rstate \<Rightarrow> effect list \<times> advisor_result \<times> rstate" where
  "advisor_general cfg lib c prompt st =
     (let try_nl2sql = (GENERAL_ORDS_URL cfg \<noteq> [] \<and> REQUESTS_OK cfg \<and> any_in GENERAL_DB_KEYWORDS (str_lower lib prompt));
          es1 = (if try_nl2sql then [NetCall ''nl2sql''] else [])
      in if try_nl2sql \<and> truthy (nl2sql_answer c prompt) then
           (Invoke ''general'' # es1, result name_general ''general'' ''nl2sql'' (the (nl2sql_answer c prompt)) None, st)
         else if genai_client_r c then
           (case general_chat_r c prompt of
              ChatText t \<Rightarrow>
                (Invoke ''general'' # es1 @ [NetCall ''genai chat''],
                 result name_general ''general'' ''genai'' (str_strip lib t) None, st)
            | other \<Rightarrow>
                (Invoke ''general'' # es1 @ [NetCall ''genai chat''],
                 result name_general ''general'' ''static''
                   ''I can help with general queries, database questions (via NL2SQL), and routing to other advisors.'' None, st))
         else
           (Invoke ''general'' # es1,
            result name_general ''general'' ''static''
              ''I can help with general queries, database questions (via NL2SQL), and routing to other advisors.'' None, st))"

text \<open>Storing a decoded report: the binary first, the metadata only if that write succeeded.\<close>

definition store_pdf ::
  "replica_config \<Rightarrow> cloud \<Rightarrow> rstate \<Rightarrow> string \<Rightarrow> advisor_result \<times> rstate" where
  "store_pdf cfg c st b64_pdf =
     (case b64decode b64_pdf of
        None \<Rightarrow> (result name_finance ''finance'' ''error'' (''Finance error: '' @ b64_error c b64_pdf) None, st)
      | Some pdf_bytes \<Rightarrow>
          (case draw_uuid c st of
             (artifact_id, st1) \<Rightarrow>
               (case put_object cfg c st1 (pdf_key artifact_id) (Bytes pdf_bytes) of
                  (True, st2) \<Rightarrow>
                    (let meta =
                           [(''id'', JS artifact_id), (''type'', JS ''pdf''), (''advisor'', JS ''finance''),
                            (''status'', JS ''ready''),
                            (''filename'', JS (''Finance_Report_'' @ utcnow_stamp c @ ''.pdf'')),
                            (''created'', JS (utcnow_iso c @ ''Z'')),
                            (''contentType'', JS ''application/pdf''),
                            (''size'', JN (length pdf_bytes))];
                         st3 = snd (put_object cfg c st2 (meta_key artifact_id) (JsonDoc meta));
                         url = get_presigned cfg c (pdf_key artifact_id)
                     in (result name_finance ''finance'' ''api'' ''Finance PDF ready.''
                           (Some (dict_set ''expiresIn'' (JN (PRESIGN_TTL_SECONDS cfg))
                                    (dict_set ''presignedUrl'' (url_jval url) meta))), st3))
                | (False, st2) \<Rightarrow>
                    (result name_finance ''finance'' ''api'' ''Failed to store PDF artifact.'' None, st2))))"

definition finance_status_text :: "nat \<Rightarrow> string" where
  "finance_status_text status_code =
     (if status_code = 401 then ''Authentication failed for finance API.''
      else ''Finance API error HTTP '' @ str_nat status_code)"

definition advisor_finance ::
  "replica_config \<Rightarrow> pylib \<Rightarrow> cloud \<Rightarrow> string \<Rightarrow> rstate \<Rightarrow> effect list \<times> advisor_result \<times> rstate" where
  "advisor_finance cfg lib c prompt st =
     (if USE_MOCK_RESPONSES_r cfg
         \<or> \<not> (FINANCE_URL cfg \<noteq> [] \<and> FINANCE_USER cfg \<noteq> [] \<and> FINANCE_PASS cfg \<noteq> [])
         \<or> \<not> REQUESTS_OK cfg then
        ([Invoke ''finance''],
         result name_finance ''finance'' ''mock''
           ''Finance advisor mock: budget allocation 40% R&D, 30% Ops, 30% Marketing.'' None, st)
      else if API_SPEC_FINANCE cfg then
        (case finance_rest c of
           Inl e \<Rightarrow>
             ([Invoke ''finance'', NetCall ''finance rest''],
              result name_finance ''finance'' ''error'' (''Finance error: '' @ exn_msg e) None, st)
         | Inr (status_code, body) \<Rightarrow>
             if status_code = 200 then
               (case body of
                  Inl e \<Rightarrow>
                    ([Invoke ''finance'', NetCall ''finance rest''],
                     result name_finance ''finance'' ''error'' (''Finance error: '' @ exn_msg e) None, st)
                | Inr b64_pdf \<Rightarrow>
                    if b64_pdf \<noteq> [] then
                      (case store_pdf cfg c st b64_pdf of
                         (r, st') \<Rightarrow> ([Invoke ''finance'', NetCall ''finance rest''], r, st'))
                    else
                      ([Invoke ''finance'', NetCall ''finance rest''],
                       result name_finance ''finance'' ''api'' ''Report generated but PDF bytes not found.'' None, st))
             else
               ([Invoke ''finance'', NetCall ''finance rest''],
                result name_finance ''finance'' ''api'' (finance_status_text status_code) None, st))
      else
        (case finance_soap c of
           Inl e \<Rightarrow>
             ([Invoke ''finance'', NetCall ''finance soap''],
              result name_finance ''finance'' ''error'' (''Finance error: '' @ exn_msg e) None, st)
         | Inr (status_code, response_text) \<Rightarrow>
             if status_code = 200 then
               (case re_report_bytes lib response_text of
                  Some g \<Rightarrow>
                    (case store_pdf cfg c st (str_strip lib g) of
                       (r, st') \<Rightarrow> ([Invoke ''finance'', NetCall ''finance soap''], r, st'))
                | None \<Rightarrow>
                    ([Invoke ''finance'', NetCall ''finance soap''],
                     result name_finance ''finance'' ''api'' ''Report generated but PDF bytes not found.'' None, st))
             else
               ([Invoke ''finance'', NetCall ''finance soap''],
                result name_finance ''finance'' ''api'' (finance_status_text status_code) None, st)))"

definition advisor_hr ::
  "replica_config \<Rightarrow> cloud \<Rightarrow> string \<Rightarrow> rstate \<Rightarrow> effect list \<times> advisor_result \<times> rstate" where
  "advisor_hr cfg c prompt st =
     (let live = (HR_URL cfg \<noteq> [] \<and> HR_USER cfg \<noteq> [] \<and> HR_PASS cfg \<noteq> [] \<and> REQUESTS_OK cfg
                  \<and> \<not> USE_MOCK_RESPONSES_r cfg)
      in if live \<and> hr_answer c prompt \<noteq> None then
           ([Invoke ''hr'', NetCall ''hr api''], result name_hr ''hr'' ''api'' (the (hr_answer c prompt)) None, st)
         else
           (Invoke ''hr'' # (if live then [NetCall ''hr api''] else []),
            result name_hr ''hr'' ''mock''
              ''HR policies include 20 days PTO, comprehensive health coverage, and flexible remote work.'' None, st))"

definition replica_order_line :: "order_item \<Rightarrow> string" where
  "replica_order_line it =
     getd (OrderKey it) ''N/A'' @ '' | '' @ getd (StatusCode it) ''N/A'' @ '' | '' @ render_ts (LastUpdateDate it)"

definition orders_list_result ::
  "replica_config \<Rightarrow> cloud \<Rightarrow> rstate \<Rightarrow> order_item list \<Rightarrow> advisor_result \<times> rstate" where
  "orders_list_result cfg c st items =
     (if items = [] then (result name_orders ''orders'' ''api'' ''No recent sales orders.'' None, st)
      else
        (let text = ''Recent Orders (showing 10):'' @ nl @ join nl (map replica_order_line (take 10 items))
         in if MAX_INLINE_BYTES cfg < int (length text) \<and> object_client c then
              (case draw_uuid c st of
                 (artifact_id, st1) \<Rightarrow>
                   (let st2 = snd (put_object cfg c st1 (''artifact/'' @ artifact_id @ ''.txt'') (Bytes text));
                        meta =
                          [(''id'', JS artifact_id), (''type'', JS ''text''), (''advisor'', JS ''orders''),
                           (''status'', JS ''ready''),
                           (''filename'', JS (''Orders_List_'' @ utcnow_stamp c @ ''.txt'')),
                           (''created'', JS (utcnow_iso c @ ''Z'')),
                           (''contentType'', JS ''text/plain''),
                           (''size'', JN (length text))];
                        st3 = snd (put_object cfg c st2 (meta_key artifact_id) (JsonDoc meta));
                        url = get_presigned cfg c (''artifact/'' @ artifact_id @ ''.txt'')
                    in (result name_orders ''orders'' ''api'' ''Orders list stored as artifact (download).''
                          (Some (dict_set ''expiresIn'' (JN (PRESIGN_TTL_SECONDS cfg))
                                   (dict_set ''presignedUrl'' (url_jval url) meta))), st3)))
            else (result name_orders ''orders'' ''api'' text None, st)))"

definition orders_error :: "exn \<Rightarrow> advisor_result" where
  "orders_error e = result name_orders ''orders'' ''error'' (''Orders error: '' @ exn_msg e) None"

definition advisor_orders ::
  "replica_config \<Rightarrow> pylib \<Rightarrow> cloud \<Rightarrow> string \<Rightarrow> rstate \<Rightarrow> effect list \<times> advisor_result \<times> rstate" where
  "advisor_orders cfg lib c prompt st =
     (if USE_MOCK_RESPONSES_r cfg
         \<or> \<not> (ORDERS_URL cfg \<noteq> [] \<and> ORDERS_USER cfg \<noteq> [] \<and> ORDERS_PASS cfg \<noteq> [])
         \<or> \<not> REQUESTS_OK cfg then
        ([Invoke ''orders''],
         result name_orders ''orders'' ''mock'' ''Recent orders: fulfillment 95%, avg delivery 2.3 days.'' None, st)
      else
        (let order_key = (case re_order_key lib prompt of Some k \<Rightarrow> Some k | None \<Rightarrow> re_long_id lib prompt)
         in if truthy order_key then
              ([Invoke ''orders'', NetCall ''orders detail''],
               (case orders_detail_r c (the order_key) of
                  Inl e \<Rightarrow> orders_error e
                | Inr (status_code, body) \<Rightarrow>
                    if status_code = 200 then
                      (case body of
                         Inl e \<Rightarrow> orders_error e
                       | Inr summary \<Rightarrow> result name_orders ''orders'' ''api'' summary None)
                    else if status_code = 404 then result name_orders ''orders'' ''api'' ''Order not found.'' None
                    else result name_orders ''orders'' ''api'' (''Orders API error '' @ str_nat status_code) None), st)
            else
              (case orders_list_r c of
                 Inl e \<Rightarrow> ([Invoke ''orders'', NetCall ''orders list''], orders_error e, st)
               | Inr (status_code, body) \<Rightarrow>
                   if status_code = 200 then
                     (case body of
                        Inl e \<Rightarrow> ([Invoke ''orders'', NetCall ''orders list''], orders_error e, st)
                      | Inr items \<Rightarrow>
                          (case orders_list_result cfg c st items of
                             (r, st') \<Rightarrow> ([Invoke ''orders'', NetCall ''orders list''], r, st')))
                   else
                     ([Invoke ''orders'', NetCall ''orders list''],
                      result name_orders ''orders'' ''api'' (''Orders API error '' @ str_nat status_code) None, st))))"

text \<open>
  The Reports advisor starts an export and hands out a pending artifact; in mock mode the
  pending artifact has a fresh id and nothing is stored.
\<close>

definition pending_artifact :: "string \<Rightarrow> meta" where
  "pending_artifact artifact_id = [(''id'', JS artifact_id), (''type'', JS ''pdf''), (''status'', JS ''pending'')]"

definition advisor_reports ::
  "replica_config \<Rightarrow> cloud \<Rightarrow> string \<Rightarrow> rstate \<Rightarrow> effect list \<times> advisor_result \<times> rstate" where
  "advisor_reports cfg c prompt st =
     (case draw_uuid c st of
        (artifact_id, st1) \<Rightarrow>
          if USE_MOCK_RESPONSES_r cfg
             \<or> \<not> (REPORTS_URL cfg \<noteq> [] \<and> REPORTS_USER cfg \<noteq> [] \<and> REPORTS_PASS cfg \<noteq> [])
             \<or> \<not> REQUESTS_OK cfg then
            ([Invoke ''reports''],
             result name_reports ''reports'' ''mock'' ''Reports export mock started.''
               (Some (pending_artifact artifact_id)), st1)
          else
            (let st2 =
                   (if object_client c then
                      snd (put_object cfg c st1 (meta_key artifact_id)
                             (JsonDoc [(''id'', JS artifact_id), (''type'', JS ''pdf''), (''advisor'', JS ''reports''),
                                       (''status'', JS ''pending''),
                                       (''filename'', JS (''Analytics_Report_'' @ utcnow_stamp c @ ''.pdf'')),
                                       (''created'', JS (utcnow_iso c @ ''Z''))]))
                    else st1)
             in ([Invoke ''reports''],
                 result name_reports ''reports'' ''export'' ''Report export initiated.''
                   (Some (pending_artifact artifact_id)), st2)))"

subsection \<open>Routing in func\_replica.py\<close>

definition INTENTS :: "string list" where
  "INTENTS = [''general'', ''finance'', ''hr'', ''orders'', ''reports'']"

text \<open>
  \<open>detect_intent\<close> accepts the first label of \<open>INTENTS\<close> that occurs anywhere in the
  trimmed, lower-cased answer.
\<close>

definition detect_intent ::
  "replica_config \<Rightarrow> pylib \<Rightarrow> cloud \<Rightarrow> string \<Rightarrow> effect list \<times> string option" where
  "detect_intent cfg lib c prompt =
     (if \<not> genai_client_r c \<or> GENAI_INTENT_MODE_r cfg = ''off'' then ([], None)
      else
        ([NetCall ''genai intent''],
         (case intent_chat_r c prompt of
            ChatText t \<Rightarrow> find (\<lambda>intent. py_in intent (str_lower lib (str_strip lib t))) INTENTS
          | other \<Rightarrow> None)))"

definition ADVISOR_KEYWORDS :: "string \<Rightarrow> string list" where
  "ADVISOR_KEYWORDS adv =
     (if adv = ''general'' then
        [''general'', ''help'', ''what can you do'', ''capabilities'', ''nlp'', ''nl2sql'', ''database'', ''table'', ''query'']
      else if adv = ''finance'' then [''finance'', ''revenue'', ''budget'', ''expense'', ''cost'', ''money'']
      else if adv = ''hr'' then [''hr'', ''policy'', ''benefit'', ''leave'', ''employee'', ''vacation'']
      else if adv = ''orders'' then [''order'', ''inventory'', ''delivery'', ''shipping'', ''stock'', ''sales'']
      else if adv = ''reports'' then [''workbook'', ''analytics'', ''export'', ''oac'', ''dashboard'']
      else [])"

text \<open>\<open>ADVISOR_FUNCS.get(adv, advisor_general)\<close>.\<close>

definition ADVISOR_FUNCS ::
  "replica_config \<Rightarrow> pylib \<Rightarrow> cloud \<Rightarrow> string \<Rightarrow> string \<Rightarrow> rstate \<Rightarrow> effect list \<times> advisor_result \<times> rstate" where
  "ADVISOR_FUNCS cfg lib c adv =
     (if adv = ''finance'' then advisor_finance cfg lib c
      else if adv = ''hr'' then advisor_hr cfg c
      else if adv = ''orders'' then advisor_orders cfg lib c
      else if adv = ''reports'' then advisor_reports cfg c
      else advisor_general cfg lib c)"

text \<open>The advisors run one after the other, each on the state the previous one left.\<close>

fun run_advisors ::
  "replica_config \<Rightarrow> pylib \<Rightarrow> cloud \<Rightarrow> string list \<Rightarrow> string \<Rightarrow> rstate
     \<Rightarrow> effect list \<times> advisor_result list \<times> rstate" where
  "run_advisors cfg lib c [] prompt st = ([], [], st)"
| "run_advisors cfg lib c (adv # rest) prompt st =
     (case ADVISOR_FUNCS cfg lib c adv prompt st of
        (es1, r, st1) \<Rightarrow>
          (case run_advisors cfg lib c rest prompt st1 of
             (es2, rs, st2) \<Rightarrow> (es1 @ es2, r # rs, st2)))"

text \<open>
  The keyword branch of \<open>process_chat\<close>: General when one of its keywords occurs, then
  every specific advisor with a keyword in the query, and General alone when nothing matched.
\<close>

definition keyword_matches :: "string \<Rightarrow> string list" where
  "keyword_matches lower_prompt =
     (let matched =
            (if any_in (ADVISOR_KEYWORDS ''general'') lower_prompt then [''general''] else [])
            @ filter (\<lambda>adv. any_in (ADVISOR_KEYWORDS adv) lower_prompt) [''finance'', ''hr'', ''orders'', ''reports'']
      in if matched = [] then [''general''] else matched)"

record chat_result =
  routedIntent :: "string option"
  advisors :: "advisor_result list"
  message :: string
  artifactsPending :: bool

text \<open>
  \<open>f"[{nm.split()[0]}] {txt}"\<close>. Every result comes from one of the five advisors, so
  \<open>nm\<close> is one of their five names, ASCII words followed by an emoji; \<open>first_word\<close>
  is \<open>split()[0]\<close> on such a name.
\<close>

definition first_word :: "string \<Rightarrow> string" where
  "first_word s = takeWhile (\<lambda>c. \<not> is_space c) (dropWhile is_space s)"

definition summary_part :: "advisor_result \<Rightarrow> string" where
  "summary_part a = ''['' @ first_word (r_name a) @ ''] '' @ r_text a"

definition is_pending :: "advisor_result \<Rightarrow> bool" where
  "is_pending a =
     (case r_artifact a of None \<Rightarrow> False | Some art \<Rightarrow> art \<noteq> [] \<and> dict_get art ''status'' = Some (JS ''pending''))"

definition process_chat ::
  "replica_config \<Rightarrow> pylib \<Rightarrow> cloud \<Rightarrow> rstate \<Rightarrow> string \<Rightarrow> effect list \<times> chat_result \<times> rstate" where
  "process_chat cfg lib c st prompt =
     (case (if GENAI_INTENT_MODE_r cfg \<noteq> ''off'' then detect_intent cfg lib c prompt else ([], None)) of
        (ds, routed) \<Rightarrow>
          (case run_advisors cfg lib c
                  (case routed of Some r \<Rightarrow> [r] | None \<Rightarrow> keyword_matches (str_lower lib prompt)) prompt st of
             (es, results, st') \<Rightarrow>
               (ds @ es,
                \<lparr>routedIntent = routed, advisors = results,
                 message = join (nl @ nl) (map summary_part results),
                 artifactsPending = list_ex is_pending results\<rparr>, st')))"

section \<open>Example surroundings\<close>

text \<open>
  Concrete settings and worlds for the scenarios, all on ASCII text: a library with the
  ASCII string methods, whose regular expressions find nothing and whose
  \<open>fromisoformat\<close> knows six timestamps (three with an offset, three without; an aware
  value is its UTC instant in microseconds since 1970, a naive one its distance from
  \<open>datetime.min\<close>), the mock configuration without a Gen AI client, and the same for
  func\_replica.py. \<open>example_json_loads\<close> is \<open>json.loads\<close> on the two texts the examples
  read: \<open>[]\<close> is a list, and the placeholder PDF, which starts with \<open>%\<close>, is no JSON.
\<close>

definition example_json_loads :: "string \<Rightarrow> string + json_value" where
  "example_json_loads b =
     (if b = ''[]'' then Inr (JsonOther ''list'') else Inl ''Expecting value: line 1 column 1 (char 0)'')"

definition lib0 :: pylib where
  "lib0 =
     \<lparr>str_lower = ascii_lower, str_upper = ascii_upper, str_strip = ascii_strip, str_split = ascii_split,
      re_report_bytes = (\<lambda>s. None), re_order_key = (\<lambda>s. None), re_long_id = (\<lambda>s. None),
      fromisoformat =
        map_of
          [(''2024-03-01T00:00:00+00:00'', Aware 1709251200000000),
           (''2024-01-01T00:00:00+00:00'', Aware 1704067200000000),
           (''2024-02-01T00:00:00+00:00'', Aware 1706745600000000),
           (''2024-03-01T00:00:00'', Naive 63844848000000000),
           (''2024-01-01T00:00:00'', Naive 63839664000000000),
           (''2024-02-01T00:00:00'', Naive 63842342400000000)]\<rparr>"

definition mock_config :: config where
  "mock_config = \<lparr>USE_MOCK_RESPONSES = True, GENAI_INTENT_MODE = ''auto'', CONFIG = Map.empty\<rparr>"

definition world0 :: world where
  "world0 =
     \<lparr>genai_client = False, intent_chat = (\<lambda>p. ChatEmpty), general_chat = (\<lambda>p. ChatEmpty),
      agent_api_live = (\<lambda>a q. None), finance_post = Inl (Timeout []),
      orders_detail = (\<lambda>k. Inl (Timeout [])), orders_list = Inl (Timeout []),
      reports_export = Inl (Timeout []), reports_download = (\<lambda>n. Inl (Timeout []))\<rparr>"

definition replica_mock :: replica_config where
  "replica_mock =
     \<lparr>USE_MOCK_RESPONSES_r = True, GENAI_INTENT_MODE_r = ''auto'', GENERAL_ORDS_URL = [],
      FINANCE_URL = [], FINANCE_USER = [], FINANCE_PASS = [],
      ORDERS_URL = [], ORDERS_USER = [], ORDERS_PASS = [],
      REPORTS_URL = [], REPORTS_USER = [], REPORTS_PASS = [],
      HR_URL = [], HR_USER = [], HR_PASS = [],
      ARTIFACT_BUCKET = ''bucket'', PRESIGN_TTL_SECONDS = 900, MAX_INLINE_BYTES = 18000,
      REQUESTS_OK = True, API_SPEC_FINANCE = False\<rparr>"

definition cloud0 :: cloud where
  "cloud0 =
     \<lparr>genai_client_r = False, object_client = True, namespace_name = ''ns'',
      put_fails = (\<lambda>k. False), get_fails = (\<lambda>k. None),
      not_found_text = (\<lambda>k. ''ObjectNotFound: '' @ k),
      json_loads = example_json_loads,
      presigned_url = (\<lambda>k. Some (''https://objectstorage/'' @ k)),
      intent_chat_r = (\<lambda>p. ChatEmpty), general_chat_r = (\<lambda>p. ChatEmpty),
      nl2sql_answer = (\<lambda>p. None), hr_answer = (\<lambda>p. None),
      finance_rest = Inl (Timeout []), finance_soap = Inl (Timeout []),
      orders_detail_r = (\<lambda>k. Inl (Timeout [])), orders_list_r = Inl (Timeout []),
      b64_error = (\<lambda>s. ''Incorrect padding''), uuid4 = (\<lambda>n. ''uuid-'' @ str_nat n),
      utcnow_stamp = ''20260101_000000'', utcnow_iso = ''2026-01-01T00:00:00''\<rparr>"

definition rstate0 :: rstate where
  "rstate0 = \<lparr>objects = Map.empty, uuid_count = 0\<rparr>"

text \<open>
  Two clouds with a Gen AI client: one whose classifier answers with a sentence that holds
  a label, one whose classifier call raises.
\<close>

definition classifier_sentence :: "string \<Rightarrow> chat_outcome" where
  "classifier_sentence p = ChatText ''Category: finance''"

definition classifier_down :: "string \<Rightarrow> chat_outcome" where
  "classifier_down p = ChatRaises ''service unavailable''"

definition cloud_wordy :: cloud where
  "cloud_wordy = cloud0\<lparr>genai_client_r := True, intent_chat_r := classifier_sentence\<rparr>"

definition cloud_down :: cloud where
  "cloud_down = cloud0\<lparr>genai_client_r := True, intent_chat_r := classifier_down\<rparr>"

definition classifier_unsure :: "string \<Rightarrow> chat_outcome" where
  "classifier_unsure p = ChatText ''I am not sure''"

definition cloud_unsure :: cloud where
  "cloud_unsure = cloud0\<lparr>genai_client_r := True, intent_chat_r := classifier_unsure\<rparr>"

definition world_wordy :: world where
  "world_wordy = world0\<lparr>genai_client := True, intent_chat := classifier_sentence\<rparr>"








text \<open>
  A live configuration of the chat application, and an Orders service that lists three
  orders stamped with a UTC offset and one whose stamp does not parse; the same list with
  stamps without offset.
\<close>

definition live_config :: config where
  "live_config =
     \<lparr>USE_MOCK_RESPONSES = False, GENAI_INTENT_MODE = ''auto'',
      CONFIG = map_of
        [(''finance_agent_url'', ''https://fusion.example/xmlpserver/services/PublicReportService''),
         (''finance_agent_username'', ''svc''), (''finance_agent_password'', ''secret''),
         (''orders_agent_url'', ''https://fusion.example/salesOrdersForOrderHub''),
         (''orders_agent_username'', ''svc''), (''orders_agent_password'', ''secret'')]\<rparr>"

definition order_at :: "string \<Rightarrow> string \<Rightarrow> order_item" where
  "order_at k t = \<lparr>OrderKey = Some k, StatusCode = Some ''OPEN'', CreatedBy = Some ''alice'', LastUpdateDate = TsStr t\<rparr>"

definition orders_with_offset :: "order_item list" where
  "orders_with_offset =
     [order_at ''O3'' ''2024-03-01T00:00:00Z'', order_at ''O1'' ''2024-01-01T00:00:00Z'',
      order_at ''O2'' ''2024-02-01T00:00:00Z'', order_at ''OX'' ''not-a-date'']"

definition orders_naive :: "order_item list" where
  "orders_naive =
     [order_at ''O3'' ''2024-03-01T00:00:00'', order_at ''O1'' ''2024-01-01T00:00:00'',
      order_at ''O2'' ''2024-02-01T00:00:00'', order_at ''OX'' ''not-a-date'']"

definition world_orders :: world where
  "world_orders = world0\<lparr>orders_list := Inr (200, Inr orders_with_offset)\<rparr>"

text \<open>
  A report service that answers with a SOAP envelope: once with the base64 text of
  \<open>hello\<close>, once with the single character \<open>A\<close>, which is not a complete
  base64 quad. \<open>soap_bytes\<close> is the regular-expression search on these two envelopes.
\<close>

definition soap_ok :: string where
  "soap_ok = ''<ns2:reportBytes>aGVsbG8=</ns2:reportBytes>''"

definition soap_short :: string where
  "soap_short = ''<ns2:reportBytes>A</ns2:reportBytes>''"

definition soap_bytes :: "string \<Rightarrow> string option" where
  "soap_bytes s = (if s = soap_ok then Some ''aGVsbG8='' else if s = soap_short then Some ''A'' else None)"

definition lib_soap :: pylib where
  "lib_soap = lib0\<lparr>re_report_bytes := soap_bytes\<rparr>"

definition world_pdf :: world where
  "world_pdf = world0\<lparr>finance_post := Inr (200, soap_ok)\<rparr>"

definition world_short_pdf :: world where
  "world_short_pdf = world0\<lparr>finance_post := Inr (200, soap_short)\<rparr>"

definition draw0 :: draw where
  "draw0 = \<lparr>new_uuid = ''d1'', now_hms = ''10:00:00'', now_stamp = ''20260101_100000''\<rparr>"

definition short_entry :: download_entry where
  "short_entry =
     \<lparr>e_type = ''pdf'', e_format = None, e_data = ''A'', e_advisor = ''Finance'',
      e_timestamp = ''20260101_100000''\<rparr>"

definition hello_entry :: download_entry where
  "hello_entry =
     \<lparr>e_type = ''pdf'', e_format = None, e_data = ''aGVsbG8='', e_advisor = ''Finance'',
      e_timestamp = ''20260101_100000''\<rparr>"

definition report_entry :: download_entry where
  "report_entry =
     \<lparr>e_type = ''report'', e_format = Some ''pdf'', e_data = ''aGVsbG8='', e_advisor = ''Reports'',
      e_timestamp = ''20260101_100000''\<rparr>"

text \<open>
  func\_replica.py with the Reports service configured, the metadata its Reports advisor
  stores when an export starts, the bucket right after that, the same artifact once
  finalized, an artifact marked \<open>failed\<close>, and a cloud without an Object Storage client.
\<close>

definition replica_live :: replica_config where
  "replica_live =
     replica_mock\<lparr>USE_MOCK_RESPONSES_r := False, REPORTS_URL := ''https://oac.example'',
                   REPORTS_USER := ''svc'', REPORTS_PASS := ''secret''\<rparr>"


definition ready_meta :: meta where
  "ready_meta =
     [(''id'', JS ''uuid-0''), (''type'', JS ''pdf''), (''advisor'', JS ''reports''),
      (''status'', JS ''ready''), (''filename'', JS ''Analytics_Report_20260101_000000.pdf''),
      (''created'', JS ''2026-01-01T00:00:00Z''), (''size'', JN 53),
      (''contentType'', JS ''application/pdf'')]"



definition rstate_ready :: rstate where
  "rstate_ready =
     \<lparr>objects = [''artifact/uuid-0.pdf'' \<mapsto> Bytes dummy_pdf, ''artifact/uuid-0.json'' \<mapsto> JsonDoc ready_meta],
      uuid_count = 1\<rparr>"





section \<open>Facts about strings and effects\<close>

lemma prefix_py_in: "prefix w s \<Longrightarrow> py_in w s"
  by (cases s) auto

lemma py_in_short: "length s < length w \<Longrightarrow> \<not> py_in w s"
proof (induction s)
  case Nil
  then show ?case by auto
next
  case (Cons c cs)
  then show ?case by (auto dest: prefix_length_le)
qed

lemma py_count_zero: "w \<noteq> [] \<Longrightarrow> \<not> py_in w s \<Longrightarrow> py_count s w = 0"
proof (induction s w rule: py_count.induct)
  case (1 s w)
  show ?case
  proof (cases "length s < length w")
    case True
    with "1.prems" show ?thesis by (simp add: py_count.simps)
  next
    case False
    with "1.prems" have ne: "s \<noteq> []" by auto
    from "1.prems" have np: "\<not> prefix w s" using prefix_py_in by blast
    from ne "1.prems" np have "\<not> py_in w (tl s)" by (cases s) auto
    with "1.IH"(2) "1.prems" False np have "py_count (tl s) w = 0" by simp
    with "1.prems" False np show ?thesis by (subst py_count.simps) simp
  qed
qed

lemma py_count_pos: "w \<noteq> [] \<Longrightarrow> py_in w s \<Longrightarrow> 0 < py_count s w"
proof (induction s w rule: py_count.induct)
  case (1 s w)
  from "1.prems" have len: "\<not> length s < length w" using py_in_short by blast
  show ?case
  proof (cases "prefix w s")
    case True
    with "1.prems" len show ?thesis by (subst py_count.simps) simp
  next
    case False
    from len "1.prems" have ne: "s \<noteq> []" by auto
    with "1.prems" False have "py_in w (tl s)" by (cases s) auto
    with "1.IH"(2) "1.prems" len False have "0 < py_count (tl s) w" by simp
    with "1.prems" len False show ?thesis by (subst py_count.simps) simp
  qed
qed

lemma count_all_zero:
  "list_all (\<lambda>w. w \<noteq> []) ws \<Longrightarrow> \<not> any_in ws s \<Longrightarrow> count_all s ws = 0"
  by (induction ws) (auto simp: count_all_def any_in_def py_count_zero)

lemma kw_nonempty:
  "list_all (\<lambda>w. w \<noteq> []) kw_finance" "list_all (\<lambda>w. w \<noteq> []) kw_hr"
  "list_all (\<lambda>w. w \<noteq> []) kw_orders" "list_all (\<lambda>w. w \<noteq> []) kw_reports"
  by (simp_all add: kw_finance_def kw_hr_def kw_orders_def kw_reports_def)

lemma count_all_pos:
  "list_all (\<lambda>w. w \<noteq> []) ws \<Longrightarrow> any_in ws s \<Longrightarrow> 0 < count_all s ws"
proof (induction ws)
  case Nil
  then show ?case by (simp add: any_in_def)
next
  case (Cons w ws)
  show ?case
  proof (cases "py_in w s")
    case True
    with Cons.prems have "0 < py_count s w" by (simp add: py_count_pos)
    then show ?thesis by (simp add: count_all_def)
  next
    case False
    with Cons.prems have "any_in ws s" by (simp add: any_in_def)
    with Cons have "0 < count_all s ws" by simp
    then show ?thesis by (simp add: count_all_def)
  qed
qed

lemma count_all_pos_iff:
  "list_all (\<lambda>w. w \<noteq> []) ws \<Longrightarrow> 0 < count_all s ws \<longleftrightarrow> any_in ws s"
  using count_all_pos count_all_zero by (metis less_numeral_extra(3))

lemma max_count_word_counts:
  "max_count (word_counts s) =
     max (count_all s kw_reports) (max (count_all s kw_orders) (max (count_all s kw_hr) (count_all s kw_finance)))"
  by (simp add: max_count_def word_counts_def)

lemma max_count_pos_iff:
  "0 < max_count (word_counts s) \<longleftrightarrow>
     any_in kw_finance s \<or> any_in kw_hr s \<or> any_in kw_orders s \<or> any_in kw_reports s"
  unfolding max_count_word_counts
  using count_all_pos_iff [OF kw_nonempty(1), of s] count_all_pos_iff [OF kw_nonempty(2), of s]
    count_all_pos_iff [OF kw_nonempty(3), of s] count_all_pos_iff [OF kw_nonempty(4), of s]
  by (simp add: less_max_iff_disj) blast

lemma max_by_count_first:
  "\<exists>ys zs. best # xs = ys @ max_by_count best xs # zs
     \<and> (\<forall>y\<in>set ys. snd y < snd (max_by_count best xs))
     \<and> (\<forall>z\<in>set zs. snd z \<le> snd (max_by_count best xs))"
proof (induction xs arbitrary: best)
  case Nil
  have "[best] = [] @ max_by_count best [] # []" by simp
  then show ?case by (metis empty_iff list.set(1))
next
  case (Cons x xs)
  show ?case
  proof (cases "snd best < snd x")
    case True
    then have m: "max_by_count best (x # xs) = max_by_count x xs" by simp
    from Cons [of x] obtain ys zs where e: "x # xs = ys @ max_by_count x xs # zs"
      and l: "\<forall>y\<in>set ys. snd y < snd (max_by_count x xs)"
      and g: "\<forall>z\<in>set zs. snd z \<le> snd (max_by_count x xs)" by blast
    have "x \<in> set (ys @ max_by_count x xs # zs)" using e by (metis list.set_intros(1))
    then have "snd x \<le> snd (max_by_count x xs)" using l g by auto
    with True have b: "snd best < snd (max_by_count x xs)" by simp
    have "best # x # xs = (best # ys) @ max_by_count x xs # zs" using e by simp
    moreover have "\<forall>y\<in>set (best # ys). snd y < snd (max_by_count x xs)" using l b by simp
    ultimately show ?thesis unfolding m using g by blast
  next
    case False
    then have m: "max_by_count best (x # xs) = max_by_count best xs" by simp
    from Cons [of best] obtain ys zs where e: "best # xs = ys @ max_by_count best xs # zs"
      and l: "\<forall>y\<in>set ys. snd y < snd (max_by_count best xs)"
      and g: "\<forall>z\<in>set zs. snd z \<le> snd (max_by_count best xs)" by blast
    show ?thesis
    proof (cases ys)
      case Nil
      from e have "best # xs = max_by_count best xs # zs" unfolding Nil append_Nil .
      then have r: "max_by_count best xs = best" and z: "zs = xs" by (metis list.inject)+
      have "best # x # xs = [] @ max_by_count best xs # (x # xs)" using r by simp
      moreover have "\<forall>z\<in>set (x # xs). snd z \<le> snd (max_by_count best xs)"
        using g z r False by simp
      ultimately show ?thesis unfolding m by (metis empty_iff list.set(1))
    next
      case (Cons y ys')
      from e have "best # xs = y # ys' @ max_by_count best xs # zs" unfolding Cons append_Cons .
      then have y: "y = best" and xs: "xs = ys' @ max_by_count best xs # zs" by (metis list.inject)+
      have b: "snd best < snd (max_by_count best xs)" using l Cons y by simp
      have "best # x # xs = (best # x # ys') @ max_by_count best xs # zs" using xs by simp
      moreover have "\<forall>y\<in>set (best # x # ys'). snd y < snd (max_by_count best xs)"
        using l Cons b False by auto
      ultimately show ?thesis unfolding m using g by blast
    qed
  qed
qed

lemma word_counts_split: "word_counts s = hd (word_counts s) # tl (word_counts s)"
  by (simp add: word_counts_def)

lemma fold_max_mono: "fold max xs (a::nat) = Max (set (a # xs))"
  by (metis Max.set_eq_fold)

lemma max_by_count_max:
  "snd (max_by_count (hd (word_counts s)) (tl (word_counts s))) = max_count (word_counts s)"
proof -
  let ?r = "max_by_count (hd (word_counts s)) (tl (word_counts s))"
  from max_by_count_first [of "hd (word_counts s)" "tl (word_counts s)"]
  obtain ys zs where e: "word_counts s = ys @ ?r # zs"
    and l: "\<forall>y\<in>set ys. snd y < snd ?r" and g: "\<forall>z\<in>set zs. snd z \<le> snd ?r"
    using word_counts_split [of s] by metis
  have a: "\<forall>x\<in>set (word_counts s). snd x \<le> snd ?r"
    using e l g by (metis Un_iff less_imp_le order_refl set_ConsD set_append)
  have b: "?r \<in> set (word_counts s)" using e by (metis in_set_conv_decomp)
  have "max_count (word_counts s) = Max (set (0 # map snd (word_counts s)))"
    unfolding max_count_def by (rule fold_max_mono)
  also have "\<dots> = snd ?r"
  proof (rule Max_eqI)
    show "finite (set (0 # map snd (word_counts s)))" by simp
    show "snd ?r \<in> set (0 # map snd (word_counts s))" using b by simp
    fix y assume "y \<in> set (0 # map snd (word_counts s))"
    then show "y \<le> snd ?r" using a by auto
  qed
  finally show ?thesis by simp
qed

lemma invoked_simps [simp]:
  "invoked [] = []" "invoked (Invoke a # es) = a # invoked es"
  "invoked (NetCall c # es) = invoked es" "invoked (Sleep n # es) = invoked es"
  "invoked (xs @ ys) = invoked xs @ invoked ys"
  by (simp_all add: invoked_def)

lemma net_calls_simps [simp]:
  "net_calls [] = []" "net_calls (Invoke a # es) = net_calls es"
  "net_calls (NetCall c # es) = c # net_calls es" "net_calls (Sleep n # es) = net_calls es"
  "net_calls (xs @ ys) = net_calls xs @ net_calls ys"
  by (simp_all add: net_calls_def)

lemma sleeps_simps [simp]:
  "sleeps [] = []" "sleeps (Invoke a # es) = sleeps es"
  "sleeps (NetCall c # es) = sleeps es" "sleeps (Sleep n # es) = n # sleeps es"
  "sleeps (xs @ ys) = sleeps xs @ sleeps ys"
  by (simp_all add: sleeps_def)

lemma invoked_call_agent_api: "invoked (fst (call_agent_api cfg w a q)) = []"
  by (simp add: call_agent_api_def Let_def)

lemma invoked_general: "invoked (fst (get_general_advice cfg lib w q)) = [''general'']"
  by (simp add: get_general_advice_def Let_def call_agent_api_def split: prod.splits)

lemma keyword_routing_general:
  assumes "any_in kw_general (str_lower lib prompt)"
  shows "keyword_routing cfg lib w prompt = respond title_general (get_general_advice cfg lib w prompt)"
  using assms by (simp add: keyword_routing_def advise_def)

lemma keyword_routing_none:
  assumes "\<not> any_in kw_general (str_lower lib prompt)" "\<not> any_in kw_finance (str_lower lib prompt)"
    "\<not> any_in kw_hr (str_lower lib prompt)" "\<not> any_in kw_orders (str_lower lib prompt)" "\<not> any_in kw_reports (str_lower lib prompt)"
  shows "word_counts (str_lower lib prompt) = [(''finance'', 0), (''hr'', 0), (''orders'', 0), (''reports'', 0)]"
    and "keyword_routing cfg lib w prompt = respond title_general (get_general_advice cfg lib w prompt)"
proof -
  show wc: "word_counts (str_lower lib prompt) = [(''finance'', 0), (''hr'', 0), (''orders'', 0), (''reports'', 0)]"
    using assms by (simp add: word_counts_def count_all_zero kw_nonempty)
  show "keyword_routing cfg lib w prompt = respond title_general (get_general_advice cfg lib w prompt)"
    using assms by (simp add: keyword_routing_def when_matched_def wc max_count_def advise_def respond_def)
qed

section \<open>Routing\<close>

lemma r_type_general: "r_type (fst (snd (advisor_general cfg lib c p st))) = ''general''"
  by (simp add: advisor_general_def Let_def result_def split: chat_outcome.splits)

lemma r_type_store_pdf: "r_type (fst (store_pdf cfg c st b)) = ''finance''"
  by (simp add: store_pdf_def Let_def result_def split: option.splits prod.splits bool.splits)

lemma r_type_finance: "r_type (fst (snd (advisor_finance cfg lib c p st))) = ''finance''"
  by (simp add: advisor_finance_def result_def r_type_store_pdf split: sum.splits prod.splits option.splits)

lemma r_type_hr: "r_type (fst (snd (advisor_hr cfg c p st))) = ''hr''"
  by (simp add: advisor_hr_def Let_def result_def)

lemma r_type_orders_list: "r_type (fst (orders_list_result cfg c st items)) = ''orders''"
  by (simp add: orders_list_result_def Let_def result_def split: prod.splits)

lemma r_type_reports: "r_type (fst (snd (advisor_reports cfg c p st))) = ''reports''"
  by (simp add: advisor_reports_def Let_def result_def split: prod.splits)

lemma r_type_orders: "r_type (fst (snd (advisor_orders cfg lib c p st))) = ''orders''"
  by (simp add: advisor_orders_def Let_def result_def orders_error_def r_type_orders_list
           split: sum.split prod.split)

lemma r_type_ADVISOR_FUNCS:
  "adv \<in> set INTENTS \<Longrightarrow> r_type (fst (snd (ADVISOR_FUNCS cfg lib c adv p st))) = adv"
  unfolding INTENTS_def
  by (elim disjE | simp only: set_simps insert_iff empty_iff)+
     (simp_all add: ADVISOR_FUNCS_def r_type_general r_type_finance r_type_hr r_type_orders r_type_reports)

lemma run_advisors_types:
  "set advs \<subseteq> set INTENTS \<Longrightarrow> map r_type (fst (snd (run_advisors cfg lib c advs p st))) = advs"
proof (induction advs arbitrary: st)
  case Nil
  then show ?case by simp
next
  case (Cons adv rest)
  obtain es1 r st1 where a: "ADVISOR_FUNCS cfg lib c adv p st = (es1, r, st1)"
    by (metis prod_cases3)
  obtain es2 rs st2 where b: "run_advisors cfg lib c rest p st1 = (es2, rs, st2)"
    by (metis prod_cases3)
  from Cons.prems have "adv \<in> set INTENTS" by simp
  then have "r_type r = adv" using r_type_ADVISOR_FUNCS [of adv cfg lib c p st] a by simp
  moreover have "map r_type rs = rest" using Cons.IH [of st1] Cons.prems b by simp
  ultimately show ?case using a b by simp
qed

lemma keyword_matches_subset: "set (keyword_matches q) \<subseteq> set INTENTS"
proof -
  let ?L = "[''finance'', ''hr'', ''orders'', ''reports'']"
  let ?P = "\<lambda>adv. any_in (ADVISOR_KEYWORDS adv) q"
  have "set (filter ?P ?L) \<subseteq> set ?L" by (rule filter_is_subset)
  also have "set ?L \<subseteq> set INTENTS" unfolding INTENTS_def by (simp only: set_simps) blast
  finally have f: "set (filter ?P ?L) \<subseteq> set INTENTS" .
  have g: "''general'' \<in> set INTENTS" unfolding INTENTS_def by (simp only: set_simps insert_iff) simp
  show ?thesis
    unfolding keyword_matches_def Let_def using f g
    by (simp only: split: if_split) (simp only: set_append set_simps Un_subset_iff insert_subset empty_subsetI simp_thms if_True if_False split: if_split)
qed

lemma keyword_matches_general:
  "any_in (ADVISOR_KEYWORDS ''general'') q \<Longrightarrow>
   keyword_matches q = ''general'' # filter (\<lambda>adv. any_in (ADVISOR_KEYWORDS adv) q) [''finance'', ''hr'', ''orders'', ''reports'']"
  unfolding keyword_matches_def Let_def by (simp only: if_True if_False append_Cons append_Nil list.simps)

lemma process_chat_keywords:
  assumes "GENAI_INTENT_MODE_r cfg = ''off'' \<or> snd (detect_intent cfg lib c prompt) = None"
  shows "map r_type (advisors (fst (snd (process_chat cfg lib c st prompt)))) = keyword_matches (str_lower lib prompt)"
proof -
  define sel where "sel = (if GENAI_INTENT_MODE_r cfg \<noteq> ''off'' then detect_intent cfg lib c prompt else ([], None))"
  have "snd sel = None"
  proof (cases "GENAI_INTENT_MODE_r cfg = ''off''")
    case True
    then have "sel = ([], None)" unfolding sel_def by (simp only: not_True_eq_False simp_thms if_False)
    then show ?thesis by simp
  next
    case False
    then have "sel = detect_intent cfg lib c prompt" unfolding sel_def by (simp only: simp_thms if_True)
    with assms False show ?thesis by (simp only: simp_thms)
  qed
  then obtain ds where d: "sel = (ds, None)"
    by (cases sel) simp
  obtain es rs st' where r: "run_advisors cfg lib c (keyword_matches (str_lower lib prompt)) prompt st = (es, rs, st')"
    by (cases "run_advisors cfg lib c (keyword_matches (str_lower lib prompt)) prompt st") auto
  have t: "map r_type rs = keyword_matches (str_lower lib prompt)"
    using run_advisors_types [OF keyword_matches_subset, of cfg lib c "str_lower lib prompt" prompt st] r by simp
  have "process_chat cfg lib c st prompt =
        (case sel of (ds, routed) \<Rightarrow>
          (case run_advisors cfg lib c
                  (case routed of Some r \<Rightarrow> [r] | None \<Rightarrow> keyword_matches (str_lower lib prompt)) prompt st of
             (es, results, st') \<Rightarrow>
               (ds @ es,
                \<lparr>routedIntent = routed, advisors = results,
                 message = join (nl @ nl) (map summary_part results),
                 artifactsPending = list_ex is_pending results\<rparr>, st')))"
    unfolding process_chat_def sel_def ..
  then show ?thesis using d r t by simp
qed

lemma process_chat_unrouted:
  assumes "GENAI_INTENT_MODE_r cfg = ''off'' \<or> snd (detect_intent cfg lib c prompt) = None"
  shows "routedIntent (fst (snd (process_chat cfg lib c st prompt))) = None"
proof -
  define sel where "sel = (if GENAI_INTENT_MODE_r cfg \<noteq> ''off'' then detect_intent cfg lib c prompt else ([], None))"
  have "snd sel = None"
  proof (cases "GENAI_INTENT_MODE_r cfg = ''off''")
    case True
    then have "sel = ([], None)" unfolding sel_def by (simp only: not_True_eq_False simp_thms if_False)
    then show ?thesis by simp
  next
    case False
    then have "sel = detect_intent cfg lib c prompt" unfolding sel_def by (simp only: simp_thms if_True)
    with assms False show ?thesis by (simp only: simp_thms)
  qed
  then obtain ds where d: "sel = (ds, None)"
    by (cases sel) simp
  obtain es rs st' where r: "run_advisors cfg lib c (keyword_matches (str_lower lib prompt)) prompt st = (es, rs, st')"
    by (cases "run_advisors cfg lib c (keyword_matches (str_lower lib prompt)) prompt st") auto
  have t: "map r_type rs = keyword_matches (str_lower lib prompt)"
    using run_advisors_types [OF keyword_matches_subset, of cfg lib c "str_lower lib prompt" prompt st] r by simp
  have "process_chat cfg lib c st prompt =
        (case sel of (ds, routed) \<Rightarrow>
          (case run_advisors cfg lib c
                  (case routed of Some r \<Rightarrow> [r] | None \<Rightarrow> keyword_matches (str_lower lib prompt)) prompt st of
             (es, results, st') \<Rightarrow>
               (ds @ es,
                \<lparr>routedIntent = routed, advisors = results,
                 message = join (nl @ nl) (map summary_part results),
                 artifactsPending = list_ex is_pending results\<rparr>, st')))"
    unfolding process_chat_def sel_def ..
  then show ?thesis using d r t by simp
qed

lemma keyword_matches_nonempty: "keyword_matches q \<noteq> []"
  by (simp add: keyword_matches_def Let_def)

lemma process_user_query_fallback:
  assumes "\<not> genai_client w \<or> GENAI_INTENT_MODE cfg = ''off'' \<or> snd (detect_intent_with_genai lib w prompt) = None"
  shows "snd (process_user_query cfg lib w prompt) = snd (keyword_routing cfg lib w prompt)
       \<and> invoked (fst (process_user_query cfg lib w prompt)) = invoked (fst (keyword_routing cfg lib w prompt))"
proof (cases "genai_client w \<and> GENAI_INTENT_MODE cfg \<noteq> ''off''")
  case True
  with assms have n: "snd (detect_intent_with_genai lib w prompt) = None" by blast
  then obtain ds where d: "detect_intent_with_genai lib w prompt = (ds, None)"
    by (metis prod.collapse)
  have i: "invoked ds = []" using d by (auto simp: detect_intent_with_genai_def split: if_splits)
  obtain es rs where k: "keyword_routing cfg lib w prompt = (es, rs)" by (cases "keyword_routing cfg lib w prompt")
  show ?thesis using True d k i by (simp add: process_user_query_def)
next
  case False
  then have "process_user_query cfg lib w prompt = keyword_routing cfg lib w prompt"
    unfolding process_user_query_def by (rule if_not_P)
  then show ?thesis by simp
qed

text \<open>
  Claim C1, as the code has it. In AskMeChatBot.py a query with a general keyword that
  reaches keyword routing (no client, mode \<open>off\<close>, or no intent detected) gets exactly
  one result, from the General agent, and no other adapter is entered. In func\_replica.py
  the General advisor answers first and every specific advisor with a keyword in the query
  answers after it.
\<close>

theorem general_keyword_precedence:
  "(any_in kw_general (str_lower lib prompt) \<and>
      (\<not> genai_client w \<or> GENAI_INTENT_MODE cfg = ''off'' \<or> snd (detect_intent_with_genai lib w prompt) = None)
    \<longrightarrow> snd (process_user_query cfg lib w prompt) = [(title_general, snd (get_general_advice cfg lib w prompt))]
        \<and> invoked (fst (process_user_query cfg lib w prompt)) = [''general''])
   \<and> (any_in (ADVISOR_KEYWORDS ''general'') (str_lower lib prompt) \<and>
      (GENAI_INTENT_MODE_r rcfg = ''off'' \<or> snd (detect_intent rcfg lib c prompt) = None)
    \<longrightarrow> map r_type (advisors (fst (snd (process_chat rcfg lib c st prompt))))
          = ''general'' # filter (\<lambda>adv. any_in (ADVISOR_KEYWORDS adv) (str_lower lib prompt))
                            [''finance'', ''hr'', ''orders'', ''reports''])"
proof (intro conjI impI)
  assume a: "any_in kw_general (str_lower lib prompt) \<and>
      (\<not> genai_client w \<or> GENAI_INTENT_MODE cfg = ''off'' \<or> snd (detect_intent_with_genai lib w prompt) = None)"
  from a have g: "any_in kw_general (str_lower lib prompt)" ..
  from a have off: "\<not> genai_client w \<or> GENAI_INTENT_MODE cfg = ''off'' \<or> snd (detect_intent_with_genai lib w prompt) = None" ..
  have k: "keyword_routing cfg lib w prompt = respond title_general (get_general_advice cfg lib w prompt)"
    using g by (rule keyword_routing_general)
  note f = process_user_query_fallback [OF off]
  show "snd (process_user_query cfg lib w prompt) = [(title_general, snd (get_general_advice cfg lib w prompt))]"
    using f by (simp add: k respond_def)
  show "invoked (fst (process_user_query cfg lib w prompt)) = [''general'']"
    using f by (simp add: k respond_def invoked_general)
next
  assume a: "any_in (ADVISOR_KEYWORDS ''general'') (str_lower lib prompt) \<and>
      (GENAI_INTENT_MODE_r rcfg = ''off'' \<or> snd (detect_intent rcfg lib c prompt) = None)"
  from a have g: "any_in (ADVISOR_KEYWORDS ''general'') (str_lower lib prompt)" ..
  from a have off: "GENAI_INTENT_MODE_r rcfg = ''off'' \<or> snd (detect_intent rcfg lib c prompt) = None" ..
  show "map r_type (advisors (fst (snd (process_chat rcfg lib c st prompt))))
          = ''general'' # filter (\<lambda>adv. any_in (ADVISOR_KEYWORDS adv) (str_lower lib prompt))
                            [''finance'', ''hr'', ''orders'', ''reports'']"
    using process_chat_keywords [OF off, of st] keyword_matches_general [OF g] by simp
qed

lemma lower_eval: "str_lower lib0 ''help me with the budget'' = ''help me with the budget''"
  by (simp add: lib0_def ascii_lower_def lower_char_def)

lemma ex1_general: "any_in (ADVISOR_KEYWORDS ''general'') ''help me with the budget''"
  by (simp add: any_in_def ADVISOR_KEYWORDS_def)

lemma ex1_filter:
  "filter (\<lambda>adv. any_in (ADVISOR_KEYWORDS adv) ''help me with the budget'') [''finance'', ''hr'', ''orders'', ''reports'']
     = [''finance'']"
  by (simp add: any_in_def ADVISOR_KEYWORDS_def)

lemma ex1_detect: "snd (detect_intent replica_mock lib0 cloud0 p) = None"
  by (simp add: detect_intent_def cloud0_def)

text \<open>
  Claim C1 as stated fails in func\_replica.py: the query \<open>help me with the budget\<close>
  holds the general keyword \<open>help\<close> and is answered by General and Finance.
\<close>

theorem replica_general_keyword_counterexample:
  "any_in (ADVISOR_KEYWORDS ''general'') (str_lower lib0 ''help me with the budget'')
   \<and> snd (detect_intent replica_mock lib0 cloud0 ''help me with the budget'') = None
   \<and> map r_type (advisors (fst (snd (process_chat replica_mock lib0 cloud0 rstate0 ''help me with the budget''))))
       = [''general'', ''finance'']"
proof -
  have "map r_type (advisors (fst (snd (process_chat replica_mock lib0 cloud0 rstate0 ''help me with the budget''))))
        = keyword_matches (str_lower lib0 ''help me with the budget'')"
    by (rule process_chat_keywords) (simp add: ex1_detect)
  also have "\<dots> = [''general'', ''finance'']"
    by (simp only: lower_eval keyword_matches_general [OF ex1_general] ex1_filter)
  finally show ?thesis by (simp add: lower_eval ex1_general ex1_detect)
qed

lemma ex1_kw: "any_in kw_general ''help me with the budget''"
  by (simp add: any_in_def kw_general_def)

theorem general_keyword_precedence_witness:
  "any_in kw_general (str_lower lib0 ''help me with the budget'') \<and> \<not> genai_client world0
   \<and> snd (process_user_query mock_config lib0 world0 ''help me with the budget'')
       = [(title_general, snd (get_general_advice mock_config lib0 world0 ''help me with the budget''))]
   \<and> invoked (fst (process_user_query mock_config lib0 world0 ''help me with the budget'')) = [''general'']
   \<and> any_in (ADVISOR_KEYWORDS ''general'') (str_lower lib0 ''help me with the budget'')
   \<and> snd (detect_intent replica_mock lib0 cloud0 ''help me with the budget'') = None
   \<and> map r_type (advisors (fst (snd (process_chat replica_mock lib0 cloud0 rstate0 ''help me with the budget''))))
       = [''general'', ''finance'']"
proof -
  have g: "\<not> genai_client world0" by (simp add: world0_def)
  have a1: "any_in kw_general (str_lower lib0 ''help me with the budget'')"
    by (simp only: lower_eval ex1_kw)
  have a2: "any_in (ADVISOR_KEYWORDS ''general'') (str_lower lib0 ''help me with the budget'')"
    by (simp only: lower_eval ex1_general)
  note d = ex1_detect [of "''help me with the budget''"]
  note t = general_keyword_precedence [where prompt = "''help me with the budget''" and w = world0
        and cfg = mock_config and lib = lib0 and rcfg = replica_mock and c = cloud0 and st = rstate0]
  from t a1 g have c1:
    "snd (process_user_query mock_config lib0 world0 ''help me with the budget'')
       = [(title_general, snd (get_general_advice mock_config lib0 world0 ''help me with the budget''))]
     \<and> invoked (fst (process_user_query mock_config lib0 world0 ''help me with the budget'')) = [''general'']"
    by blast
  from t a2 d have
    "map r_type (advisors (fst (snd (process_chat replica_mock lib0 cloud0 rstate0 ''help me with the budget''))))
       = ''general'' # filter (\<lambda>adv. any_in (ADVISOR_KEYWORDS adv) (str_lower lib0 ''help me with the budget''))
                            [''finance'', ''hr'', ''orders'', ''reports'']"
    by blast
  then have c2:
    "map r_type (advisors (fst (snd (process_chat replica_mock lib0 cloud0 rstate0 ''help me with the budget''))))
       = [''general'', ''finance'']"
    by (simp only: lower_eval ex1_filter)
  from a1 g c1 a2 d c2 show ?thesis by blast
qed

lemma ex5_tie:
  "word_counts ''budget and leave'' = [(''finance'', 1), (''hr'', 1), (''orders'', 0), (''reports'', 0)]"
  by (simp add: word_counts_def count_all_def kw_finance_def kw_hr_def kw_orders_def kw_reports_def
        py_count.simps)

lemma ex5_costs:
  "word_counts ''leave cost and lost cost'' = [(''finance'', 2), (''hr'', 1), (''orders'', 0), (''reports'', 0)]"
  by (simp add: word_counts_def count_all_def kw_finance_def kw_hr_def kw_orders_def kw_reports_def
        py_count.simps)

text \<open>
  Claim C5. When no keyword of any advisor occurs in the lower-cased query, each of the
  four keyword counts is zero, so is their maximum, and the General agent answers alone.
  The ranking itself: the maximum of the four counts is positive exactly when a keyword of
  a specific advisor occurs in the text, and the entry taken by \<open>max\<close> is the first of
  \<open>finance\<close>, \<open>hr\<close>, \<open>orders\<close>, \<open>reports\<close> whose count is the greatest. The
  counts are numbers of occurrences, not of keywords present: \<open>leave cost and lost cost\<close>
  counts two for Finance (\<open>cost\<close> twice) and one for HR. As the ranking is consulted
  only when no specific keyword matched, it never finds a positive count.
\<close>

theorem no_keyword_defaults_to_general:
  "(\<not> any_in kw_general (str_lower lib prompt) \<and> \<not> any_in kw_finance (str_lower lib prompt)
      \<and> \<not> any_in kw_hr (str_lower lib prompt) \<and> \<not> any_in kw_orders (str_lower lib prompt)
      \<and> \<not> any_in kw_reports (str_lower lib prompt)
    \<longrightarrow> word_counts (str_lower lib prompt) = [(''finance'', 0), (''hr'', 0), (''orders'', 0), (''reports'', 0)]
        \<and> max_count (word_counts (str_lower lib prompt)) = 0
        \<and> keyword_routing cfg lib w prompt
            = (fst (get_general_advice cfg lib w prompt), [(title_general, snd (get_general_advice cfg lib w prompt))])
        \<and> invoked (fst (keyword_routing cfg lib w prompt)) = [''general''])
   \<and> (0 < max_count (word_counts s)
        \<longleftrightarrow> any_in kw_finance s \<or> any_in kw_hr s \<or> any_in kw_orders s \<or> any_in kw_reports s)
   \<and> snd (max_by_count (hd (word_counts s)) (tl (word_counts s))) = max_count (word_counts s)
   \<and> (\<exists>ys zs. word_counts s = ys @ max_by_count (hd (word_counts s)) (tl (word_counts s)) # zs
          \<and> (\<forall>y\<in>set ys. snd y < snd (max_by_count (hd (word_counts s)) (tl (word_counts s))))
          \<and> (\<forall>z\<in>set zs. snd z \<le> snd (max_by_count (hd (word_counts s)) (tl (word_counts s)))))
   \<and> word_counts ''leave cost and lost cost'' = [(''finance'', 2), (''hr'', 1), (''orders'', 0), (''reports'', 0)]
   \<and> word_counts ''budget and leave'' = [(''finance'', 1), (''hr'', 1), (''orders'', 0), (''reports'', 0)]"
proof -
  have a: "\<not> any_in kw_general (str_lower lib prompt) \<and> \<not> any_in kw_finance (str_lower lib prompt)
      \<and> \<not> any_in kw_hr (str_lower lib prompt) \<and> \<not> any_in kw_orders (str_lower lib prompt)
      \<and> \<not> any_in kw_reports (str_lower lib prompt)
    \<longrightarrow> word_counts (str_lower lib prompt) = [(''finance'', 0), (''hr'', 0), (''orders'', 0), (''reports'', 0)]
        \<and> max_count (word_counts (str_lower lib prompt)) = 0
        \<and> keyword_routing cfg lib w prompt
            = (fst (get_general_advice cfg lib w prompt), [(title_general, snd (get_general_advice cfg lib w prompt))])
        \<and> invoked (fst (keyword_routing cfg lib w prompt)) = [''general'']"
  proof (intro impI, elim conjE)
    assume h: "\<not> any_in kw_general (str_lower lib prompt)" "\<not> any_in kw_finance (str_lower lib prompt)"
      "\<not> any_in kw_hr (str_lower lib prompt)" "\<not> any_in kw_orders (str_lower lib prompt)"
      "\<not> any_in kw_reports (str_lower lib prompt)"
    note wc = keyword_routing_none(1) [OF h]
    note kr = keyword_routing_none(2) [OF h, of cfg w]
    have m: "max_count (word_counts (str_lower lib prompt)) = 0"
      using max_count_pos_iff [of "str_lower lib prompt"] h by simp
    have k: "keyword_routing cfg lib w prompt
            = (fst (get_general_advice cfg lib w prompt), [(title_general, snd (get_general_advice cfg lib w prompt))])"
      by (simp only: kr respond_def)
    have i: "invoked (fst (keyword_routing cfg lib w prompt)) = [''general'']"
      by (simp only: k fst_conv invoked_general)
    from wc m k i
    show "word_counts (str_lower lib prompt) = [(''finance'', 0), (''hr'', 0), (''orders'', 0), (''reports'', 0)]
        \<and> max_count (word_counts (str_lower lib prompt)) = 0
        \<and> keyword_routing cfg lib w prompt
            = (fst (get_general_advice cfg lib w prompt), [(title_general, snd (get_general_advice cfg lib w prompt))])
        \<and> invoked (fst (keyword_routing cfg lib w prompt)) = [''general'']"
      by blast
  qed
  note b = max_count_pos_iff [of s]
  note c = max_by_count_max [of s]
  have d: "\<exists>ys zs. word_counts s = ys @ max_by_count (hd (word_counts s)) (tl (word_counts s)) # zs
          \<and> (\<forall>y\<in>set ys. snd y < snd (max_by_count (hd (word_counts s)) (tl (word_counts s))))
          \<and> (\<forall>z\<in>set zs. snd z \<le> snd (max_by_count (hd (word_counts s)) (tl (word_counts s))))"
    using max_by_count_first [of "hd (word_counts s)" "tl (word_counts s)"] word_counts_split [of s]
    by simp
  from a b c d ex5_costs ex5_tie show ?thesis by blast
qed

lemma ex5_lower: "str_lower lib0 ''Good morning'' = ''good morning''"
  by (simp add: lib0_def ascii_lower_def lower_char_def)

lemma ex5_none:
  "\<not> any_in kw_general ''good morning''" "\<not> any_in kw_finance ''good morning''"
  "\<not> any_in kw_hr ''good morning''" "\<not> any_in kw_orders ''good morning''"
  "\<not> any_in kw_reports ''good morning''"
  by (simp_all add: any_in_def kw_general_def kw_finance_def kw_hr_def kw_orders_def kw_reports_def)

theorem no_keyword_defaults_to_general_witness:
  "\<not> any_in kw_general (str_lower lib0 ''Good morning'') \<and> \<not> any_in kw_finance (str_lower lib0 ''Good morning'')
   \<and> \<not> any_in kw_hr (str_lower lib0 ''Good morning'') \<and> \<not> any_in kw_orders (str_lower lib0 ''Good morning'')
   \<and> \<not> any_in kw_reports (str_lower lib0 ''Good morning'')
   \<and> word_counts (str_lower lib0 ''Good morning'') = [(''finance'', 0), (''hr'', 0), (''orders'', 0), (''reports'', 0)]
   \<and> keyword_routing mock_config lib0 world0 ''Good morning''
       = (fst (get_general_advice mock_config lib0 world0 ''Good morning''),
          [(title_general, snd (get_general_advice mock_config lib0 world0 ''Good morning''))])
   \<and> invoked (fst (keyword_routing mock_config lib0 world0 ''Good morning'')) = [''general'']
   \<and> any_in kw_finance ''budget and leave'' \<and> 0 < max_count (word_counts ''budget and leave'')
   \<and> word_counts ''budget and leave'' = [(''finance'', 1), (''hr'', 1), (''orders'', 0), (''reports'', 0)]
   \<and> max_by_count (hd (word_counts ''budget and leave'')) (tl (word_counts ''budget and leave'')) = (''finance'', 1)
   \<and> word_counts ''leave cost and lost cost'' = [(''finance'', 2), (''hr'', 1), (''orders'', 0), (''reports'', 0)]
   \<and> max_by_count (hd (word_counts ''leave cost and lost cost'')) (tl (word_counts ''leave cost and lost cost''))
       = (''finance'', 2)
   \<and> snd (max_by_count (hd (word_counts ''leave cost and lost cost'')) (tl (word_counts ''leave cost and lost cost'')))
       = max_count (word_counts ''leave cost and lost cost'')"
proof -
  have h: "\<not> any_in kw_general (str_lower lib0 ''Good morning'')" "\<not> any_in kw_finance (str_lower lib0 ''Good morning'')"
    "\<not> any_in kw_hr (str_lower lib0 ''Good morning'')" "\<not> any_in kw_orders (str_lower lib0 ''Good morning'')"
    "\<not> any_in kw_reports (str_lower lib0 ''Good morning'')"
    by (simp_all only: ex5_lower ex5_none not_False_eq_True)
  note t = no_keyword_defaults_to_general [of lib0 "''Good morning''" mock_config world0 "''budget and leave''"]
  note u = no_keyword_defaults_to_general [of lib0 "''Good morning''" mock_config world0 "''leave cost and lost cost''"]
  have f: "any_in kw_finance ''budget and leave''" by (simp add: any_in_def kw_finance_def)
  from t f have p: "0 < max_count (word_counts ''budget and leave'')" by blast
  have m1: "max_by_count (hd (word_counts ''budget and leave'')) (tl (word_counts ''budget and leave'')) = (''finance'', 1)"
    by (simp add: ex5_tie)
  have m2: "max_by_count (hd (word_counts ''leave cost and lost cost'')) (tl (word_counts ''leave cost and lost cost''))
       = (''finance'', 2)"
    by (simp add: ex5_costs)
  from u have m3: "snd (max_by_count (hd (word_counts ''leave cost and lost cost'')) (tl (word_counts ''leave cost and lost cost'')))
       = max_count (word_counts ''leave cost and lost cost'')" by blast
  from t have tie: "word_counts ''budget and leave'' = [(''finance'', 1), (''hr'', 1), (''orders'', 0), (''reports'', 0)]"
    by blast
  from t have costs: "word_counts ''leave cost and lost cost'' = [(''finance'', 2), (''hr'', 1), (''orders'', 0), (''reports'', 0)]"
    by blast
  from t h f p tie m1 costs m2 m3 show ?thesis by blast
qed

section \<open>The remote classifier\<close>

lemmas weak_congs = if_weak_cong sum.case_cong_weak prod.case_cong_weak option.case_cong_weak
  chat_outcome.case_cong_weak export_json.case_cong_weak

lemma call_agent_api_frame [simp]:
  "call_agent_api cfg (w\<lparr>intent_chat := f\<rparr>) a q = call_agent_api cfg w a q"
  by (simp add: call_agent_api_def cong del: weak_congs)

lemma get_general_advice_frame [simp]:
  "get_general_advice cfg lib (w\<lparr>intent_chat := f\<rparr>) q = get_general_advice cfg lib w q"
  by (simp add: get_general_advice_def Let_def cong del: weak_congs)

lemma get_finance_advice_frame [simp]:
  "get_finance_advice cfg lib (w\<lparr>intent_chat := f\<rparr>) q = get_finance_advice cfg lib w q"
  by (simp add: get_finance_advice_def cong del: weak_congs)

lemma get_hr_advice_frame [simp]:
  "get_hr_advice cfg lib (w\<lparr>intent_chat := f\<rparr>) q = get_hr_advice cfg lib w q"
  by (simp add: get_hr_advice_def cong del: weak_congs)

lemma orders_live_frame [simp]:
  "orders_live lib (w\<lparr>intent_chat := f\<rparr>) q = orders_live lib w q"
  by (simp add: orders_live_def Let_def cong del: weak_congs)

lemma get_orders_advice_frame [simp]:
  "get_orders_advice cfg lib (w\<lparr>intent_chat := f\<rparr>) q = get_orders_advice cfg lib w q"
  by (simp add: get_orders_advice_def cong del: weak_congs)

lemma reports_live_frame [simp]:
  "reports_live (w\<lparr>intent_chat := f\<rparr>) = reports_live w"
  by (simp add: reports_live_def Let_def cong del: weak_congs)

lemma get_reports_advice_frame [simp]:
  "get_reports_advice cfg lib (w\<lparr>intent_chat := f\<rparr>) q = get_reports_advice cfg lib w q"
  by (simp add: get_reports_advice_def cong del: weak_congs)

lemma advise_frame [simp]:
  "advise cfg lib (w\<lparr>intent_chat := f\<rparr>) a q = advise cfg lib w a q"
  by (simp add: advise_def cong del: weak_congs)

lemma keyword_routing_frame [simp]:
  "keyword_routing cfg lib (w\<lparr>intent_chat := f\<rparr>) q = keyword_routing cfg lib w q"
  by (simp add: keyword_routing_def when_matched_def Let_def cong del: weak_congs)

lemma advise_titles:
  "map fst (snd (advise cfg lib w a q)) = map fst (snd (advise cfg' lib' w' a q))"
  by (simp add: advise_def respond_def)

lemma advise_nonempty:
  "a \<in> set valid_intents \<Longrightarrow> snd (advise cfg lib w a q) \<noteq> []"
  unfolding valid_intents_def
  by (elim disjE | simp only: set_simps insert_iff empty_iff)+
     (simp_all add: advise_def respond_def)

lemma when_matched_titles:
  "map fst (snd (when_matched cfg lib w ks a q)) = map fst (snd (when_matched cfg' lib w' ks a q))"
  using advise_titles [of cfg lib w a q cfg' lib w'] by (simp add: when_matched_def)

lemma keyword_routing_titles:
  "map fst (snd (keyword_routing cfg lib w q)) = map fst (snd (keyword_routing cfg' lib w' q))"
proof (cases "any_in kw_general (str_lower lib q)")
  case True
  then show ?thesis by (simp add: keyword_routing_general respond_def)
next
  case False
  define rs where "rs c v = snd (when_matched c lib v kw_finance ''finance'' q) @ snd (when_matched c lib v kw_hr ''hr'' q)
      @ snd (when_matched c lib v kw_orders ''orders'' q) @ snd (when_matched c lib v kw_reports ''reports'' q)" for c v
  have t: "map fst (rs cfg w) = map fst (rs cfg' w')"
    unfolding rs_def map_append
    using when_matched_titles [of cfg lib w _ _ q cfg' w'] by simp
  then have e: "rs cfg w = [] \<longleftrightarrow> rs cfg' w' = []"
    by (metis map_is_Nil_conv)
  have k: "snd (keyword_routing c lib v q) =
      (if rs c v = [] then
         (let wc = word_counts (str_lower lib q)
          in if 0 < max_count wc then
               (let advisor = fst (max_by_count (hd wc) (tl wc))
                in snd (if advisor = ''finance'' \<or> advisor = ''hr'' \<or> advisor = ''orders''
                        then advise c lib v advisor q else advise c lib v ''reports'' q))
             else snd (advise c lib v ''general'' q))
       else rs c v)" for c v
    using False by (simp add: keyword_routing_def Let_def rs_def split: prod.split)
  show ?thesis
  proof (cases "rs cfg w = []")
    case True
    with e have "rs cfg' w' = []" by simp
    with True show ?thesis
      unfolding k Let_def
      using advise_titles [of cfg lib w _ q cfg' lib w'] by (simp split: if_split)
  next
    case False
    with e have "rs cfg' w' \<noteq> []" by simp
    with False t show ?thesis unfolding k by simp
  qed
qed

lemma keyword_routing_nonempty: "snd (keyword_routing cfg lib w q) \<noteq> []"
proof (cases "any_in kw_general (str_lower lib q)")
  case True
  then show ?thesis by (simp add: keyword_routing_general respond_def)
next
  case False
  define rs where "rs = snd (when_matched cfg lib w kw_finance ''finance'' q) @ snd (when_matched cfg lib w kw_hr ''hr'' q)
      @ snd (when_matched cfg lib w kw_orders ''orders'' q) @ snd (when_matched cfg lib w kw_reports ''reports'' q)"
  define adv where "adv = fst (max_by_count (hd (word_counts (str_lower lib q))) (tl (word_counts (str_lower lib q))))"
  have k: "snd (keyword_routing cfg lib w q) =
      (if rs = [] then
         (if 0 < max_count (word_counts (str_lower lib q)) then
               snd (if adv = ''finance'' \<or> adv = ''hr'' \<or> adv = ''orders''
                        then advise cfg lib w adv q else advise cfg lib w ''reports'' q)
             else snd (advise cfg lib w ''general'' q))
       else rs)"
    using False by (simp add: keyword_routing_def Let_def rs_def adv_def split: prod.split)
  have g: "snd (advise cfg lib w ''general'' q) \<noteq> []" "snd (advise cfg lib w ''reports'' q) \<noteq> []"
    by (simp_all add: advise_def respond_def)
  have h: "snd (advise cfg lib w adv q) \<noteq> []" if "adv = ''finance'' \<or> adv = ''hr'' \<or> adv = ''orders''"
    using that by (elim disjE) (simp_all add: advise_def respond_def)
  show ?thesis
  proof (cases "rs = []")
    case True
    show ?thesis
    proof (cases "0 < max_count (word_counts (str_lower lib q))")
      case pos: True
      show ?thesis
      proof (cases "adv = ''finance'' \<or> adv = ''hr'' \<or> adv = ''orders''")
        case True
        from h [OF True] \<open>rs = []\<close> pos True show ?thesis unfolding k by (simp only: if_True simp_thms)
      next
        case False
        with \<open>rs = []\<close> pos g show ?thesis unfolding k by (simp only: if_True if_False simp_thms)
      qed
    next
      case False
      with True g show ?thesis unfolding k by (simp only: if_True if_False simp_thms)
    qed
  next
    case False
    then show ?thesis unfolding k by (simp only: if_False simp_thms)
  qed
qed

lemma storage_configured_frame [simp]:
  "storage_configured cfg (c\<lparr>intent_chat_r := f\<rparr>) = storage_configured cfg c"
  by (simp add: storage_configured_def)

lemma put_object_frame [simp]:
  "put_object cfg (c\<lparr>intent_chat_r := f\<rparr>) st k v = put_object cfg c st k v"
  by (simp add: put_object_def)

lemma get_presigned_frame [simp]:
  "get_presigned cfg (c\<lparr>intent_chat_r := f\<rparr>) k = get_presigned cfg c k"
  by (simp add: get_presigned_def)

lemma draw_uuid_frame [simp]:
  "draw_uuid (c\<lparr>intent_chat_r := f\<rparr>) st = draw_uuid c st"
  by (simp add: draw_uuid_def)

lemma advisor_general_frame [simp]:
  "advisor_general cfg lib (c\<lparr>intent_chat_r := f\<rparr>) = advisor_general cfg lib c"
  by (intro ext) (simp add: advisor_general_def Let_def cong del: weak_congs)

lemma store_pdf_frame [simp]:
  "store_pdf cfg (c\<lparr>intent_chat_r := f\<rparr>) st b = store_pdf cfg c st b"
  by (simp add: store_pdf_def Let_def cong del: weak_congs bool.case_cong_weak)

lemma advisor_finance_frame [simp]:
  "advisor_finance cfg lib (c\<lparr>intent_chat_r := f\<rparr>) = advisor_finance cfg lib c"
  by (intro ext) (simp add: advisor_finance_def cong del: weak_congs)

lemma advisor_hr_frame [simp]:
  "advisor_hr cfg (c\<lparr>intent_chat_r := f\<rparr>) = advisor_hr cfg c"
  by (intro ext) (simp add: advisor_hr_def Let_def cong del: weak_congs)

lemma orders_list_result_frame [simp]:
  "orders_list_result cfg (c\<lparr>intent_chat_r := f\<rparr>) st items = orders_list_result cfg c st items"
  by (simp add: orders_list_result_def Let_def cong del: weak_congs)

lemma advisor_orders_frame [simp]:
  "advisor_orders cfg lib (c\<lparr>intent_chat_r := f\<rparr>) = advisor_orders cfg lib c"
  by (intro ext) (simp add: advisor_orders_def Let_def cong del: weak_congs)

lemma advisor_reports_frame [simp]:
  "advisor_reports cfg (c\<lparr>intent_chat_r := f\<rparr>) = advisor_reports cfg c"
  by (intro ext) (simp add: advisor_reports_def Let_def cong del: weak_congs)

lemma ADVISOR_FUNCS_frame [simp]:
  "ADVISOR_FUNCS cfg lib (c\<lparr>intent_chat_r := f\<rparr>) adv = ADVISOR_FUNCS cfg lib c adv"
  by (simp add: ADVISOR_FUNCS_def)

lemma run_advisors_frame [simp]:
  "run_advisors cfg lib (c\<lparr>intent_chat_r := f\<rparr>) advs p st = run_advisors cfg lib c advs p st"
  by (induction advs arbitrary: st) simp_all

lemma detect_invalid:
  assumes "intent_chat w prompt = ChatText t" and "str_lower lib (str_strip lib t) \<notin> set valid_intents"
  shows "detect_intent_with_genai lib w prompt = (if genai_client w then [NetCall ''genai intent''] else [], None)"
  using assms by (simp add: detect_intent_with_genai_def Let_def)

lemma detect_raises:
  "detect_intent_with_genai lib (w\<lparr>intent_chat := (\<lambda>p. ChatRaises m)\<rparr>) prompt
     = (if genai_client w then [NetCall ''genai intent''] else [], None)"
  by (simp add: detect_intent_with_genai_def)

lemma process_user_query_undetected:
  assumes "detect_intent_with_genai lib w prompt = (if genai_client w then [NetCall ''genai intent''] else [], None)"
  shows "process_user_query cfg lib w prompt =
           (if genai_client w \<and> GENAI_INTENT_MODE cfg \<noteq> ''off''
            then (NetCall ''genai intent'' # fst (keyword_routing cfg lib w prompt), snd (keyword_routing cfg lib w prompt))
            else keyword_routing cfg lib w prompt)"
proof (cases "genai_client w \<and> GENAI_INTENT_MODE cfg \<noteq> ''off''")
  case True
  then have g: "genai_client w" ..
  have d: "detect_intent_with_genai lib w prompt = ([NetCall ''genai intent''], None)"
    using assms g by simp
  have "process_user_query cfg lib w prompt =
          (case detect_intent_with_genai lib w prompt of
             (ds, Some detected_intent) \<Rightarrow>
               (case advise cfg lib w detected_intent prompt of (es, rs) \<Rightarrow> (ds @ es, rs))
           | (ds, None) \<Rightarrow>
               (case keyword_routing cfg lib w prompt of (es, rs) \<Rightarrow> (ds @ es, rs)))"
    unfolding process_user_query_def using True by (rule if_P)
  also have "\<dots> = (NetCall ''genai intent'' # fst (keyword_routing cfg lib w prompt), snd (keyword_routing cfg lib w prompt))"
    unfolding d by (simp add: case_prod_beta)
  finally have e: "process_user_query cfg lib w prompt =
      (NetCall ''genai intent'' # fst (keyword_routing cfg lib w prompt), snd (keyword_routing cfg lib w prompt))" .
  show ?thesis by (simp only: e if_P [OF True])
next
  case False
  have "process_user_query cfg lib w prompt = keyword_routing cfg lib w prompt"
    unfolding process_user_query_def using False by (rule if_not_P)
  then show ?thesis by (simp only: if_not_P [OF False])
qed

lemma process_user_query_no_client:
  "process_user_query cfg lib (w\<lparr>genai_client := False\<rparr>) prompt = keyword_routing cfg lib (w\<lparr>genai_client := False\<rparr>) prompt"
  by (simp add: process_user_query_def)

lemma detect_replica_none:
  assumes "intent_chat_r c prompt = ChatText t" and "find (\<lambda>intent. py_in intent (str_lower lib (str_strip lib t))) INTENTS = None"
  shows "detect_intent cfg lib c prompt = detect_intent cfg lib (c\<lparr>intent_chat_r := (\<lambda>p. ChatRaises m)\<rparr>) prompt"
  using assms by (simp add: detect_intent_def)

lemma process_chat_cong:
  assumes "detect_intent cfg lib c prompt = detect_intent cfg lib c' prompt"
    and "\<And>advs. run_advisors cfg lib c advs prompt st = run_advisors cfg lib c' advs prompt st"
  shows "process_chat cfg lib c st prompt = process_chat cfg lib c' st prompt"
  unfolding process_chat_def assms ..

lemma find_INTENTS: "find P INTENTS = Some l \<Longrightarrow> l \<in> set INTENTS"
  by (metis find_Some_iff nth_mem)

lemma process_chat_routed:
  assumes "GENAI_INTENT_MODE_r cfg \<noteq> ''off''" and "snd (detect_intent cfg lib c prompt) = Some l" and "l \<in> set INTENTS"
  shows "routedIntent (fst (snd (process_chat cfg lib c st prompt))) = Some l
       \<and> map r_type (advisors (fst (snd (process_chat cfg lib c st prompt)))) = [l]"
proof -
  define sel where "sel = (if GENAI_INTENT_MODE_r cfg \<noteq> ''off'' then detect_intent cfg lib c prompt else ([], None))"
  have "sel = detect_intent cfg lib c prompt" unfolding sel_def using assms(1) by (rule if_P)
  with assms(2) have "snd sel = Some l" by simp
  then obtain ds where d: "sel = (ds, Some l)"
    by (cases sel) simp
  obtain es rs st' where r: "run_advisors cfg lib c [l] prompt st = (es, rs, st')"
    by (cases "run_advisors cfg lib c [l] prompt st") auto
  have t: "map r_type rs = [l]"
    using run_advisors_types [of "[l]" cfg lib c prompt st] assms(3) r by simp
  have "process_chat cfg lib c st prompt =
        (case sel of (ds, routed) \<Rightarrow>
          (case run_advisors cfg lib c
                  (case routed of Some r \<Rightarrow> [r] | None \<Rightarrow> keyword_matches (str_lower lib prompt)) prompt st of
             (es, results, st') \<Rightarrow>
               (ds @ es,
                \<lparr>routedIntent = routed, advisors = results,
                 message = join (nl @ nl) (map summary_part results),
                 artifactsPending = list_ex is_pending results\<rparr>, st')))"
    unfolding process_chat_def sel_def ..
  then show ?thesis using d r t by simp
qed

text \<open>
  Claim C4, as the code has it. In AskMeChatBot.py an answer of the classifier that is not
  one of the five labels after \<open>strip().lower()\<close> gives, in every mode, the very result
  of a classifier call that raises, the advisors chosen are those chosen without a client,
  and at least one advisor answers. In func\_replica.py the same holds for an answer in
  which no label occurs; an answer in which a label occurs is routed to the first such label.
\<close>

theorem invalid_label_falls_back:
  "(intent_chat w prompt = ChatText t \<and> str_lower lib (str_strip lib t) \<notin> set valid_intents
    \<longrightarrow> process_user_query cfg lib w prompt
          = process_user_query cfg lib (w\<lparr>intent_chat := (\<lambda>p. ChatRaises m)\<rparr>) prompt
        \<and> snd (process_user_query cfg lib w prompt) = snd (keyword_routing cfg lib w prompt)
        \<and> map fst (snd (process_user_query cfg lib w prompt))
          = map fst (snd (process_user_query cfg lib (w\<lparr>genai_client := False\<rparr>) prompt))
        \<and> snd (process_user_query cfg lib w prompt) \<noteq> [])
   \<and> (intent_chat_r c prompt = ChatText t
       \<and> find (\<lambda>intent. py_in intent (str_lower lib (str_strip lib t))) INTENTS = None
    \<longrightarrow> process_chat rcfg lib c st prompt
          = process_chat rcfg lib (c\<lparr>intent_chat_r := (\<lambda>p. ChatRaises m)\<rparr>) st prompt
        \<and> routedIntent (fst (snd (process_chat rcfg lib c st prompt))) = None
        \<and> map r_type (advisors (fst (snd (process_chat rcfg lib c st prompt))))
          = keyword_matches (str_lower lib prompt)
        \<and> advisors (fst (snd (process_chat rcfg lib c st prompt))) \<noteq> [])
   \<and> (intent_chat_r c prompt = ChatText t \<and> genai_client_r c \<and> GENAI_INTENT_MODE_r rcfg \<noteq> ''off''
       \<and> find (\<lambda>intent. py_in intent (str_lower lib (str_strip lib t))) INTENTS = Some l
    \<longrightarrow> routedIntent (fst (snd (process_chat rcfg lib c st prompt))) = Some l
        \<and> map r_type (advisors (fst (snd (process_chat rcfg lib c st prompt)))) = [l])"
proof (intro conjI impI)
  assume a: "intent_chat w prompt = ChatText t \<and> str_lower lib (str_strip lib t) \<notin> set valid_intents"
  then have a1: "intent_chat w prompt = ChatText t" and a2: "str_lower lib (str_strip lib t) \<notin> set valid_intents"
    by blast+
  note p = process_user_query_undetected [OF detect_invalid [OF a1 a2], of cfg]
  have q: "process_user_query cfg lib (w\<lparr>intent_chat := (\<lambda>p. ChatRaises m)\<rparr>) prompt =
           (if genai_client w \<and> GENAI_INTENT_MODE cfg \<noteq> ''off''
            then (NetCall ''genai intent'' # fst (keyword_routing cfg lib w prompt), snd (keyword_routing cfg lib w prompt))
            else keyword_routing cfg lib w prompt)"
    using process_user_query_undetected [where w = "w\<lparr>intent_chat := (\<lambda>p. ChatRaises m)\<rparr>" and prompt = prompt and cfg = cfg and lib = lib]
    by (simp add: detect_raises)
  show "process_user_query cfg lib w prompt
          = process_user_query cfg lib (w\<lparr>intent_chat := (\<lambda>p. ChatRaises m)\<rparr>) prompt"
    by (simp only: p q)
  show s: "snd (process_user_query cfg lib w prompt) = snd (keyword_routing cfg lib w prompt)"
    unfolding p by (simp only: snd_conv if_distrib [of snd] if_cancel)
  show "map fst (snd (process_user_query cfg lib w prompt))
          = map fst (snd (process_user_query cfg lib (w\<lparr>genai_client := False\<rparr>) prompt))"
    unfolding s process_user_query_no_client by (rule keyword_routing_titles)
  show "snd (process_user_query cfg lib w prompt) \<noteq> []"
    unfolding s by (rule keyword_routing_nonempty)
next
  assume a: "intent_chat_r c prompt = ChatText t
       \<and> find (\<lambda>intent. py_in intent (str_lower lib (str_strip lib t))) INTENTS = None"
  then have a1: "intent_chat_r c prompt = ChatText t"
    and a2: "find (\<lambda>intent. py_in intent (str_lower lib (str_strip lib t))) INTENTS = None"
    by blast+
  show "process_chat rcfg lib c st prompt
          = process_chat rcfg lib (c\<lparr>intent_chat_r := (\<lambda>p. ChatRaises m)\<rparr>) st prompt"
    by (rule process_chat_cong [OF detect_replica_none [OF a1 a2]]) simp
  have "snd (detect_intent rcfg lib c prompt) = None"
    by (simp add: detect_intent_def a1 a2)
  then have n: "GENAI_INTENT_MODE_r rcfg = ''off'' \<or> snd (detect_intent rcfg lib c prompt) = None" ..
  show "routedIntent (fst (snd (process_chat rcfg lib c st prompt))) = None"
    using n by (rule process_chat_unrouted)
  show k: "map r_type (advisors (fst (snd (process_chat rcfg lib c st prompt))))
          = keyword_matches (str_lower lib prompt)"
    using n by (rule process_chat_keywords)
  show "advisors (fst (snd (process_chat rcfg lib c st prompt))) \<noteq> []"
    using k keyword_matches_nonempty [of "str_lower lib prompt"] by (metis map_is_Nil_conv)
next
  assume a: "intent_chat_r c prompt = ChatText t \<and> genai_client_r c \<and> GENAI_INTENT_MODE_r rcfg \<noteq> ''off''
       \<and> find (\<lambda>intent. py_in intent (str_lower lib (str_strip lib t))) INTENTS = Some l"
  then have a1: "intent_chat_r c prompt = ChatText t" and a2: "genai_client_r c"
    and a3: "GENAI_INTENT_MODE_r rcfg \<noteq> ''off''"
    and a4: "find (\<lambda>intent. py_in intent (str_lower lib (str_strip lib t))) INTENTS = Some l"
    by blast+
  have "detect_intent rcfg lib c prompt = ([NetCall ''genai intent''], Some l)"
  proof -
    have "\<not> (\<not> genai_client_r c \<or> GENAI_INTENT_MODE_r rcfg = ''off'')" using a2 a3 by blast
    then have "detect_intent rcfg lib c prompt =
        ([NetCall ''genai intent''],
         (case intent_chat_r c prompt of
            ChatText t \<Rightarrow> find (\<lambda>intent. py_in intent (str_lower lib (str_strip lib t))) INTENTS
          | other \<Rightarrow> None))"
      unfolding detect_intent_def by (rule if_not_P)
    then show ?thesis by (simp add: a1 a4)
  qed
  then have d: "snd (detect_intent rcfg lib c prompt) = Some l" by simp
  from process_chat_routed [OF a3 d find_INTENTS [OF a4], of st]
  show "routedIntent (fst (snd (process_chat rcfg lib c st prompt))) = Some l"
    and "map r_type (advisors (fst (snd (process_chat rcfg lib c st prompt)))) = [l]"
    by blast+
qed

lemma ex4_lower: "str_lower lib0 ''what is the leave policy'' = ''what is the leave policy''"
  by (simp add: lib0_def ascii_lower_def lower_char_def)

lemma ex4_sentence: "str_lower lib0 (str_strip lib0 ''Category: finance'') = ''category: finance''"
  by (simp add: lib0_def ascii_lower_def lower_char_def lib0_def ascii_strip_def is_space_def)

lemma ex4_unsure: "str_lower lib0 (str_strip lib0 ''I am not sure'') = ''i am not sure''"
  by (simp add: lib0_def ascii_lower_def lower_char_def lib0_def ascii_strip_def is_space_def)

lemma ex4_find_sentence: "find (\<lambda>intent. py_in intent ''category: finance'') INTENTS = Some ''finance''"
  by (simp add: INTENTS_def)

lemma ex4_find_unsure: "find (\<lambda>intent. py_in intent ''i am not sure'') INTENTS = None"
  by (simp add: INTENTS_def)

lemma ex4_not_label: "''category: finance'' \<notin> set valid_intents" "''category: finance'' \<notin> set INTENTS"
  by (simp_all add: valid_intents_def INTENTS_def)

lemma ex4_mode: "GENAI_INTENT_MODE_r replica_mock \<noteq> ''off''"
  by (simp add: replica_mock_def)

lemma ex4_detect_wordy: "snd (detect_intent replica_mock lib0 cloud_wordy p) = Some ''finance''"
proof -
  have "\<not> (\<not> genai_client_r cloud_wordy \<or> GENAI_INTENT_MODE_r replica_mock = ''off'')"
    using ex4_mode by (simp add: cloud_wordy_def)
  then have "detect_intent replica_mock lib0 cloud_wordy p =
        ([NetCall ''genai intent''],
         (case intent_chat_r cloud_wordy p of
            ChatText t \<Rightarrow> find (\<lambda>intent. py_in intent (str_lower lib0 (str_strip lib0 t))) INTENTS
          | other \<Rightarrow> None))"
    unfolding detect_intent_def by (rule if_not_P)
  moreover have "intent_chat_r cloud_wordy p = ChatText ''Category: finance''"
    by (simp add: cloud_wordy_def classifier_sentence_def)
  ultimately have "detect_intent replica_mock lib0 cloud_wordy p =
        ([NetCall ''genai intent''], find (\<lambda>intent. py_in intent (str_lower lib0 (str_strip lib0 ''Category: finance''))) INTENTS)"
    by (simp only: chat_outcome.case)
  then show ?thesis by (simp only: ex4_sentence ex4_find_sentence snd_conv)
qed

lemma ex4_detect_down: "snd (detect_intent replica_mock lib0 cloud_down p) = None"
  by (simp add: detect_intent_def cloud_down_def classifier_down_def)

lemma ex4_matches: "keyword_matches ''what is the leave policy'' = [''hr'']"
  by (simp add: keyword_matches_def any_in_def ADVISOR_KEYWORDS_def)

text \<open>
  Claim C4 as stated fails in func\_replica.py: the answer \<open>Category: finance\<close> is not
  one of the five labels, yet the query about the leave policy goes to Finance, while a
  classifier that raises sends it to HR by its keywords.
\<close>

theorem classifier_sentence_counterexample:
  "str_lower lib0 (str_strip lib0 ''Category: finance'') \<notin> set INTENTS
   \<and> intent_chat_r cloud_wordy ''what is the leave policy'' = ChatText ''Category: finance''
   \<and> map r_type (advisors (fst (snd (process_chat replica_mock lib0 cloud_wordy rstate0 ''what is the leave policy''))))
       = [''finance'']
   \<and> map r_type (advisors (fst (snd (process_chat replica_mock lib0 cloud_down rstate0 ''what is the leave policy''))))
       = [''hr'']"
proof -
  have f: "''finance'' \<in> set INTENTS" by (simp add: INTENTS_def)
  have a: "map r_type (advisors (fst (snd (process_chat replica_mock lib0 cloud_wordy rstate0 ''what is the leave policy''))))
       = [''finance'']"
    using process_chat_routed [OF ex4_mode ex4_detect_wordy f] by blast
  have "map r_type (advisors (fst (snd (process_chat replica_mock lib0 cloud_down rstate0 ''what is the leave policy''))))
       = keyword_matches (str_lower lib0 ''what is the leave policy'')"
    by (rule process_chat_keywords) (simp add: ex4_detect_down)
  then have b: "map r_type (advisors (fst (snd (process_chat replica_mock lib0 cloud_down rstate0 ''what is the leave policy''))))
       = [''hr'']"
    by (simp only: ex4_lower ex4_matches)
  have c: "intent_chat_r cloud_wordy ''what is the leave policy'' = ChatText ''Category: finance''"
    by (simp add: cloud_wordy_def classifier_sentence_def)
  have d: "str_lower lib0 (str_strip lib0 ''Category: finance'') \<notin> set INTENTS"
    by (simp only: ex4_sentence ex4_not_label not_False_eq_True)
  from a b c d show ?thesis by blast
qed

theorem invalid_label_falls_back_witness:
  "intent_chat world_wordy ''what is the leave policy'' = ChatText ''Category: finance''
   \<and> str_lower lib0 (str_strip lib0 ''Category: finance'') \<notin> set valid_intents
   \<and> process_user_query mock_config lib0 world_wordy ''what is the leave policy''
       = process_user_query mock_config lib0
           (world_wordy\<lparr>intent_chat := (\<lambda>p. ChatRaises ''service unavailable'')\<rparr>) ''what is the leave policy''
   \<and> map fst (snd (process_user_query mock_config lib0 world_wordy ''what is the leave policy''))
       = map fst (snd (process_user_query mock_config lib0 (world_wordy\<lparr>genai_client := False\<rparr>)
                         ''what is the leave policy''))
   \<and> snd (process_user_query mock_config lib0 world_wordy ''what is the leave policy'') \<noteq> []
   \<and> intent_chat_r cloud_unsure ''what is the leave policy'' = ChatText ''I am not sure''
   \<and> find (\<lambda>intent. py_in intent (str_lower lib0 (str_strip lib0 ''I am not sure''))) INTENTS = None
   \<and> process_chat replica_mock lib0 cloud_unsure rstate0 ''what is the leave policy''
       = process_chat replica_mock lib0
           (cloud_unsure\<lparr>intent_chat_r := (\<lambda>p. ChatRaises ''service unavailable'')\<rparr>) rstate0
           ''what is the leave policy''
   \<and> map r_type (advisors (fst (snd (process_chat replica_mock lib0 cloud_unsure rstate0 ''what is the leave policy''))))
       = [''hr'']
   \<and> genai_client_r cloud_wordy \<and> GENAI_INTENT_MODE_r replica_mock \<noteq> ''off''
   \<and> find (\<lambda>intent. py_in intent (str_lower lib0 (str_strip lib0 ''Category: finance''))) INTENTS = Some ''finance''
   \<and> routedIntent (fst (snd (process_chat replica_mock lib0 cloud_wordy rstate0 ''what is the leave policy'')))
       = Some ''finance''
   \<and> map r_type (advisors (fst (snd (process_chat replica_mock lib0 cloud_wordy rstate0 ''what is the leave policy''))))
       = [''finance'']"
proof -
  have h1: "intent_chat world_wordy ''what is the leave policy'' = ChatText ''Category: finance''"
    by (simp add: world_wordy_def classifier_sentence_def)
  have h2: "str_lower lib0 (str_strip lib0 ''Category: finance'') \<notin> set valid_intents"
    by (simp only: ex4_sentence ex4_not_label not_False_eq_True)
  have h3: "intent_chat_r cloud_unsure ''what is the leave policy'' = ChatText ''I am not sure''"
    by (simp add: cloud_unsure_def classifier_unsure_def)
  have h4: "find (\<lambda>intent. py_in intent (str_lower lib0 (str_strip lib0 ''I am not sure''))) INTENTS = None"
    by (simp only: ex4_unsure ex4_find_unsure)
  have h5: "intent_chat_r cloud_wordy ''what is the leave policy'' = ChatText ''Category: finance''"
    by (simp add: cloud_wordy_def classifier_sentence_def)
  have h6: "genai_client_r cloud_wordy" by (simp add: cloud_wordy_def)
  have h7: "find (\<lambda>intent. py_in intent (str_lower lib0 (str_strip lib0 ''Category: finance''))) INTENTS = Some ''finance''"
    by (simp only: ex4_sentence ex4_find_sentence)
  note t1 = invalid_label_falls_back [where w = world_wordy and prompt = "''what is the leave policy''"
      and t = "''Category: finance''" and cfg = mock_config and lib = lib0 and m = "''service unavailable''"
      and c = cloud_wordy and rcfg = replica_mock and st = rstate0 and l = "''finance''"]
  note t2 = invalid_label_falls_back [where c = cloud_unsure and prompt = "''what is the leave policy''"
      and t = "''I am not sure''" and rcfg = replica_mock and lib = lib0 and m = "''service unavailable''"
      and st = rstate0]
  from t1 h1 h2 have c1:
    "process_user_query mock_config lib0 world_wordy ''what is the leave policy''
       = process_user_query mock_config lib0
           (world_wordy\<lparr>intent_chat := (\<lambda>p. ChatRaises ''service unavailable'')\<rparr>) ''what is the leave policy''
     \<and> map fst (snd (process_user_query mock_config lib0 world_wordy ''what is the leave policy''))
       = map fst (snd (process_user_query mock_config lib0 (world_wordy\<lparr>genai_client := False\<rparr>)
                         ''what is the leave policy''))
     \<and> snd (process_user_query mock_config lib0 world_wordy ''what is the leave policy'') \<noteq> []"
    by blast
  from t2 h3 h4 have c2:
    "process_chat replica_mock lib0 cloud_unsure rstate0 ''what is the leave policy''
       = process_chat replica_mock lib0
           (cloud_unsure\<lparr>intent_chat_r := (\<lambda>p. ChatRaises ''service unavailable'')\<rparr>) rstate0
           ''what is the leave policy''"
    by blast
  from t2 h3 h4 have
    "map r_type (advisors (fst (snd (process_chat replica_mock lib0 cloud_unsure rstate0 ''what is the leave policy''))))
       = keyword_matches (str_lower lib0 ''what is the leave policy'')"
    by blast
  then have c2':
    "map r_type (advisors (fst (snd (process_chat replica_mock lib0 cloud_unsure rstate0 ''what is the leave policy''))))
       = [''hr'']"
    by (simp only: ex4_lower ex4_matches)
  from t1 h5 h6 h7 ex4_mode have c3:
    "routedIntent (fst (snd (process_chat replica_mock lib0 cloud_wordy rstate0 ''what is the leave policy'')))
       = Some ''finance''
     \<and> map r_type (advisors (fst (snd (process_chat replica_mock lib0 cloud_wordy rstate0 ''what is the leave policy''))))
       = [''finance'']"
    by blast
  from h1 h2 c1 h3 h4 c2 c2' h6 ex4_mode h7 c3 show ?thesis by blast
qed

section \<open>The Reports download loop\<close>







































section \<open>The Orders list\<close>

lemma parse_offset:
  "parse_dt lib0 (TsStr ''2024-03-01T00:00:00Z'') = Aware 1709251200000000"
  "parse_dt lib0 (TsStr ''2024-01-01T00:00:00Z'') = Aware 1704067200000000"
  "parse_dt lib0 (TsStr ''2024-02-01T00:00:00Z'') = Aware 1706745600000000"
  "parse_dt lib0 (TsStr ''2024-03-01T00:00:00'') = Naive 63844848000000000"
  "parse_dt lib0 (TsStr ''2024-01-01T00:00:00'') = Naive 63839664000000000"
  "parse_dt lib0 (TsStr ''2024-02-01T00:00:00'') = Naive 63842342400000000"
  "parse_dt lib0 (TsStr ''not-a-date'') = Naive 0"
  by (simp_all add: parse_dt_def lib0_def replace_Z_def datetime_min_def)

lemma sorted_offset: "items_sorted lib0 orders_with_offset = Inl (OtherException naive_aware_msg)"
  by (simp add: items_sorted_def sorted_reverse_def orders_with_offset_def order_at_def parse_offset)

lemma sorted_naive:
  "items_sorted lib0 orders_naive =
     Inr [order_at ''O3'' ''2024-03-01T00:00:00'', order_at ''O2'' ''2024-02-01T00:00:00'',
          order_at ''O1'' ''2024-01-01T00:00:00'', order_at ''OX'' ''not-a-date'']"
  by (simp add: items_sorted_def sorted_reverse_def orders_naive_def order_at_def parse_offset)

lemma live_orders:
  "get_orders_advice live_config lib0 world_orders q =
     ([Invoke ''orders'', NetCall ''orders list''], ''Orders API error: '' @ naive_aware_msg)"
proof -
  have l: "orders_list_text lib0 orders_with_offset = Inl (OtherException naive_aware_msg)"
    by (simp add: orders_list_text_def sorted_offset) (simp add: orders_with_offset_def)
  have r: "re_order_key lib0 q = None" "re_long_id lib0 q = None"
    by (simp_all add: lib0_def)
  have w: "orders_list world_orders = Inr (200, Inr orders_with_offset)"
    by (simp add: world_orders_def)
  have "orders_live lib0 world_orders q = ([NetCall ''orders list''], ''Orders API error: '' @ naive_aware_msg)"
    by (simp add: orders_live_def r w truthy_def l orders_exn_text_def)
  then show ?thesis
    by (simp add: get_orders_advice_def live_config_def truthy_def)
qed

text \<open>
  Claim C8 at its failing input: three orders stamped with a UTC offset and one stamp that
  does not parse. The unparsable stamp becomes the naive \<open>datetime.min\<close>, comparing it
  with an aware stamp raises, and the adapter answers with its error text instead of the
  list. With stamps without offset the same list is sorted as the claim says.
\<close>

theorem orders_sort_mixed_timestamps:
  "items_sorted lib0 orders_with_offset = Inl (OtherException naive_aware_msg)
   \<and> get_orders_advice live_config lib0 world_orders ''show recent sales orders''
       = ([Invoke ''orders'', NetCall ''orders list''], ''Orders API error: '' @ naive_aware_msg)
   \<and> items_sorted lib0 orders_naive =
        Inr [order_at ''O3'' ''2024-03-01T00:00:00'', order_at ''O2'' ''2024-02-01T00:00:00'',
             order_at ''O1'' ''2024-01-01T00:00:00'', order_at ''OX'' ''not-a-date'']"
  using sorted_offset live_orders [of "''show recent sales orders''"] sorted_naive by blast

theorem orders_sort_mixed_timestamps_witness:
  "\<not> USE_MOCK_RESPONSES live_config
   \<and> truthy (CONFIG live_config ''orders_agent_url'')
   \<and> truthy (CONFIG live_config ''orders_agent_username'')
   \<and> truthy (CONFIG live_config ''orders_agent_password'')
   \<and> orders_list world_orders = Inr (200, Inr orders_with_offset)
   \<and> snd (get_orders_advice live_config lib0 world_orders ''show recent sales orders'')
       = ''Orders API error: '' @ naive_aware_msg
   \<and> net_calls (fst (get_orders_advice live_config lib0 world_orders ''show recent sales orders''))
       = [''orders list'']"
proof -
  have c: "\<not> USE_MOCK_RESPONSES live_config" "truthy (CONFIG live_config ''orders_agent_url'')"
    "truthy (CONFIG live_config ''orders_agent_username'')" "truthy (CONFIG live_config ''orders_agent_password'')"
    by (simp_all add: live_config_def truthy_def)
  have w: "orders_list world_orders = Inr (200, Inr orders_with_offset)"
    by (simp add: world_orders_def)
  from orders_sort_mixed_timestamps
  have g: "get_orders_advice live_config lib0 world_orders ''show recent sales orders''
       = ([Invoke ''orders'', NetCall ''orders list''], ''Orders API error: '' @ naive_aware_msg)"
    by blast
  have "snd (get_orders_advice live_config lib0 world_orders ''show recent sales orders'')
       = ''Orders API error: '' @ naive_aware_msg"
    and "net_calls (fst (get_orders_advice live_config lib0 world_orders ''show recent sales orders''))
       = [''orders list'']"
    unfolding g by simp_all
  with c w show ?thesis by blast
qed

section \<open>Downloads\<close>

lemma download_pdf_storage: "snd (download_pdf storage download_id) = storage"
  by (simp add: download_pdf_def split: option.split)

lemma rcoe_download_pdf_storage: "snd (rcoe_download_pdf storage download_id) = storage"
  by (simp add: rcoe_download_pdf_def split: option.split)

lemma download_report_storage: "snd (download_report storage download_id) = storage"
  by (simp add: download_report_def split: option.split prod.split)

lemma download_pdf_repeat:
  "((\<lambda>s. snd (download_pdf s download_id)) ^^ n) storage = storage"
  by (induction n) (simp_all add: download_pdf_storage)

text \<open>
  Claim C10, as the code has it. A GET on a download endpoint returns the storage as it
  found it, any number of times, so every repetition gives the same answer: for an entry of
  the matching type the decoded bytes when the stored text decodes, and the status 500
  when it does not.
\<close>

theorem download_leaves_storage:
  "snd (download_pdf storage download_id) = storage
   \<and> snd (rcoe_download_pdf storage download_id) = storage
   \<and> snd (download_report storage download_id) = storage
   \<and> ((\<lambda>s. snd (download_pdf s download_id)) ^^ n) storage = storage
   \<and> download_pdf (snd (download_pdf storage download_id)) download_id = download_pdf storage download_id
   \<and> (storage download_id = Some d \<and> e_type d = ''pdf'' \<and> b64decode (e_data d) = Some pdf_bytes \<longrightarrow>
        fst (download_pdf storage download_id)
          = SendFile pdf_bytes ''application/pdf'' (''Finance_Report_'' @ e_timestamp d @ ''.pdf'')
        \<and> fst (rcoe_download_pdf storage download_id) = fst (download_pdf storage download_id))
   \<and> (storage download_id = Some d \<and> e_type d = ''report'' \<and> b64decode (e_data d) = Some pdf_bytes \<longrightarrow>
        fst (download_report storage download_id)
          = SendFile pdf_bytes (fst (format_mapping (getd (e_format d) ''pdf'')))
              (''Analytics_Report_'' @ e_timestamp d @ ''.'' @ snd (format_mapping (getd (e_format d) ''pdf''))))
   \<and> (storage download_id = Some d \<and> e_type d = ''pdf'' \<and> b64decode (e_data d) = None \<longrightarrow>
        fst (download_pdf storage download_id) = TextStatus ''Error downloading PDF'' 500)"
proof (intro conjI impI)
  show "snd (download_pdf storage download_id) = storage" by (rule download_pdf_storage)
  show "snd (rcoe_download_pdf storage download_id) = storage" by (rule rcoe_download_pdf_storage)
  show "snd (download_report storage download_id) = storage" by (rule download_report_storage)
  show "((\<lambda>s. snd (download_pdf s download_id)) ^^ n) storage = storage" by (rule download_pdf_repeat)
  show "download_pdf (snd (download_pdf storage download_id)) download_id = download_pdf storage download_id"
    by (simp only: download_pdf_storage)
next
  assume a: "storage download_id = Some d \<and> e_type d = ''pdf'' \<and> b64decode (e_data d) = Some pdf_bytes"
  then have a1: "storage download_id = Some d" and a2: "e_type d = ''pdf''"
    and a3: "b64decode (e_data d) = Some pdf_bytes" by blast+
  show "fst (download_pdf storage download_id)
          = SendFile pdf_bytes ''application/pdf'' (''Finance_Report_'' @ e_timestamp d @ ''.pdf'')"
    by (simp add: download_pdf_def a1 a2 a3)
  show "fst (rcoe_download_pdf storage download_id) = fst (download_pdf storage download_id)"
    by (simp add: download_pdf_def rcoe_download_pdf_def a1 a2 a3)
next
  assume a: "storage download_id = Some d \<and> e_type d = ''report'' \<and> b64decode (e_data d) = Some pdf_bytes"
  then have a1: "storage download_id = Some d" and a2: "e_type d = ''report''"
    and a3: "b64decode (e_data d) = Some pdf_bytes" by blast+
  show "fst (download_report storage download_id)
          = SendFile pdf_bytes (fst (format_mapping (getd (e_format d) ''pdf'')))
              (''Analytics_Report_'' @ e_timestamp d @ ''.'' @ snd (format_mapping (getd (e_format d) ''pdf'')))"
    by (simp add: download_report_def a1 a2 a3 case_prod_beta)
next
  assume a: "storage download_id = Some d \<and> e_type d = ''pdf'' \<and> b64decode (e_data d) = None"
  then have a1: "storage download_id = Some d" and a2: "e_type d = ''pdf''"
    and a3: "b64decode (e_data d) = None" by blast+
  show "fst (download_pdf storage download_id) = TextStatus ''Error downloading PDF'' 500"
    by (simp add: download_pdf_def a1 a2 a3)
qed

lemma budget_prompt: "str_strip lib_soap ''show the budget'' = ''show the budget''" "str_lower lib_soap ''show the budget'' = ''show the budget''"
  by (simp_all add: lib_soap_def lib0_def ascii_strip_def is_space_def lib_soap_def lib0_def ascii_lower_def lower_char_def)

lemma budget_hits:
  "\<not> any_in kw_general ''show the budget''" "any_in kw_finance ''show the budget''"
  "\<not> any_in kw_hr ''show the budget''" "\<not> any_in kw_orders ''show the budget''"
  "\<not> any_in kw_reports ''show the budget''"
  by (simp_all add: any_in_def kw_general_def kw_finance_def kw_hr_def kw_orders_def kw_reports_def)

lemma live_finance_config:
  "\<not> USE_MOCK_RESPONSES live_config" "truthy (CONFIG live_config ''finance_agent_url'')"
  "truthy (CONFIG live_config ''finance_agent_username'')" "truthy (CONFIG live_config ''finance_agent_password'')"
  by (simp_all add: live_config_def truthy_def)

lemma soap_short_bytes: "re_report_bytes lib_soap soap_short = Some ''A''"
  by (simp add: lib_soap_def soap_bytes_def soap_short_def soap_ok_def)

lemma soap_ok_bytes: "re_report_bytes lib_soap soap_ok = Some ''aGVsbG8=''"
  by (simp add: lib_soap_def soap_bytes_def)

lemma strip_short: "str_strip lib_soap ''A'' = ''A''" "str_strip lib_soap ''aGVsbG8='' = ''aGVsbG8=''"
  by (simp_all add: lib_soap_def lib0_def ascii_strip_def is_space_def)

lemma finance_short:
  "get_finance_advice live_config lib_soap world_short_pdf q =
     ([Invoke ''finance'', NetCall ''finance soap''], ''PDF_DOWNLOAD:Finance:A'')"
proof -
  have p: "finance_post world_short_pdf = Inr (200, soap_short)" by (simp add: world_short_pdf_def)
  show ?thesis
    by (simp add: get_finance_advice_def live_finance_config p soap_short_bytes strip_short)
qed

lemma routing_short:
  "process_user_query live_config lib_soap world_short_pdf ''show the budget'' =
     ([Invoke ''finance'', NetCall ''finance soap''], [(title_finance, ''PDF_DOWNLOAD:Finance:A'')])"
proof -
  have g: "\<not> genai_client world_short_pdf" by (simp add: world_short_pdf_def world0_def)
  have k: "keyword_routing live_config lib_soap world_short_pdf ''show the budget'' =
     ([Invoke ''finance'', NetCall ''finance soap''], [(title_finance, ''PDF_DOWNLOAD:Finance:A'')])"
    by (simp add: keyword_routing_def when_matched_def budget_prompt budget_hits advise_def respond_def finance_short)
  show ?thesis by (simp add: process_user_query_def g k)
qed

lemma marker_short: "has_marker ''PDF_DOWNLOAD:Finance:A''" "py_in ''PDF_DOWNLOAD:'' ''PDF_DOWNLOAD:Finance:A''"
  by (simp_all add: has_marker_def)

lemma split_short:
  "split_all ''PDF_DOWNLOAD:'' ''PDF_DOWNLOAD:Finance:A'' = ['''', ''Finance:A'']"
  "split_n '':'' 1 ''Finance:A'' = [''Finance'', ''A'']"
  by code_simp+

lemma strip_rest: "str_strip lib_soap ''Finance:A'' = ''Finance:A''"
  by (simp add: lib_soap_def lib0_def ascii_strip_def is_space_def)

lemma deliver_short:
  "deliver lib_soap draw0 Map.empty ''PDF_DOWNLOAD:Finance:A'' =
     (\<lparr>status = 200, reply = pdf_ready_text ''Finance'', has_pdf = True, download_url = Some ''/download_pdf/d1''\<rparr>,
      [''d1'' \<mapsto> short_entry])"
  by (simp add: deliver_def marker_short split_short strip_rest Let_def draw0_def short_entry_def)

lemma chat_short:
  "chat live_config lib_soap world_short_pdf draw0 Map.empty (Json (PromptStr ''show the budget'')) =
     ([Invoke ''finance'', NetCall ''finance soap''],
      \<lparr>status = 200, reply = pdf_ready_text ''Finance'', has_pdf = True, download_url = Some ''/download_pdf/d1''\<rparr>,
      [''d1'' \<mapsto> short_entry])"
proof -
  have f: "format_response lib_soap (now_hms draw0) [(title_finance, ''PDF_DOWNLOAD:Finance:A'')] = Inr ''PDF_DOWNLOAD:Finance:A''"
    by (simp add: format_response_def marker_short)
  show ?thesis
    by (simp add: chat_def budget_prompt routing_short assemble_def f deliver_short)
qed

lemma decode_short: "b64decode ''A'' = None"
  by code_simp

lemma decode_hello: "b64decode ''aGVsbG8='' = Some ''hello''"
  by code_simp

text \<open>
  Claim C10 as stated fails on a stored download whose text is not complete base64: the
  report service answers with the payload \<open>A\<close>, the chat stores it under the id
  \<open>d1\<close>, and the download of \<open>d1\<close> ends with status 500.
\<close>

theorem download_incomplete_base64_counterexample:
  "snd (snd (chat live_config lib_soap world_short_pdf draw0 Map.empty (Json (PromptStr ''show the budget''))))
     = [''d1'' \<mapsto> short_entry]
   \<and> e_type short_entry = ''pdf''
   \<and> fst (download_pdf [''d1'' \<mapsto> short_entry] ''d1'') = TextStatus ''Error downloading PDF'' 500"
proof -
  have "fst (download_pdf [''d1'' \<mapsto> short_entry] ''d1'') = TextStatus ''Error downloading PDF'' 500"
    by (simp add: download_pdf_def short_entry_def decode_short)
  moreover have "e_type short_entry = ''pdf''" by (simp add: short_entry_def)
  ultimately show ?thesis by (simp only: chat_short snd_conv simp_thms)
qed

theorem download_leaves_storage_witness:
  "[''d1'' \<mapsto> hello_entry] ''d1'' = Some hello_entry \<and> e_type hello_entry = ''pdf''
   \<and> b64decode (e_data hello_entry) = Some ''hello''
   \<and> download_pdf [''d1'' \<mapsto> hello_entry] ''d1''
       = (SendFile ''hello'' ''application/pdf'' ''Finance_Report_20260101_100000.pdf'', [''d1'' \<mapsto> hello_entry])
   \<and> download_pdf (snd (download_pdf [''d1'' \<mapsto> hello_entry] ''d1'')) ''d1''
       = download_pdf [''d1'' \<mapsto> hello_entry] ''d1''
   \<and> fst (rcoe_download_pdf [''d1'' \<mapsto> hello_entry] ''d1'')
       = SendFile ''hello'' ''application/pdf'' ''Finance_Report_20260101_100000.pdf''
   \<and> [''d2'' \<mapsto> report_entry] ''d2'' = Some report_entry \<and> e_type report_entry = ''report''
   \<and> b64decode (e_data report_entry) = Some ''hello''
   \<and> download_report [''d2'' \<mapsto> report_entry] ''d2''
       = (SendFile ''hello'' ''application/pdf'' ''Analytics_Report_20260101_100000.pdf'', [''d2'' \<mapsto> report_entry])
   \<and> [''d1'' \<mapsto> short_entry] ''d1'' = Some short_entry \<and> e_type short_entry = ''pdf''
   \<and> b64decode (e_data short_entry) = None
   \<and> download_pdf [''d1'' \<mapsto> short_entry] ''d1''
       = (TextStatus ''Error downloading PDF'' 500, [''d1'' \<mapsto> short_entry])"
proof -
  have h: "[''d1'' \<mapsto> hello_entry] ''d1'' = Some hello_entry" "e_type hello_entry = ''pdf''"
    "b64decode (e_data hello_entry) = Some ''hello''" "e_timestamp hello_entry = ''20260101_100000''"
    by (simp_all add: hello_entry_def decode_hello)
  have r: "[''d2'' \<mapsto> report_entry] ''d2'' = Some report_entry" "e_type report_entry = ''report''"
    "b64decode (e_data report_entry) = Some ''hello''" "e_timestamp report_entry = ''20260101_100000''"
    "format_mapping (getd (e_format report_entry) ''pdf'') = (''application/pdf'', ''pdf'')"
    by (simp_all add: report_entry_def decode_hello format_mapping_def getd_def)
  have s: "[''d1'' \<mapsto> short_entry] ''d1'' = Some short_entry" "e_type short_entry = ''pdf''"
    "b64decode (e_data short_entry) = None"
    by (simp_all add: short_entry_def decode_short)
  note t1 = download_leaves_storage [where storage = "[''d1'' \<mapsto> hello_entry]" and download_id = "''d1''"
      and d = hello_entry and pdf_bytes = "''hello''" and n = 2]
  note t2 = download_leaves_storage [where storage = "[''d2'' \<mapsto> report_entry]" and download_id = "''d2''"
      and d = report_entry and pdf_bytes = "''hello''" and n = 2]
  note t3 = download_leaves_storage [where storage = "[''d1'' \<mapsto> short_entry]" and download_id = "''d1''"
      and d = short_entry and pdf_bytes = "''hello''" and n = 2]
  from t1 h(1,2,3) have c1: "snd (download_pdf [''d1'' \<mapsto> hello_entry] ''d1'') = [''d1'' \<mapsto> hello_entry]"
    and c2: "fst (download_pdf [''d1'' \<mapsto> hello_entry] ''d1'')
          = SendFile ''hello'' ''application/pdf'' (''Finance_Report_'' @ e_timestamp hello_entry @ ''.pdf'')"
    and c3: "fst (rcoe_download_pdf [''d1'' \<mapsto> hello_entry] ''d1'') = fst (download_pdf [''d1'' \<mapsto> hello_entry] ''d1'')"
    and c4: "download_pdf (snd (download_pdf [''d1'' \<mapsto> hello_entry] ''d1'')) ''d1''
       = download_pdf [''d1'' \<mapsto> hello_entry] ''d1''"
    by blast+
  from t2 r(1,2,3) have c5: "snd (download_report [''d2'' \<mapsto> report_entry] ''d2'') = [''d2'' \<mapsto> report_entry]"
    and c6: "fst (download_report [''d2'' \<mapsto> report_entry] ''d2'')
          = SendFile ''hello'' (fst (format_mapping (getd (e_format report_entry) ''pdf'')))
              (''Analytics_Report_'' @ e_timestamp report_entry @ ''.'' @ snd (format_mapping (getd (e_format report_entry) ''pdf'')))"
    by blast+
  from t3 s have c7: "snd (download_pdf [''d1'' \<mapsto> short_entry] ''d1'') = [''d1'' \<mapsto> short_entry]"
    and c8: "fst (download_pdf [''d1'' \<mapsto> short_entry] ''d1'') = TextStatus ''Error downloading PDF'' 500"
    by blast+
  have e1: "download_pdf [''d1'' \<mapsto> hello_entry] ''d1''
       = (SendFile ''hello'' ''application/pdf'' ''Finance_Report_20260101_100000.pdf'', [''d1'' \<mapsto> hello_entry])"
    using c1 c2 by (simp add: prod_eq_iff h(4))
  have e2: "fst (rcoe_download_pdf [''d1'' \<mapsto> hello_entry] ''d1'')
       = SendFile ''hello'' ''application/pdf'' ''Finance_Report_20260101_100000.pdf''"
    using c3 e1 by simp
  have e3: "download_report [''d2'' \<mapsto> report_entry] ''d2''
       = (SendFile ''hello'' ''application/pdf'' ''Analytics_Report_20260101_100000.pdf'', [''d2'' \<mapsto> report_entry])"
    using c5 c6 by (simp add: prod_eq_iff r(4,5))
  have e4: "download_pdf [''d1'' \<mapsto> short_entry] ''d1''
       = (TextStatus ''Error downloading PDF'' 500, [''d1'' \<mapsto> short_entry])"
    using c7 c8 by (simp add: prod_eq_iff)
  from h(1,2,3) e1 c4 e2 r(1,2,3) e3 s e4 show ?thesis by blast
qed

section \<open>Response assembly\<close>

lemma format_response_marker:
  "find (\<lambda>ar. has_marker (snd ar)) results = Some ar \<Longrightarrow> format_response lib now results = Inr (snd ar)"
  by (simp add: format_response_def)

lemma format_response_single_marker:
  "has_marker (snd ar) \<Longrightarrow> format_response lib now [ar] = Inr (snd ar)"
  by (simp add: format_response_def)

lemma find_marker: "find (\<lambda>ar. has_marker (snd ar)) results = Some ar \<Longrightarrow> has_marker (snd ar)"
  by (induction results) (auto split: if_splits)

text \<open>
  Claim C6, as the code has it. When some result holds a download marker, the first such
  result alone is what the assembler works on: \<open>format_response\<close> returns it unformatted,
  and the reply is the one a list with only that result gets; the texts of the other
  advisors are not part of it. For a PDF marker the reply is the report-ready text with
  the reference \<open>/download_pdf/<id>\<close> to the stored entry. For a report marker followed by
  advisor, format and data the reply is the analytics-report-ready text with the reference
  \<open>/download_report/<id>\<close> to the stored entry; a report marker with fewer fields is
  answered with status 500 and nothing is stored. Without any marker every result is
  formatted, in the order given: several results under the common header, a single result
  with the hint of its advisor (a title without a word is answered with status 500), and
  the formatted text is the reply.
\<close>

theorem assembler_marker_alone:
  "(find (\<lambda>ar. has_marker (snd ar)) results = Some ar \<longrightarrow>
      format_response lib (now_hms d) results = Inr (snd ar)
      \<and> assemble lib d storage results = deliver lib d storage (snd ar)
      \<and> assemble lib d storage results = assemble lib d storage [ar])
   \<and> (py_in ''PDF_DOWNLOAD:'' response \<longrightarrow>
      status (fst (deliver lib d storage response)) = 200
      \<and> has_pdf (fst (deliver lib d storage response))
      \<and> download_url (fst (deliver lib d storage response)) = Some (''/download_pdf/'' @ new_uuid d)
      \<and> snd (deliver lib d storage response) (new_uuid d) \<noteq> None
      \<and> e_type (the (snd (deliver lib d storage response) (new_uuid d))) = ''pdf''
      \<and> reply (fst (deliver lib d storage response))
          = pdf_ready_text (e_advisor (the (snd (deliver lib d storage response) (new_uuid d)))))
   \<and> (\<not> py_in ''PDF_DOWNLOAD:'' response \<and> py_in ''REPORT_DOWNLOAD:'' response
       \<and> split_n '':'' 2 (str_strip lib (split_all ''REPORT_DOWNLOAD:'' response ! 1))
           = [advisor_name, report_format, report_data] \<longrightarrow>
      deliver lib d storage response =
        (\<lparr>status = 200, reply = report_ready_text lib advisor_name (str_lower lib report_format),
          has_pdf = True, download_url = Some (''/download_report/'' @ new_uuid d)\<rparr>,
         storage(new_uuid d \<mapsto>
           \<lparr>e_type = ''report'', e_format = Some (str_lower lib report_format), e_data = report_data,
            e_advisor = advisor_name, e_timestamp = now_stamp d\<rparr>)))
   \<and> (\<not> py_in ''PDF_DOWNLOAD:'' response \<and> py_in ''REPORT_DOWNLOAD:'' response
       \<and> length (split_n '':'' 2 (str_strip lib (split_all ''REPORT_DOWNLOAD:'' response ! 1))) \<noteq> 3 \<longrightarrow>
      deliver lib d storage response = (plain_reply 500 (glyph_warn @ '' Error: Invalid report format''), storage))
   \<and> (\<not> has_marker response \<longrightarrow> deliver lib d storage response = (plain_reply 200 response, storage))
   \<and> (find (\<lambda>ar. has_marker (snd ar)) results = None \<and> 1 < length results \<longrightarrow>
      format_response lib (now_hms d) results
        = Inr (glyph_target @ '' Multiple advisors have insights to share:'' @ nl @ nl
               @ concat (map advisor_block results) @ nl @ nl @ glyph_clock @ '' '' @ now_hms d))
   \<and> (\<not> has_marker answer \<and> str_split lib title = word # ws \<longrightarrow>
      format_response lib (now_hms d) [(title, answer)]
        = Inr (glyph_target @ '' Here'' @ [CHR 0x27] @ ''s what I found: '' @ advisor_block (title, answer)
               @ hint (str_lower lib word) @ nl @ nl @ glyph_clock @ '' '' @ now_hms d))
   \<and> (\<not> has_marker answer \<and> str_split lib title = [] \<longrightarrow>
      format_response lib (now_hms d) [(title, answer)] = Inl (OtherException ''list index out of range'')
      \<and> assemble lib d storage [(title, answer)]
          = (plain_reply 500 (glyph_warn @ '' An error occurred while processing your request.''), storage))
   \<and> format_response lib (now_hms d) []
        = Inr (glyph_target @ '' Here'' @ [CHR 0x27] @ ''s what I found: '' @ nl @ nl @ glyph_clock @ '' '' @ now_hms d)"
proof (intro conjI impI)
  assume a: "find (\<lambda>ar. has_marker (snd ar)) results = Some ar"
  show f: "format_response lib (now_hms d) results = Inr (snd ar)"
    using a by (rule format_response_marker)
  show g: "assemble lib d storage results = deliver lib d storage (snd ar)"
    by (simp add: assemble_def f)
  have "assemble lib d storage [ar] = deliver lib d storage (snd ar)"
    by (simp add: assemble_def format_response_single_marker [OF find_marker [OF a]])
  with g show "assemble lib d storage results = assemble lib d storage [ar]" by simp
next
  assume a: "py_in ''PDF_DOWNLOAD:'' response"
  show "status (fst (deliver lib d storage response)) = 200"
    using a by (simp add: deliver_def Let_def)
  show "has_pdf (fst (deliver lib d storage response))"
    using a by (simp add: deliver_def Let_def)
  show "download_url (fst (deliver lib d storage response)) = Some (''/download_pdf/'' @ new_uuid d)"
    using a by (simp add: deliver_def Let_def)
  show "snd (deliver lib d storage response) (new_uuid d) \<noteq> None"
    using a by (simp add: deliver_def Let_def)
  show "e_type (the (snd (deliver lib d storage response) (new_uuid d))) = ''pdf''"
    using a by (simp add: deliver_def Let_def)
  show "reply (fst (deliver lib d storage response))
          = pdf_ready_text (e_advisor (the (snd (deliver lib d storage response) (new_uuid d))))"
    using a by (simp add: deliver_def Let_def)
next
  assume a: "\<not> py_in ''PDF_DOWNLOAD:'' response \<and> py_in ''REPORT_DOWNLOAD:'' response
       \<and> split_n '':'' 2 (str_strip lib (split_all ''REPORT_DOWNLOAD:'' response ! 1))
           = [advisor_name, report_format, report_data]"
  then have a1: "\<not> py_in ''PDF_DOWNLOAD:'' response" and a2: "py_in ''REPORT_DOWNLOAD:'' response"
    and a3: "split_n '':'' 2 (str_strip lib (split_all ''REPORT_DOWNLOAD:'' response ! 1))
           = [advisor_name, report_format, report_data]" by blast+
  show "deliver lib d storage response =
        (\<lparr>status = 200, reply = report_ready_text lib advisor_name (str_lower lib report_format),
          has_pdf = True, download_url = Some (''/download_report/'' @ new_uuid d)\<rparr>,
         storage(new_uuid d \<mapsto>
           \<lparr>e_type = ''report'', e_format = Some (str_lower lib report_format), e_data = report_data,
            e_advisor = advisor_name, e_timestamp = now_stamp d\<rparr>))"
    unfolding deliver_def Let_def a3 using a1 a2 by (simp add: numeral_2_eq_2)
next
  assume a: "\<not> py_in ''PDF_DOWNLOAD:'' response \<and> py_in ''REPORT_DOWNLOAD:'' response
       \<and> length (split_n '':'' 2 (str_strip lib (split_all ''REPORT_DOWNLOAD:'' response ! 1))) \<noteq> 3"
  then show "deliver lib d storage response
      = (plain_reply 500 (glyph_warn @ '' Error: Invalid report format''), storage)"
    by (simp add: deliver_def Let_def)
next
  assume "\<not> has_marker response"
  then show "deliver lib d storage response = (plain_reply 200 response, storage)"
    by (simp add: deliver_def has_marker_def)
next
  assume a: "find (\<lambda>ar. has_marker (snd ar)) results = None \<and> 1 < length results"
  then have a1: "find (\<lambda>ar. has_marker (snd ar)) results = None" and a2: "1 < length results" by blast+
  show "format_response lib (now_hms d) results
        = Inr (glyph_target @ '' Multiple advisors have insights to share:'' @ nl @ nl
               @ concat (map advisor_block results) @ nl @ nl @ glyph_clock @ '' '' @ now_hms d)"
    using a2 by (simp add: format_response_def a1 Let_def)
next
  assume a: "\<not> has_marker answer \<and> str_split lib title = word # ws"
  then show "format_response lib (now_hms d) [(title, answer)]
        = Inr (glyph_target @ '' Here'' @ [CHR 0x27] @ ''s what I found: '' @ advisor_block (title, answer)
               @ hint (str_lower lib word) @ nl @ nl @ glyph_clock @ '' '' @ now_hms d)"
    by (simp add: format_response_def Let_def)
next
  assume a: "\<not> has_marker answer \<and> str_split lib title = []"
  then show f: "format_response lib (now_hms d) [(title, answer)] = Inl (OtherException ''list index out of range'')"
    by (simp add: format_response_def Let_def)
  show "assemble lib d storage [(title, answer)]
          = (plain_reply 500 (glyph_warn @ '' An error occurred while processing your request.''), storage)"
    by (simp add: assemble_def f)
next
  show "format_response lib (now_hms d) []
        = Inr (glyph_target @ '' Here'' @ [CHR 0x27] @ ''s what I found: '' @ nl @ nl @ glyph_clock @ '' '' @ now_hms d)"
    by (simp add: format_response_def Let_def)
qed

lemma leave_prompt:
  "str_strip lib_soap ''budget and leave'' = ''budget and leave''" "str_lower lib_soap ''budget and leave'' = ''budget and leave''"
  by (simp_all add: lib_soap_def lib0_def ascii_strip_def is_space_def lib_soap_def lib0_def ascii_lower_def lower_char_def)

lemma leave_hits:
  "\<not> any_in kw_general ''budget and leave''" "any_in kw_finance ''budget and leave''"
  "any_in kw_hr ''budget and leave''" "\<not> any_in kw_orders ''budget and leave''"
  "\<not> any_in kw_reports ''budget and leave''"
  by (simp_all add: any_in_def kw_general_def kw_finance_def kw_hr_def kw_orders_def kw_reports_def)

lemma live_config_facts:
  "\<not> USE_MOCK_RESPONSES live_config" "truthy (CONFIG live_config ''finance_agent_url'')"
  "truthy (CONFIG live_config ''finance_agent_username'')" "truthy (CONFIG live_config ''finance_agent_password'')"
  "\<not> truthy (CONFIG live_config ''hr_agent_url'')"
  by (simp_all add: live_config_def truthy_def)

lemma finance_hello:
  "get_finance_advice live_config lib_soap world_pdf q =
     ([Invoke ''finance'', NetCall ''finance soap''], ''PDF_DOWNLOAD:Finance:aGVsbG8='')"
proof -
  have p: "finance_post world_pdf = Inr (200, soap_ok)" by (simp add: world_pdf_def)
  have b: "re_report_bytes lib_soap soap_ok = Some ''aGVsbG8=''"
    by (simp add: lib_soap_def soap_bytes_def)
  have s: "str_strip lib_soap ''aGVsbG8='' = ''aGVsbG8=''" by (simp add: lib_soap_def lib0_def ascii_strip_def is_space_def)
  show ?thesis
    by (simp add: get_finance_advice_def live_config_facts p b s)
qed

lemma hr_leave:
  "get_hr_advice live_config lib_soap world_pdf ''budget and leave'' =
     ([Invoke ''hr''], ''Annual leave policy includes 20 days PTO, 10 sick days, and additional floating holidays.'')"
proof -
  have c: "call_agent_api live_config world_pdf ''hr'' ''budget and leave'' = ([], None)"
    by (simp add: call_agent_api_def live_config_facts)
  have m: "mock_reply MOCK_hr ''policy'' ''budget and leave'' =
      ''Annual leave policy includes 20 days PTO, 10 sick days, and additional floating holidays.''"
    by (simp add: mock_reply_def MOCK_hr_def)
  show ?thesis
    by (simp add: get_hr_advice_def c truthy_def leave_prompt m)
qed

lemma routing_leave:
  "process_user_query live_config lib_soap world_pdf ''budget and leave'' =
     ([Invoke ''finance'', NetCall ''finance soap'', Invoke ''hr''],
      [(title_finance, ''PDF_DOWNLOAD:Finance:aGVsbG8=''),
       (title_hr, ''Annual leave policy includes 20 days PTO, 10 sick days, and additional floating holidays.'')])"
proof -
  have g: "\<not> genai_client world_pdf" by (simp add: world_pdf_def world0_def)
  have k: "keyword_routing live_config lib_soap world_pdf ''budget and leave'' =
     ([Invoke ''finance'', NetCall ''finance soap'', Invoke ''hr''],
      [(title_finance, ''PDF_DOWNLOAD:Finance:aGVsbG8=''),
       (title_hr, ''Annual leave policy includes 20 days PTO, 10 sick days, and additional floating holidays.'')])"
    by (simp add: keyword_routing_def when_matched_def leave_prompt leave_hits advise_def respond_def
          finance_hello hr_leave)
  show ?thesis by (simp add: process_user_query_def g k)
qed

lemma marker_hello:
  "has_marker ''PDF_DOWNLOAD:Finance:aGVsbG8=''" "py_in ''PDF_DOWNLOAD:'' ''PDF_DOWNLOAD:Finance:aGVsbG8=''"
  by (simp_all add: has_marker_def)

lemma split_hello:
  "split_all ''PDF_DOWNLOAD:'' ''PDF_DOWNLOAD:Finance:aGVsbG8='' = ['''', ''Finance:aGVsbG8='']"
  "split_n '':'' 1 ''Finance:aGVsbG8='' = [''Finance'', ''aGVsbG8='']"
  by code_simp+

lemma strip_hello: "str_strip lib_soap ''Finance:aGVsbG8='' = ''Finance:aGVsbG8=''"
  by (simp add: lib_soap_def lib0_def ascii_strip_def is_space_def)

lemma deliver_hello:
  "deliver lib_soap draw0 Map.empty ''PDF_DOWNLOAD:Finance:aGVsbG8='' =
     (\<lparr>status = 200, reply = pdf_ready_text ''Finance'', has_pdf = True, download_url = Some ''/download_pdf/d1''\<rparr>,
      [''d1'' \<mapsto> hello_entry])"
  by (simp add: deliver_def marker_hello split_hello strip_hello Let_def draw0_def hello_entry_def)

lemma find_hello:
  "find (\<lambda>ar. has_marker (snd ar))
     [(title_finance, ''PDF_DOWNLOAD:Finance:aGVsbG8=''),
      (title_hr, ''Annual leave policy includes 20 days PTO, 10 sick days, and additional floating holidays.'')]
   = Some (title_finance, ''PDF_DOWNLOAD:Finance:aGVsbG8='')"
  by (simp add: marker_hello)

lemma leave_text_absent: "\<not> py_in ''Annual leave policy'' (pdf_ready_text ''Finance'')"
  by code_simp

text \<open>
  Claim C6 as stated fails: the query \<open>budget and leave\<close> is answered by Finance with
  a PDF marker and by HR with its leave text, and the reply is the report-ready message
  for Finance alone; the text of HR is not in it.
\<close>

theorem assembler_drops_other_texts_counterexample:
  "snd (process_user_query live_config lib_soap world_pdf ''budget and leave'')
     = [(title_finance, ''PDF_DOWNLOAD:Finance:aGVsbG8=''),
        (title_hr, ''Annual leave policy includes 20 days PTO, 10 sick days, and additional floating holidays.'')]
   \<and> reply (fst (snd (chat live_config lib_soap world_pdf draw0 Map.empty (Json (PromptStr ''budget and leave'')))))
       = pdf_ready_text ''Finance''
   \<and> \<not> py_in ''Annual leave policy'' (pdf_ready_text ''Finance'')"
proof -
  have f: "format_response lib_soap (now_hms draw0)
      [(title_finance, ''PDF_DOWNLOAD:Finance:aGVsbG8=''),
       (title_hr, ''Annual leave policy includes 20 days PTO, 10 sick days, and additional floating holidays.'')]
     = Inr ''PDF_DOWNLOAD:Finance:aGVsbG8=''"
    using format_response_marker [OF find_hello] by simp
  have "reply (fst (snd (chat live_config lib_soap world_pdf draw0 Map.empty (Json (PromptStr ''budget and leave'')))))
       = pdf_ready_text ''Finance''"
    by (simp add: chat_def leave_prompt routing_leave assemble_def f deliver_hello)
  with leave_text_absent show ?thesis by (simp only: routing_leave snd_conv simp_thms)
qed

lemma plain_texts:
  "\<not> has_marker ''The annual budget allocation shows 40% for R&D, 30% for Operations, and 30% for Marketing.''"
  "\<not> has_marker ''Annual leave policy includes 20 days PTO, 10 sick days, and additional floating holidays.''"
  by (simp_all add: has_marker_def)

lemma split_report:
  "split_all ''REPORT_DOWNLOAD:'' ''REPORT_DOWNLOAD:Reports:PDF:aGVsbG8='' = ['''', ''Reports:PDF:aGVsbG8='']"
  "split_n '':'' 2 ''Reports:PDF:aGVsbG8='' = [''Reports'', ''PDF'', ''aGVsbG8='']"
  "split_all ''REPORT_DOWNLOAD:'' ''REPORT_DOWNLOAD:Reports:PDF'' = ['''', ''Reports:PDF'']"
  "split_n '':'' 2 ''Reports:PDF'' = [''Reports'', ''PDF'']"
  by code_simp+

lemma strip_report:
  "str_strip lib_soap ''Reports:PDF:aGVsbG8='' = ''Reports:PDF:aGVsbG8=''"
  "str_strip lib_soap ''Reports:PDF'' = ''Reports:PDF''"
  "str_lower lib_soap ''PDF'' = ''pdf''" "str_lower lib_soap ''Finance'' = ''finance''"
  by (simp_all add: lib_soap_def lib0_def ascii_strip_def is_space_def ascii_lower_def lower_char_def)

lemma marker_report:
  "\<not> py_in ''PDF_DOWNLOAD:'' ''REPORT_DOWNLOAD:Reports:PDF:aGVsbG8=''"
  "py_in ''REPORT_DOWNLOAD:'' ''REPORT_DOWNLOAD:Reports:PDF:aGVsbG8=''"
  "\<not> py_in ''PDF_DOWNLOAD:'' ''REPORT_DOWNLOAD:Reports:PDF''"
  "py_in ''REPORT_DOWNLOAD:'' ''REPORT_DOWNLOAD:Reports:PDF''"
  by simp_all

lemma split_title: "str_split lib_soap title_finance = [''Finance'', ''Advisor'', glyph_money]"
  by (simp add: lib_soap_def lib0_def title_finance_def glyph_money_def ascii_split.simps is_space_def)

theorem assembler_marker_alone_witness:
  "find (\<lambda>ar. has_marker (snd ar))
     [(title_finance, ''PDF_DOWNLOAD:Finance:aGVsbG8=''),
      (title_hr, ''Annual leave policy includes 20 days PTO, 10 sick days, and additional floating holidays.'')]
     = Some (title_finance, ''PDF_DOWNLOAD:Finance:aGVsbG8='')
   \<and> assemble lib_soap draw0 Map.empty
       [(title_finance, ''PDF_DOWNLOAD:Finance:aGVsbG8=''),
        (title_hr, ''Annual leave policy includes 20 days PTO, 10 sick days, and additional floating holidays.'')]
       = assemble lib_soap draw0 Map.empty [(title_finance, ''PDF_DOWNLOAD:Finance:aGVsbG8='')]
   \<and> assemble lib_soap draw0 Map.empty
       [(title_finance, ''PDF_DOWNLOAD:Finance:aGVsbG8=''),
        (title_hr, ''Annual leave policy includes 20 days PTO, 10 sick days, and additional floating holidays.'')]
       = (\<lparr>status = 200, reply = pdf_ready_text ''Finance'', has_pdf = True,
            download_url = Some ''/download_pdf/d1''\<rparr>, [''d1'' \<mapsto> hello_entry])
   \<and> py_in ''PDF_DOWNLOAD:'' ''PDF_DOWNLOAD:Finance:aGVsbG8=''
   \<and> has_pdf (fst (deliver lib_soap draw0 Map.empty ''PDF_DOWNLOAD:Finance:aGVsbG8=''))
   \<and> download_url (fst (deliver lib_soap draw0 Map.empty ''PDF_DOWNLOAD:Finance:aGVsbG8='')) = Some ''/download_pdf/d1''
   \<and> \<not> py_in ''PDF_DOWNLOAD:'' ''REPORT_DOWNLOAD:Reports:PDF:aGVsbG8=''
   \<and> py_in ''REPORT_DOWNLOAD:'' ''REPORT_DOWNLOAD:Reports:PDF:aGVsbG8=''
   \<and> split_n '':'' 2 (str_strip lib_soap (split_all ''REPORT_DOWNLOAD:'' ''REPORT_DOWNLOAD:Reports:PDF:aGVsbG8='' ! 1))
       = [''Reports'', ''PDF'', ''aGVsbG8='']
   \<and> deliver lib_soap draw0 Map.empty ''REPORT_DOWNLOAD:Reports:PDF:aGVsbG8='' =
       (\<lparr>status = 200, reply = report_ready_text lib_soap ''Reports'' ''pdf'', has_pdf = True,
         download_url = Some ''/download_report/d1''\<rparr>, [''d1'' \<mapsto> report_entry])
   \<and> \<not> py_in ''PDF_DOWNLOAD:'' ''REPORT_DOWNLOAD:Reports:PDF''
   \<and> py_in ''REPORT_DOWNLOAD:'' ''REPORT_DOWNLOAD:Reports:PDF''
   \<and> length (split_n '':'' 2 (str_strip lib_soap (split_all ''REPORT_DOWNLOAD:'' ''REPORT_DOWNLOAD:Reports:PDF'' ! 1))) \<noteq> 3
   \<and> deliver lib_soap draw0 Map.empty ''REPORT_DOWNLOAD:Reports:PDF''
       = (plain_reply 500 (glyph_warn @ '' Error: Invalid report format''), Map.empty)
   \<and> find (\<lambda>ar. has_marker (snd ar))
       [(title_finance, ''The annual budget allocation shows 40% for R&D, 30% for Operations, and 30% for Marketing.''),
        (title_hr, ''Annual leave policy includes 20 days PTO, 10 sick days, and additional floating holidays.'')]
       = None
   \<and> format_response lib_soap ''10:00:00''
       [(title_finance, ''The annual budget allocation shows 40% for R&D, 30% for Operations, and 30% for Marketing.''),
        (title_hr, ''Annual leave policy includes 20 days PTO, 10 sick days, and additional floating holidays.'')]
       = Inr (glyph_target @ '' Multiple advisors have insights to share:'' @ nl @ nl
              @ advisor_block (title_finance, ''The annual budget allocation shows 40% for R&D, 30% for Operations, and 30% for Marketing.'')
              @ advisor_block (title_hr, ''Annual leave policy includes 20 days PTO, 10 sick days, and additional floating holidays.'')
              @ nl @ nl @ glyph_clock @ '' 10:00:00'')
   \<and> \<not> has_marker ''The annual budget allocation shows 40% for R&D, 30% for Operations, and 30% for Marketing.''
   \<and> str_split lib_soap title_finance = [''Finance'', ''Advisor'', glyph_money]
   \<and> format_response lib_soap ''10:00:00''
       [(title_finance, ''The annual budget allocation shows 40% for R&D, 30% for Operations, and 30% for Marketing.'')]
       = Inr (glyph_target @ '' Here'' @ [CHR 0x27] @ ''s what I found: ''
              @ advisor_block (title_finance, ''The annual budget allocation shows 40% for R&D, 30% for Operations, and 30% for Marketing.'')
              @ hint ''finance'' @ nl @ nl @ glyph_clock @ '' 10:00:00'')"
proof -
  let ?m = "(title_finance, ''PDF_DOWNLOAD:Finance:aGVsbG8='')"
  let ?h = "(title_hr, ''Annual leave policy includes 20 days PTO, 10 sick days, and additional floating holidays.'')"
  let ?b = "(title_finance, ''The annual budget allocation shows 40% for R&D, 30% for Operations, and 30% for Marketing.'')"
  have n: "find (\<lambda>ar. has_marker (snd ar)) [?b, ?h] = None"
    by (simp add: plain_texts)
  have l: "1 < length [?b, ?h]" by simp
  have u: "new_uuid draw0 = ''d1''" "now_hms draw0 = ''10:00:00''" "now_stamp draw0 = ''20260101_100000''"
    by (simp_all add: draw0_def)
  note t1 = assembler_marker_alone [where results = "[?m, ?h]" and ar = ?m and d = draw0 and lib = lib_soap
      and storage = Map.empty and response = "''PDF_DOWNLOAD:Finance:aGVsbG8=''"]
  note t2 = assembler_marker_alone [where results = "[?b, ?h]" and d = draw0 and lib = lib_soap
      and storage = Map.empty and response = "''REPORT_DOWNLOAD:Reports:PDF:aGVsbG8=''"
      and advisor_name = "''Reports''" and report_format = "''PDF''" and report_data = "''aGVsbG8=''"
      and title = title_finance and word = "''Finance''" and ws = "[''Advisor'', glyph_money]"
      and answer = "''The annual budget allocation shows 40% for R&D, 30% for Operations, and 30% for Marketing.''"]
  note t3 = assembler_marker_alone [where d = draw0 and lib = lib_soap
      and storage = Map.empty and response = "''REPORT_DOWNLOAD:Reports:PDF''"]
  from t1 find_hello have c1: "assemble lib_soap draw0 Map.empty [?m, ?h] = deliver lib_soap draw0 Map.empty (snd ?m)"
    and c2: "assemble lib_soap draw0 Map.empty [?m, ?h] = assemble lib_soap draw0 Map.empty [?m]"
    by blast+
  from c1 have c3: "assemble lib_soap draw0 Map.empty [?m, ?h] =
       (\<lparr>status = 200, reply = pdf_ready_text ''Finance'', has_pdf = True,
            download_url = Some ''/download_pdf/d1''\<rparr>, [''d1'' \<mapsto> hello_entry])"
    by (simp only: snd_conv deliver_hello)
  from t1 marker_hello(2) have c4: "has_pdf (fst (deliver lib_soap draw0 Map.empty ''PDF_DOWNLOAD:Finance:aGVsbG8=''))"
    and c5: "download_url (fst (deliver lib_soap draw0 Map.empty ''PDF_DOWNLOAD:Finance:aGVsbG8=''))
         = Some (''/download_pdf/'' @ new_uuid draw0)"
    by blast+
  from c5 have c5': "download_url (fst (deliver lib_soap draw0 Map.empty ''PDF_DOWNLOAD:Finance:aGVsbG8='')) = Some ''/download_pdf/d1''"
    by (simp add: u)
  from t2 n l have "format_response lib_soap (now_hms draw0) [?b, ?h]
        = Inr (glyph_target @ '' Multiple advisors have insights to share:'' @ nl @ nl
               @ concat (map advisor_block [?b, ?h]) @ nl @ nl @ glyph_clock @ '' '' @ now_hms draw0)"
    by blast
  then have c6: "format_response lib_soap ''10:00:00'' [?b, ?h]
       = Inr (glyph_target @ '' Multiple advisors have insights to share:'' @ nl @ nl
              @ advisor_block ?b @ advisor_block ?h @ nl @ nl @ glyph_clock @ '' 10:00:00'')"
    by (simp add: u)
  have r1: "split_n '':'' 2 (str_strip lib_soap (split_all ''REPORT_DOWNLOAD:'' ''REPORT_DOWNLOAD:Reports:PDF:aGVsbG8='' ! 1))
       = [''Reports'', ''PDF'', ''aGVsbG8='']"
    by (simp only: split_report nth_Cons_Suc nth_Cons_0 One_nat_def strip_report)
  from t2 marker_report(1) marker_report(2) r1
  have "deliver lib_soap draw0 Map.empty ''REPORT_DOWNLOAD:Reports:PDF:aGVsbG8='' =
        (\<lparr>status = 200, reply = report_ready_text lib_soap ''Reports'' (str_lower lib_soap ''PDF''),
          has_pdf = True, download_url = Some (''/download_report/'' @ new_uuid draw0)\<rparr>,
         Map.empty(new_uuid draw0 \<mapsto>
           \<lparr>e_type = ''report'', e_format = Some (str_lower lib_soap ''PDF''), e_data = ''aGVsbG8='',
            e_advisor = ''Reports'', e_timestamp = now_stamp draw0\<rparr>))"
    by blast
  then have c7: "deliver lib_soap draw0 Map.empty ''REPORT_DOWNLOAD:Reports:PDF:aGVsbG8='' =
       (\<lparr>status = 200, reply = report_ready_text lib_soap ''Reports'' ''pdf'', has_pdf = True,
         download_url = Some ''/download_report/d1''\<rparr>, [''d1'' \<mapsto> report_entry])"
    by (simp only: strip_report u report_entry_def append_Cons append_Nil)
  have r2: "length (split_n '':'' 2 (str_strip lib_soap (split_all ''REPORT_DOWNLOAD:'' ''REPORT_DOWNLOAD:Reports:PDF'' ! 1))) \<noteq> 3"
    by (simp add: split_report strip_report)
  from t3 marker_report(3) marker_report(4) r2
  have c8: "deliver lib_soap draw0 Map.empty ''REPORT_DOWNLOAD:Reports:PDF''
       = (plain_reply 500 (glyph_warn @ '' Error: Invalid report format''), Map.empty)"
    by blast
  from t2 plain_texts(1) split_title
  have "format_response lib_soap (now_hms draw0) [?b]
        = Inr (glyph_target @ '' Here'' @ [CHR 0x27] @ ''s what I found: '' @ advisor_block ?b
               @ hint (str_lower lib_soap ''Finance'') @ nl @ nl @ glyph_clock @ '' '' @ now_hms draw0)"
    by blast
  then have c9: "format_response lib_soap ''10:00:00'' [?b]
       = Inr (glyph_target @ '' Here'' @ [CHR 0x27] @ ''s what I found: '' @ advisor_block ?b
              @ hint ''finance'' @ nl @ nl @ glyph_clock @ '' 10:00:00'')"
    by (simp add: u strip_report)
  from find_hello c2 c3 marker_hello(2) c4 c5' marker_report r1 c7 r2 c8 n c6 plain_texts(1) split_title c9
  show ?thesis by blast
qed

section \<open>Finalizing artifacts\<close>

lemma dict_get_set: "dict_get (dict_set k v m) k' = (if k' = k then Some v else dict_get m k')"
  by (induction m) (auto simp: dict_get_def)

lemma not_configured_iff:
  "(\<not> object_client c \<or> ARTIFACT_BUCKET cfg = [] \<or> namespace_name c = []) = (\<not> storage_configured cfg c)"
  by (auto simp: storage_configured_def)

lemma meta_key_inj: "meta_key a = meta_key b \<Longrightarrow> a = b"
  by (simp add: meta_key_def)

lemma meta_key_not_pdf_key: "meta_key a \<noteq> pdf_key b"
proof
  assume "meta_key a = pdf_key b"
  then have "last (meta_key a) = last (pdf_key b)" by simp
  then show False by (simp add: meta_key_def pdf_key_def)
qed

lemma read_meta_objects:
  "objects st' k = objects st k \<Longrightarrow> read_meta c st' k = read_meta c st k"
  by (simp add: read_meta_def split: option.split)

lemma process_download_ready:
  assumes "storage_configured cfg c" and "read_meta c st (meta_key artifact_id) = Inr m"
    and "dict_get m ''status'' = Some (JS ''ready'')"
  shows "process_download cfg c st artifact_id =
           (DownloadArtifact
              (dict_set ''expiresIn'' (JN (PRESIGN_TTL_SECONDS cfg))
                 (dict_set ''presignedUrl'' (url_jval (get_presigned cfg c (pdf_key artifact_id))) m))
              (''Artifact ready: '' @ render_jval (dict_get m ''filename'')), st)"
  using assms unfolding storage_configured_def by (simp add: process_download_def)

lemma process_download_error_state:
  assumes "\<not> storage_configured cfg c"
  shows "process_download cfg c st artifact_id = (DownloadError ''artifact storage not configured'', st)"
proof -
  from assms have "\<not> object_client c \<or> ARTIFACT_BUCKET cfg = [] \<or> namespace_name c = []"
    unfolding storage_configured_def by blast
  then show ?thesis unfolding process_download_def by (rule if_P)
qed

lemma process_download_missing:
  assumes "storage_configured cfg c" and "read_meta c st (meta_key artifact_id) = Inl (Caught msg)"
  shows "process_download cfg c st artifact_id = (DownloadError (''metadata not found: '' @ msg), st)"
  using assms unfolding storage_configured_def by (simp add: process_download_def)

lemma process_download_not_object:
  assumes "storage_configured cfg c" and "read_meta c st (meta_key artifact_id) = Inl (NotObject type_name)"
  shows "process_download cfg c st artifact_id = (DownloadRaises (no_attribute_get type_name), st)"
  using assms unfolding storage_configured_def by (simp add: process_download_def)


lemma put_object_objects:
  "objects (snd (put_object cfg c st k v)) k' = (if k' = k \<and> fst (put_object cfg c st k v) then Some v else objects st k')"
  by (simp add: put_object_def)

lemma process_download_frame:
  assumes "k \<noteq> meta_key artifact_id" and "k \<noteq> pdf_key artifact_id"
  shows "objects (snd (process_download cfg c st artifact_id)) k = objects st k"
proof (cases "storage_configured cfg c")
  case False
  then show ?thesis by (simp add: process_download_error_state)
next
  case True
  show ?thesis
  proof (cases "read_meta c st (meta_key artifact_id)")
    case (Inl e)
    with True show ?thesis
      by (cases e) (simp_all add: process_download_missing process_download_not_object)
  next
    case (Inr m)
    show ?thesis
    proof (cases "dict_get m ''status'' = Some (JS ''pending'')")
      case pending: True
      with True Inr assms show ?thesis
        unfolding storage_configured_def by (simp add: process_download_def Let_def put_object_def storage_configured_def dict_get_set)
    next
      case False
      with True Inr show ?thesis
        unfolding storage_configured_def by (simp add: process_download_def Let_def)
    qed
  qed
qed

lemma process_download_ready_iter:
  assumes "storage_configured cfg c" and "read_meta c st (meta_key artifact_id) = Inr m"
    and "dict_get m ''status'' = Some (JS ''ready'')"
  shows "((\<lambda>s. snd (process_download cfg c s artifact_id)) ^^ n) st = st"
proof (induction n)
  case 0
  show ?case by simp
next
  case (Suc n)
  then show ?case by (simp add: process_download_ready [OF assms])
qed

lemma process_download_keeps_meta:
  assumes "storage_configured cfg c" and "read_meta c st (meta_key artifact_id) = Inr m"
    and "dict_get m ''status'' = Some (JS ''ready'')"
  shows "read_meta c (snd (process_download cfg c st other)) (meta_key artifact_id) = Inr m"
proof (cases "other = artifact_id")
  case True
  then show ?thesis by (simp add: process_download_ready [OF assms] assms(2))
next
  case False
  then have "meta_key artifact_id \<noteq> meta_key other"
    using meta_key_inj by blast
  then have "objects (snd (process_download cfg c st other)) (meta_key artifact_id) = objects st (meta_key artifact_id)"
    by (rule process_download_frame) (rule meta_key_not_pdf_key)
  then have "read_meta c (snd (process_download cfg c st other)) (meta_key artifact_id) = read_meta c st (meta_key artifact_id)"
    by (rule read_meta_objects)
  with assms(2) show ?thesis by simp
qed

text \<open>
  Claim C9. In \<open>process_download\<close>, when the metadata stored for an artifact id has status
  \<open>ready\<close>, a call on that id writes nothing: the bucket is the same after the call, and
  so after any number of calls. The call returns the stored metadata, every stored field
  unchanged, together with the two delivery fields \<open>presignedUrl\<close> and \<open>expiresIn\<close>
  and the message \<open>Artifact ready: <filename>\<close>. No call of \<open>process_download\<close>, on
  this or on any other id, takes the stored metadata of a ready artifact back to
  \<open>pending\<close>: it stays the same document.
\<close>

theorem ready_artifact_idempotent:
  assumes "storage_configured cfg c" and "read_meta c st (meta_key artifact_id) = Inr m"
    and "dict_get m ''status'' = Some (JS ''ready'')"
  shows "snd (process_download cfg c st artifact_id) = st
       \<and> fst (process_download cfg c st artifact_id) =
           DownloadArtifact
             (dict_set ''expiresIn'' (JN (PRESIGN_TTL_SECONDS cfg))
                (dict_set ''presignedUrl'' (url_jval (get_presigned cfg c (pdf_key artifact_id))) m))
             (''Artifact ready: '' @ render_jval (dict_get m ''filename''))
       \<and> (\<forall>k. k \<noteq> ''presignedUrl'' \<and> k \<noteq> ''expiresIn'' \<longrightarrow>
              dict_get (dict_set ''expiresIn'' (JN (PRESIGN_TTL_SECONDS cfg))
                 (dict_set ''presignedUrl'' (url_jval (get_presigned cfg c (pdf_key artifact_id))) m)) k
              = dict_get m k)
       \<and> ((\<lambda>s. snd (process_download cfg c s artifact_id)) ^^ n) st = st
       \<and> read_meta c (((\<lambda>s. snd (process_download cfg c s artifact_id)) ^^ n) st) (meta_key artifact_id) = Inr m
       \<and> read_meta c (snd (process_download cfg c st other)) (meta_key artifact_id) = Inr m"
proof -
  note r = process_download_ready [OF assms]
  have a: "snd (process_download cfg c st artifact_id) = st" by (simp add: r)
  have b: "fst (process_download cfg c st artifact_id) =
           DownloadArtifact
             (dict_set ''expiresIn'' (JN (PRESIGN_TTL_SECONDS cfg))
                (dict_set ''presignedUrl'' (url_jval (get_presigned cfg c (pdf_key artifact_id))) m))
             (''Artifact ready: '' @ render_jval (dict_get m ''filename''))" by (simp add: r)
  have c: "\<forall>k. k \<noteq> ''presignedUrl'' \<and> k \<noteq> ''expiresIn'' \<longrightarrow>
              dict_get (dict_set ''expiresIn'' (JN (PRESIGN_TTL_SECONDS cfg))
                 (dict_set ''presignedUrl'' (url_jval (get_presigned cfg c (pdf_key artifact_id))) m)) k
              = dict_get m k" by (simp add: dict_get_set)
  note d = process_download_ready_iter [OF assms, of n]
  have e: "read_meta c (((\<lambda>s. snd (process_download cfg c s artifact_id)) ^^ n) st) (meta_key artifact_id) = Inr m"
    by (simp only: d assms(2))
  note f = process_download_keeps_meta [OF assms, of other]
  from a b c d e f show ?thesis by blast
qed

lemma storage_live: "storage_configured replica_live cloud0"
  by (simp add: storage_configured_def replica_live_def replica_mock_def cloud0_def)

lemma read_ready: "read_meta cloud0 rstate_ready (meta_key ''uuid-0'') = Inr ready_meta"
  by (simp add: read_meta_def cloud0_def rstate_ready_def meta_key_def)

lemma ready_status: "dict_get ready_meta ''status'' = Some (JS ''ready'')"
  by (simp add: dict_get_def ready_meta_def)

theorem ready_artifact_idempotent_witness:
  "storage_configured replica_live cloud0
   \<and> read_meta cloud0 rstate_ready (meta_key ''uuid-0'') = Inr ready_meta
   \<and> dict_get ready_meta ''status'' = Some (JS ''ready'')
   \<and> snd (process_download replica_live cloud0 rstate_ready ''uuid-0'') = rstate_ready
   \<and> fst (process_download replica_live cloud0 rstate_ready ''uuid-0'') =
       DownloadArtifact
         (ready_meta @ [(''presignedUrl'', JS ''https://objectstorage/artifact/uuid-0.pdf''), (''expiresIn'', JN 900)])
         ''Artifact ready: Analytics_Report_20260101_000000.pdf''
   \<and> ((\<lambda>s. snd (process_download replica_live cloud0 s ''uuid-0'')) ^^ 3) rstate_ready = rstate_ready
   \<and> read_meta cloud0 (snd (process_download replica_live cloud0 rstate_ready ''uuid-1'')) (meta_key ''uuid-0'') = Inr ready_meta"
proof -
  note t = ready_artifact_idempotent [OF storage_live read_ready ready_status, of 3 "''uuid-1''"]
  have p: "get_presigned replica_live cloud0 (pdf_key ''uuid-0'') = Some ''https://objectstorage/artifact/uuid-0.pdf''"
  proof -
    have "presigned_url cloud0 (pdf_key ''uuid-0'') = Some ''https://objectstorage/artifact/uuid-0.pdf''"
      by (simp add: cloud0_def pdf_key_def)
    then show ?thesis by (simp only: get_presigned_def storage_live not_True_eq_False if_False)
  qed
  have ttl: "PRESIGN_TTL_SECONDS replica_live = 900"
    by (simp add: replica_live_def replica_mock_def)
  have m: "dict_set ''expiresIn'' (JN 900) (dict_set ''presignedUrl'' (JS ''https://objectstorage/artifact/uuid-0.pdf'') ready_meta)
           = ready_meta @ [(''presignedUrl'', JS ''https://objectstorage/artifact/uuid-0.pdf''), (''expiresIn'', JN 900)]"
    by (simp add: ready_meta_def)
  have f: "render_jval (dict_get ready_meta ''filename'') = ''Analytics_Report_20260101_000000.pdf''"
    by (simp add: render_jval_def dict_get_def ready_meta_def)
  from t have "fst (process_download replica_live cloud0 rstate_ready ''uuid-0'') =
       DownloadArtifact
         (ready_meta @ [(''presignedUrl'', JS ''https://objectstorage/artifact/uuid-0.pdf''), (''expiresIn'', JN 900)])
         ''Artifact ready: Analytics_Report_20260101_000000.pdf''"
    by (simp only: p ttl url_jval_def option.case m f append_Cons append_Nil)
  with t storage_live read_ready ready_status show ?thesis by blast
qed



lemma read_meta_stored:
  "get_fails c k = None \<Longrightarrow> objects st k = Some (JsonDoc m) \<Longrightarrow> read_meta c st k = Inr m"
  by (simp add: read_meta_def)


























section \<open>Mock mode\<close>

lemma first_match_in: "first_match table q = Some r \<Longrightarrow> r \<in> snd ` set table"
  by (induction table q rule: first_match.induct) (auto split: if_splits)

lemma mock_reply_in:
  assumes "map_of table dflt = Some d"
  shows "mock_reply table dflt q \<in> snd ` set table"
proof (cases "first_match table q")
  case None
  have "d \<in> snd ` set table" using assms by (metis map_of_SomeD image_eqI snd_conv)
  with None assms show ?thesis by (simp add: mock_reply_def)
next
  case (Some r)
  then have "r \<in> snd ` set table" by (rule first_match_in)
  with Some show ?thesis by (simp add: mock_reply_def)
qed

lemma no_marker_MOCK_finance: "t \<in> snd ` set MOCK_finance \<Longrightarrow> \<not> has_marker t"
  by (auto simp: MOCK_finance_def has_marker_def)

lemma no_marker_MOCK_hr: "t \<in> snd ` set MOCK_hr \<Longrightarrow> \<not> has_marker t"
  by (auto simp: MOCK_hr_def has_marker_def)

lemma no_marker_MOCK_orders: "t \<in> snd ` set MOCK_orders \<Longrightarrow> \<not> has_marker t"
  by (auto simp: MOCK_orders_def has_marker_def)

lemma no_marker_MOCK_reports: "t \<in> snd ` set MOCK_reports \<Longrightarrow> \<not> has_marker t"
  by (auto simp: MOCK_reports_def has_marker_def)

lemma defaults_present:
  "map_of MOCK_finance ''budget'' = Some ''The annual budget allocation shows 40% for R&D, 30% for Operations, and 30% for Marketing.''"
  "map_of MOCK_hr ''policy'' = Some ''Our work-from-home policy allows 3 days remote work per week with core hours from 10 AM to 4 PM.''"
  "map_of MOCK_orders ''status'' = Some ''Current order fulfillment rate is at 95% with average delivery time of 2.3 days.''"
  "map_of MOCK_reports ''analytics'' = Some (''Analytics workbook export service is ready. Request a report and I'' @ [CHR 0x27] @ ''ll generate it for you.'')"
  by (simp_all add: MOCK_finance_def MOCK_hr_def MOCK_orders_def MOCK_reports_def)

lemma mock_finance:
  "USE_MOCK_RESPONSES cfg \<Longrightarrow>
     get_finance_advice cfg lib w query = ([Invoke ''finance''], mock_reply MOCK_finance ''budget'' (str_lower lib query))"
  by (simp add: get_finance_advice_def)

lemma mock_call_agent_api: "USE_MOCK_RESPONSES cfg \<Longrightarrow> call_agent_api cfg w a query = ([], None)"
  by (simp add: call_agent_api_def)

lemma mock_hr:
  "USE_MOCK_RESPONSES cfg \<Longrightarrow>
     get_hr_advice cfg lib w query = ([Invoke ''hr''], mock_reply MOCK_hr ''policy'' (str_lower lib query))"
  by (simp add: get_hr_advice_def mock_call_agent_api truthy_def)

lemma mock_orders:
  "USE_MOCK_RESPONSES cfg \<Longrightarrow>
     get_orders_advice cfg lib w query = ([Invoke ''orders''], mock_reply MOCK_orders ''status'' (str_lower lib query))"
  by (simp add: get_orders_advice_def)

lemma mock_reports:
  "USE_MOCK_RESPONSES cfg \<Longrightarrow>
     get_reports_advice cfg lib w query = ([Invoke ''reports''], mock_reply MOCK_reports ''analytics'' (str_lower lib query))"
  by (simp add: get_reports_advice_def)

lemma mock_general_calls:
  "USE_MOCK_RESPONSES cfg \<Longrightarrow>
     net_calls (fst (get_general_advice cfg lib w query)) = (if genai_client w then [''genai chat''] else [])"
  by (simp add: get_general_advice_def mock_call_agent_api truthy_def Let_def)

lemma replica_mock_finance:
  "USE_MOCK_RESPONSES_r cfg \<Longrightarrow>
     advisor_finance cfg lib c prompt st =
       ([Invoke ''finance''],
        result name_finance ''finance'' ''mock''
          ''Finance advisor mock: budget allocation 40% R&D, 30% Ops, 30% Marketing.'' None, st)"
  by (simp add: advisor_finance_def)

lemma replica_mock_hr:
  "USE_MOCK_RESPONSES_r cfg \<Longrightarrow>
     advisor_hr cfg c prompt st =
       ([Invoke ''hr''],
        result name_hr ''hr'' ''mock''
          ''HR policies include 20 days PTO, comprehensive health coverage, and flexible remote work.'' None, st)"
  by (simp add: advisor_hr_def)

lemma replica_mock_orders:
  "USE_MOCK_RESPONSES_r cfg \<Longrightarrow>
     advisor_orders cfg lib c prompt st =
       ([Invoke ''orders''],
        result name_orders ''orders'' ''mock'' ''Recent orders: fulfillment 95%, avg delivery 2.3 days.'' None, st)"
  by (simp add: advisor_orders_def)

lemma replica_mock_reports:
  "USE_MOCK_RESPONSES_r cfg \<Longrightarrow>
     advisor_reports cfg c prompt st =
       ([Invoke ''reports''],
        result name_reports ''reports'' ''mock'' ''Reports export mock started.''
          (Some (pending_artifact (uuid4 c (uuid_count st)))),
        st\<lparr>uuid_count := Suc (uuid_count st)\<rparr>)"
  by (simp add: advisor_reports_def draw_uuid_def)

lemma purchase_lower:
  "str_lower lib0 ''show me the purchase order report'' = ''show me the purchase order report''"
  by (simp add: lib0_def ascii_lower_def lower_char_def)

lemma purchase_hits:
  "\<not> any_in kw_general ''show me the purchase order report''"
  "\<not> any_in kw_finance ''show me the purchase order report''"
  "\<not> any_in kw_hr ''show me the purchase order report''"
  "any_in kw_orders ''show me the purchase order report''"
  "\<not> any_in kw_reports ''show me the purchase order report''"
  by (simp_all add: any_in_def kw_general_def kw_finance_def kw_hr_def kw_orders_def kw_reports_def)

lemma purchase_finance_text:
  "mock_reply MOCK_finance ''budget'' ''show me the purchase order report'' =
     ''The annual budget allocation shows 40% for R&D, 30% for Operations, and 30% for Marketing.''"
  by (simp add: mock_reply_def MOCK_finance_def)

lemma purchase_orders_text:
  "mock_reply MOCK_orders ''status'' ''show me the purchase order report'' =
     ''Current order fulfillment rate is at 95% with average delivery time of 2.3 days.''"
  by (simp add: mock_reply_def MOCK_orders_def)

lemma purchase_routing:
  assumes "USE_MOCK_RESPONSES cfg"
    and l: "str_lower lib ''show me the purchase order report'' = ''show me the purchase order report''"
  shows "keyword_routing cfg lib w ''show me the purchase order report'' =
           ([Invoke ''orders''],
            [(title_orders, ''Current order fulfillment rate is at 95% with average delivery time of 2.3 days.'')])"
  by (simp add: keyword_routing_def when_matched_def l purchase_hits advise_def respond_def
        mock_orders [OF assms(1)] purchase_orders_text)

text \<open>
  Counterexample to claim C3 as stated. With mock mode enabled, the Reports advisor of
  func\_replica.py answers the query with source \<open>mock\<close> and attaches an artifact, of
  status \<open>pending\<close>; and the General adapter of AskMeChatBot.py, which does not look at
  the mock flag before it turns to Gen AI, makes an outbound call when a Gen AI client
  exists.
\<close>

theorem mock_reports_artifact_counterexample:
  "USE_MOCK_RESPONSES_r replica_mock
   \<and> r_source (fst (snd (advisor_reports replica_mock cloud0 ''show me the purchase order report'' rstate0))) = ''mock''
   \<and> r_artifact (fst (snd (advisor_reports replica_mock cloud0 ''show me the purchase order report'' rstate0)))
       = Some [(''id'', JS ''uuid-0''), (''type'', JS ''pdf''), (''status'', JS ''pending'')]
   \<and> USE_MOCK_RESPONSES mock_config
   \<and> net_calls (fst (get_general_advice mock_config lib0 world_wordy ''show me the purchase order report''))
       = [''genai chat'']"
proof -
  have m: "USE_MOCK_RESPONSES_r replica_mock" by (simp add: replica_mock_def)
  have u: "uuid4 cloud0 (uuid_count rstate0) = ''uuid-0''"
    by (simp add: cloud0_def rstate0_def str_nat.simps)
  have a: "r_source (fst (snd (advisor_reports replica_mock cloud0 ''show me the purchase order report'' rstate0))) = ''mock''"
    by (simp add: replica_mock_reports [OF m] result_def)
  have b: "r_artifact (fst (snd (advisor_reports replica_mock cloud0 ''show me the purchase order report'' rstate0)))
       = Some [(''id'', JS ''uuid-0''), (''type'', JS ''pdf''), (''status'', JS ''pending'')]"
    by (simp add: replica_mock_reports [OF m] result_def u pending_artifact_def)
  have k: "USE_MOCK_RESPONSES mock_config" by (simp add: mock_config_def)
  have g: "genai_client world_wordy" by (simp add: world_wordy_def)
  have c: "net_calls (fst (get_general_advice mock_config lib0 world_wordy ''show me the purchase order report''))
       = [''genai chat'']"
    by (simp only: mock_general_calls [OF k] g if_True)
  from m a b k c show ?thesis by blast
qed

text \<open>
  Claim C3, amended. With mock mode enabled, the Finance, HR, Orders and Reports adapters
  of AskMeChatBot.py return at once the keyword-matched or default entry of their table of
  mock responses, a text without download marker, and make no outbound call; the General
  adapter skips the agent API but still calls Gen AI when a client exists. The table is
  searched with the lower-cased query, whatever \<open>str.lower\<close> makes of it. The query
  \<open>show me the purchase order report\<close>, which \<open>str.lower\<close> leaves as it is, handed to
  \<open>get_finance_advice\<close> yields the default Finance text (the budget entry), which is no
  error text and carries no marker; routed by keywords, the same query is answered by the
  Orders adapter alone. In
  func\_replica.py with mock mode enabled, the Finance, HR and Orders advisors return a
  fixed text with source \<open>mock\<close> and no artifact, with no outbound call and the bucket
  untouched; the Reports advisor returns a fixed text with source \<open>mock\<close> and an
  artifact of status \<open>pending\<close> under a fresh id, and stores nothing.
\<close>

theorem mock_mode_adapters:
  "(USE_MOCK_RESPONSES cfg \<longrightarrow>
      get_finance_advice cfg lib w query = ([Invoke ''finance''], mock_reply MOCK_finance ''budget'' (str_lower lib query))
    \<and> get_hr_advice cfg lib w query = ([Invoke ''hr''], mock_reply MOCK_hr ''policy'' (str_lower lib query))
    \<and> get_orders_advice cfg lib w query = ([Invoke ''orders''], mock_reply MOCK_orders ''status'' (str_lower lib query))
    \<and> get_reports_advice cfg lib w query = ([Invoke ''reports''], mock_reply MOCK_reports ''analytics'' (str_lower lib query))
    \<and> net_calls (fst (get_finance_advice cfg lib w query) @ fst (get_hr_advice cfg lib w query)
         @ fst (get_orders_advice cfg lib w query) @ fst (get_reports_advice cfg lib w query)) = []
    \<and> \<not> has_marker (snd (get_finance_advice cfg lib w query))
    \<and> \<not> has_marker (snd (get_hr_advice cfg lib w query))
    \<and> \<not> has_marker (snd (get_orders_advice cfg lib w query))
    \<and> \<not> has_marker (snd (get_reports_advice cfg lib w query))
    \<and> net_calls (fst (get_general_advice cfg lib w query)) = (if genai_client w then [''genai chat''] else []))
   \<and> (USE_MOCK_RESPONSES cfg
       \<and> str_lower lib ''show me the purchase order report'' = ''show me the purchase order report'' \<longrightarrow>
      get_finance_advice cfg lib w ''show me the purchase order report'' =
         ([Invoke ''finance''],
          ''The annual budget allocation shows 40% for R&D, 30% for Operations, and 30% for Marketing.'')
    \<and> keyword_routing cfg lib w ''show me the purchase order report'' =
         ([Invoke ''orders''],
          [(title_orders, ''Current order fulfillment rate is at 95% with average delivery time of 2.3 days.'')]))
   \<and> (USE_MOCK_RESPONSES_r rcfg \<longrightarrow>
      advisor_finance rcfg lib c prompt st =
        ([Invoke ''finance''],
         result name_finance ''finance'' ''mock''
           ''Finance advisor mock: budget allocation 40% R&D, 30% Ops, 30% Marketing.'' None, st)
    \<and> advisor_hr rcfg c prompt st =
        ([Invoke ''hr''],
         result name_hr ''hr'' ''mock''
           ''HR policies include 20 days PTO, comprehensive health coverage, and flexible remote work.'' None, st)
    \<and> advisor_orders rcfg lib c prompt st =
        ([Invoke ''orders''],
         result name_orders ''orders'' ''mock'' ''Recent orders: fulfillment 95%, avg delivery 2.3 days.'' None, st)
    \<and> advisor_reports rcfg c prompt st =
        ([Invoke ''reports''],
         result name_reports ''reports'' ''mock'' ''Reports export mock started.''
           (Some (pending_artifact (uuid4 c (uuid_count st)))),
         st\<lparr>uuid_count := Suc (uuid_count st)\<rparr>)
    \<and> objects (snd (snd (advisor_reports rcfg c prompt st))) = objects st)"
proof -
  have ask: "USE_MOCK_RESPONSES cfg \<longrightarrow>
      get_finance_advice cfg lib w query = ([Invoke ''finance''], mock_reply MOCK_finance ''budget'' (str_lower lib query))
    \<and> get_hr_advice cfg lib w query = ([Invoke ''hr''], mock_reply MOCK_hr ''policy'' (str_lower lib query))
    \<and> get_orders_advice cfg lib w query = ([Invoke ''orders''], mock_reply MOCK_orders ''status'' (str_lower lib query))
    \<and> get_reports_advice cfg lib w query = ([Invoke ''reports''], mock_reply MOCK_reports ''analytics'' (str_lower lib query))
    \<and> net_calls (fst (get_finance_advice cfg lib w query) @ fst (get_hr_advice cfg lib w query)
         @ fst (get_orders_advice cfg lib w query) @ fst (get_reports_advice cfg lib w query)) = []
    \<and> \<not> has_marker (snd (get_finance_advice cfg lib w query))
    \<and> \<not> has_marker (snd (get_hr_advice cfg lib w query))
    \<and> \<not> has_marker (snd (get_orders_advice cfg lib w query))
    \<and> \<not> has_marker (snd (get_reports_advice cfg lib w query))
    \<and> net_calls (fst (get_general_advice cfg lib w query)) = (if genai_client w then [''genai chat''] else [])"
  proof
    assume m: "USE_MOCK_RESPONSES cfg"
    note f = mock_finance [OF m, of lib w query]
    note h = mock_hr [OF m, of lib w query]
    note ord = mock_orders [OF m, of lib w query]
    note r = mock_reports [OF m, of lib w query]
    have n: "net_calls (fst (get_finance_advice cfg lib w query) @ fst (get_hr_advice cfg lib w query)
         @ fst (get_orders_advice cfg lib w query) @ fst (get_reports_advice cfg lib w query)) = []"
      by (simp add: f h ord r)
    have mf: "\<not> has_marker (snd (get_finance_advice cfg lib w query))"
      using mock_reply_in [OF defaults_present(1), of "str_lower lib query"] no_marker_MOCK_finance
      by (simp only: f snd_conv) blast
    have mh: "\<not> has_marker (snd (get_hr_advice cfg lib w query))"
      using mock_reply_in [OF defaults_present(2), of "str_lower lib query"] no_marker_MOCK_hr
      by (simp only: h snd_conv) blast
    have mo: "\<not> has_marker (snd (get_orders_advice cfg lib w query))"
      using mock_reply_in [OF defaults_present(3), of "str_lower lib query"] no_marker_MOCK_orders
      by (simp only: ord snd_conv) blast
    have mr: "\<not> has_marker (snd (get_reports_advice cfg lib w query))"
      using mock_reply_in [OF defaults_present(4), of "str_lower lib query"] no_marker_MOCK_reports
      by (simp only: r snd_conv) blast
    note g = mock_general_calls [OF m, of lib w query]
    from f h ord r n mf mh mo mr g
    show "get_finance_advice cfg lib w query = ([Invoke ''finance''], mock_reply MOCK_finance ''budget'' (str_lower lib query))
    \<and> get_hr_advice cfg lib w query = ([Invoke ''hr''], mock_reply MOCK_hr ''policy'' (str_lower lib query))
    \<and> get_orders_advice cfg lib w query = ([Invoke ''orders''], mock_reply MOCK_orders ''status'' (str_lower lib query))
    \<and> get_reports_advice cfg lib w query = ([Invoke ''reports''], mock_reply MOCK_reports ''analytics'' (str_lower lib query))
    \<and> net_calls (fst (get_finance_advice cfg lib w query) @ fst (get_hr_advice cfg lib w query)
         @ fst (get_orders_advice cfg lib w query) @ fst (get_reports_advice cfg lib w query)) = []
    \<and> \<not> has_marker (snd (get_finance_advice cfg lib w query))
    \<and> \<not> has_marker (snd (get_hr_advice cfg lib w query))
    \<and> \<not> has_marker (snd (get_orders_advice cfg lib w query))
    \<and> \<not> has_marker (snd (get_reports_advice cfg lib w query))
    \<and> net_calls (fst (get_general_advice cfg lib w query)) = (if genai_client w then [''genai chat''] else [])"
      by blast
  qed
  have rep: "USE_MOCK_RESPONSES_r rcfg \<longrightarrow>
      advisor_finance rcfg lib c prompt st =
        ([Invoke ''finance''],
         result name_finance ''finance'' ''mock''
           ''Finance advisor mock: budget allocation 40% R&D, 30% Ops, 30% Marketing.'' None, st)
    \<and> advisor_hr rcfg c prompt st =
        ([Invoke ''hr''],
         result name_hr ''hr'' ''mock''
           ''HR policies include 20 days PTO, comprehensive health coverage, and flexible remote work.'' None, st)
    \<and> advisor_orders rcfg lib c prompt st =
        ([Invoke ''orders''],
         result name_orders ''orders'' ''mock'' ''Recent orders: fulfillment 95%, avg delivery 2.3 days.'' None, st)
    \<and> advisor_reports rcfg c prompt st =
        ([Invoke ''reports''],
         result name_reports ''reports'' ''mock'' ''Reports export mock started.''
           (Some (pending_artifact (uuid4 c (uuid_count st)))),
         st\<lparr>uuid_count := Suc (uuid_count st)\<rparr>)
    \<and> objects (snd (snd (advisor_reports rcfg c prompt st))) = objects st"
  proof
    assume m: "USE_MOCK_RESPONSES_r rcfg"
    note f = replica_mock_finance [OF m, of lib c prompt st]
    note h = replica_mock_hr [OF m, of c prompt st]
    note ord = replica_mock_orders [OF m, of lib c prompt st]
    note r = replica_mock_reports [OF m, of c prompt st]
    have s: "objects (snd (snd (advisor_reports rcfg c prompt st))) = objects st"
      by (simp add: r)
    from f h ord r s
    show "advisor_finance rcfg lib c prompt st =
        ([Invoke ''finance''],
         result name_finance ''finance'' ''mock''
           ''Finance advisor mock: budget allocation 40% R&D, 30% Ops, 30% Marketing.'' None, st)
    \<and> advisor_hr rcfg c prompt st =
        ([Invoke ''hr''],
         result name_hr ''hr'' ''mock''
           ''HR policies include 20 days PTO, comprehensive health coverage, and flexible remote work.'' None, st)
    \<and> advisor_orders rcfg lib c prompt st =
        ([Invoke ''orders''],
         result name_orders ''orders'' ''mock'' ''Recent orders: fulfillment 95%, avg delivery 2.3 days.'' None, st)
    \<and> advisor_reports rcfg c prompt st =
        ([Invoke ''reports''],
         result name_reports ''reports'' ''mock'' ''Reports export mock started.''
           (Some (pending_artifact (uuid4 c (uuid_count st)))),
         st\<lparr>uuid_count := Suc (uuid_count st)\<rparr>)
    \<and> objects (snd (snd (advisor_reports rcfg c prompt st))) = objects st"
      by blast
  qed
  have pur: "USE_MOCK_RESPONSES cfg
       \<and> str_lower lib ''show me the purchase order report'' = ''show me the purchase order report'' \<longrightarrow>
      get_finance_advice cfg lib w ''show me the purchase order report'' =
         ([Invoke ''finance''],
          ''The annual budget allocation shows 40% for R&D, 30% for Operations, and 30% for Marketing.'')
    \<and> keyword_routing cfg lib w ''show me the purchase order report'' =
         ([Invoke ''orders''],
          [(title_orders, ''Current order fulfillment rate is at 95% with average delivery time of 2.3 days.'')])"
  proof (intro impI, elim conjE)
    assume m: "USE_MOCK_RESPONSES cfg"
      and l: "str_lower lib ''show me the purchase order report'' = ''show me the purchase order report''"
    have p: "get_finance_advice cfg lib w ''show me the purchase order report'' =
         ([Invoke ''finance''],
          ''The annual budget allocation shows 40% for R&D, 30% for Operations, and 30% for Marketing.'')"
      by (simp only: mock_finance [OF m] l purchase_finance_text)
    note k = purchase_routing [OF m l, of w]
    from p k
    show "get_finance_advice cfg lib w ''show me the purchase order report'' =
         ([Invoke ''finance''],
          ''The annual budget allocation shows 40% for R&D, 30% for Operations, and 30% for Marketing.'')
    \<and> keyword_routing cfg lib w ''show me the purchase order report'' =
         ([Invoke ''orders''],
          [(title_orders, ''Current order fulfillment rate is at 95% with average delivery time of 2.3 days.'')])"
      by blast
  qed
  from ask pur rep show ?thesis by blast
qed

theorem mock_mode_adapters_witness:
  "USE_MOCK_RESPONSES mock_config \<and> USE_MOCK_RESPONSES_r replica_mock
   \<and> get_finance_advice mock_config lib0 world0 ''show me the purchase order report'' =
       ([Invoke ''finance''],
        ''The annual budget allocation shows 40% for R&D, 30% for Operations, and 30% for Marketing.'')
   \<and> \<not> has_marker (snd (get_finance_advice mock_config lib0 world0 ''show me the purchase order report''))
   \<and> keyword_routing mock_config lib0 world0 ''show me the purchase order report'' =
       ([Invoke ''orders''],
        [(title_orders, ''Current order fulfillment rate is at 95% with average delivery time of 2.3 days.'')])
   \<and> advisor_finance replica_mock lib0 cloud0 ''show me the purchase order report'' rstate0 =
       ([Invoke ''finance''],
        result name_finance ''finance'' ''mock''
          ''Finance advisor mock: budget allocation 40% R&D, 30% Ops, 30% Marketing.'' None, rstate0)
   \<and> advisor_reports replica_mock cloud0 ''show me the purchase order report'' rstate0 =
       ([Invoke ''reports''],
        result name_reports ''reports'' ''mock'' ''Reports export mock started.''
          (Some (pending_artifact ''uuid-0'')),
        rstate0\<lparr>uuid_count := 1\<rparr>)"
proof -
  have k: "USE_MOCK_RESPONSES mock_config" by (simp add: mock_config_def)
  have m: "USE_MOCK_RESPONSES_r replica_mock" by (simp add: replica_mock_def)
  have u: "uuid4 cloud0 (uuid_count rstate0) = ''uuid-0''" "Suc (uuid_count rstate0) = 1"
    by (simp_all add: cloud0_def rstate0_def str_nat.simps)
  note t = mock_mode_adapters [of mock_config lib0 world0 "''show me the purchase order report''"
      replica_mock cloud0 "''show me the purchase order report''" rstate0]
  note l = purchase_lower
  from t k l have a: "get_finance_advice mock_config lib0 world0 ''show me the purchase order report'' =
       ([Invoke ''finance''],
        ''The annual budget allocation shows 40% for R&D, 30% for Operations, and 30% for Marketing.'')"
    by blast
  from t k have b: "\<not> has_marker (snd (get_finance_advice mock_config lib0 world0 ''show me the purchase order report''))"
    by blast
  from t k l have c: "keyword_routing mock_config lib0 world0 ''show me the purchase order report'' =
       ([Invoke ''orders''],
        [(title_orders, ''Current order fulfillment rate is at 95% with average delivery time of 2.3 days.'')])"
    by blast
  from t m have d: "advisor_finance replica_mock lib0 cloud0 ''show me the purchase order report'' rstate0 =
       ([Invoke ''finance''],
        result name_finance ''finance'' ''mock''
          ''Finance advisor mock: budget allocation 40% R&D, 30% Ops, 30% Marketing.'' None, rstate0)"
    by blast
  from t m have "advisor_reports replica_mock cloud0 ''show me the purchase order report'' rstate0 =
        ([Invoke ''reports''],
         result name_reports ''reports'' ''mock'' ''Reports export mock started.''
           (Some (pending_artifact (uuid4 cloud0 (uuid_count rstate0)))),
         rstate0\<lparr>uuid_count := Suc (uuid_count rstate0)\<rparr>)"
    by blast
  then have e: "advisor_reports replica_mock cloud0 ''show me the purchase order report'' rstate0 =
       ([Invoke ''reports''],
        result name_reports ''reports'' ''mock'' ''Reports export mock started.''
          (Some (pending_artifact ''uuid-0'')),
        rstate0\<lparr>uuid_count := 1\<rparr>)"
    by (simp only: u)
  from k m a b c d e show ?thesis by blast
qed

end
